theory Spec2Isabelle
  imports Main
begin

section \<open>Errors (src/types/index.ts)\<close>

text \<open>
  The classes of thrown values. \<open>KWTError\<close> and its subclasses \<open>ConfigError\<close>,
  \<open>GitError\<close>, \<open>GitLabError\<close>, \<open>GitHubError\<close> carry a message and an optional
  cause; \<open>PlainError\<close> stands for every other thrown \<open>Error\<close> (\<open>new Error(...)\<close>, a
  schema or JSON parse failure, a file-system failure).
\<close>

datatype error_class = KWTErrorC | ConfigErrorC | GitErrorC | GitLabErrorC | GitHubErrorC | PlainError

datatype js_error = JsError (err_class: error_class) (message: string) (cause: "js_error option")

definition ConfigError :: "string \<Rightarrow> js_error" where
  "ConfigError msg = JsError ConfigErrorC msg None"

definition GitError :: "string \<Rightarrow> js_error option \<Rightarrow> js_error" where
  "GitError msg c = JsError GitErrorC msg c"

definition GitLabError :: "string \<Rightarrow> js_error option \<Rightarrow> js_error" where
  "GitLabError msg c = JsError GitLabErrorC msg c"

definition GitHubError :: "string \<Rightarrow> js_error option \<Rightarrow> js_error" where
  "GitHubError msg c = JsError GitHubErrorC msg c"

definition Error :: "string \<Rightarrow> js_error" where
  "Error msg = JsError PlainError msg None"

section \<open>Configuration data (src/types/index.ts)\<close>

datatype PrefixType = PrefixNone | PrefixManual | PrefixDetect

record PostCommand =
  label :: string
  commands :: "string list"

text \<open>
  An optional property \<open>k?: T\<close> of a JavaScript object: the object has no own property
  \<open>k\<close>, or it has one that holds \<open>undefined\<close>, or it has one that holds a value. Reading
  \<open>o.k\<close> yields \<open>undefined\<close> in the first two cases alike (\<open>read\<close>); the object
  spread and the \<open>in\<close> operator tell them apart.
\<close>

datatype 'a optional = Absent | Undefined | Present 'a

definition read :: "'a optional \<Rightarrow> 'a option" where
  "read p = (case p of Present x \<Rightarrow> Some x | _ \<Rightarrow> None)"

text \<open>
  \<open>Config\<close> is the output type of \<open>ConfigSchema\<close>: \<open>prefixType\<close>, \<open>worktreeDir\<close> and
  \<open>postCommands\<close> carry schema defaults and always hold a value, \<open>manualPrefix\<close> is an
  optional property (\<open>manualPrefix?: string | undefined\<close>).
\<close>

record Config =
  prefixType :: PrefixType
  manualPrefix :: "string optional"
  worktreeDir :: string
  postCommands :: "PostCommand list"

text \<open>
  An untyped JavaScript value, as read from a configuration file or handed to
  \<open>saveLocalConfig\<close>. An object is its list of own properties.
\<close>

datatype js_value =
    JUndefined
  | JNull
  | JBool bool
  | JNum int
  | JStr string
  | JArr "js_value list"
  | JObj "(string \<times> js_value) list"

section \<open>The command runner (utils/exec.ts)\<close>

text \<open>
  Everything the tool does to the outside world is recorded as an event, in order. The
  outside world answers through an environment of oracles, each of which sees the events
  so far, so that the same command may answer differently at different times.
  Reads of the file system, debug-level log lines and spinner updates are not recorded.
\<close>

datatype event =
    Exec string "string list" "string option"
  | RmSync string
  | WriteFile string Config
  | Prompt string
  | LogInfo string
  | LogWarn string
  | LogError string
  | LogSuccess string

text \<open>
  What the \<open>execa\<close> call yields: a result object whose \<open>stdout\<close>, \<open>stderr\<close> and
  \<open>exitCode\<close> may each be undefined; the promise either resolves with it or rejects
  with it (an \<open>ExecaError\<close>).
\<close>

record execa_result =
  r_stdout :: "string option"
  r_stderr :: "string option"
  r_exitCode :: "int option"

datatype execa_outcome = Resolves execa_result | Rejects execa_result

record ExecResult =
  stdout :: string
  stderr :: string
  exitCode :: int

text \<open>
  The environment: the process runner, the file system (\<open>existsSync\<close>; \<open>rmSync\<close> and
  \<open>writeFileSync\<close>, which may throw; \<open>cosmiconfig\<close>'s \<open>explorer.load\<close>, which throws,
  returns null, or returns a result holding the file's value), the path library, the
  user's home directory, the user's answers to confirmation prompts, and \<open>JSON.parse\<close>.
\<close>

record env =
  execa :: "event list \<Rightarrow> string \<Rightarrow> string list \<Rightarrow> string option \<Rightarrow> execa_outcome"
  existsSync :: "event list \<Rightarrow> string \<Rightarrow> bool"
  rmSync_error :: "event list \<Rightarrow> string \<Rightarrow> js_error option"
  writeFileSync_error :: "event list \<Rightarrow> string \<Rightarrow> js_error option"
  cosmiconfig_load :: "event list \<Rightarrow> string \<Rightarrow> js_error + js_value option"
  path_join :: "string \<Rightarrow> string \<Rightarrow> string"
  path_isAbsolute :: "string \<Rightarrow> bool"
  path_resolve :: "string list \<Rightarrow> string"
  homedir :: string
  confirm :: "event list \<Rightarrow> string \<Rightarrow> bool"
  JSON_parse :: "string \<Rightarrow> js_error + js_value"

text \<open>\<open>String(x || '')\<close>\<close>

definition string_or_empty :: "string option \<Rightarrow> string" where
  "string_or_empty x = (case x of None \<Rightarrow> [] | Some s \<Rightarrow> s)"

text \<open>
  \<open>ExecUtils.run\<close>: the \<open>execa\<close> call is wrapped in \<open>try\<close>/\<open>catch\<close>, and the
  \<open>catch\<close> branch returns a result too (exit code \<open>execError.exitCode ?? 1\<close>).
  The last argument is the \<open>cwd\<close> option.
\<close>

definition ExecUtils_run ::
  "env \<Rightarrow> string \<Rightarrow> string list \<Rightarrow> string option \<Rightarrow> event list \<Rightarrow> ExecResult \<times> event list" where
  "ExecUtils_run E command args cwd tr =
     ((case execa E tr command args cwd of
         Resolves r \<Rightarrow>
           \<lparr>stdout = string_or_empty (r_stdout r), stderr = string_or_empty (r_stderr r),
            exitCode = (case r_exitCode r of None \<Rightarrow> 0 | Some c \<Rightarrow> c)\<rparr>
       | Rejects e \<Rightarrow>
           \<lparr>stdout = string_or_empty (r_stdout e), stderr = string_or_empty (r_stderr e),
            exitCode = (case r_exitCode e of None \<Rightarrow> 1 | Some c \<Rightarrow> c)\<rparr>),
      tr @ [Exec command args cwd])"

text \<open>\<open>args.join(' ')\<close>\<close>

fun join_sp :: "string list \<Rightarrow> string" where
  "join_sp [] = []"
| "join_sp [a] = a"
| "join_sp (a # b # bs) = a @ '' '' @ join_sp (b # bs)"

definition newline :: char where
  "newline = CHR 0x0A"

text \<open>\<open>ExecUtils.runOrThrow\<close>: a non-zero exit code becomes a thrown \<open>KWTError\<close>.\<close>

definition ExecUtils_runOrThrow ::
  "env \<Rightarrow> string \<Rightarrow> string list \<Rightarrow> string option \<Rightarrow> event list \<Rightarrow> (js_error + string) \<times> event list" where
  "ExecUtils_runOrThrow E command args cwd tr =
     (case ExecUtils_run E command args cwd tr of
        (result, tr') \<Rightarrow>
          if exitCode result \<noteq> 0
          then (Inl (JsError KWTErrorC
                  (''Command failed: '' @ command @ '' '' @ join_sp args @ [newline] @ stderr result)
                  None), tr')
          else (Inr (stdout result), tr'))"

text \<open>
  \<open>ExecUtils.exists\<close>: \<open>try { await this.run('which', [command]); return true } catch
  { return false }\<close>. The \<open>catch\<close> branch is taken when \<open>run\<close> throws.
\<close>

definition ExecUtils_exists :: "env \<Rightarrow> string \<Rightarrow> event list \<Rightarrow> bool \<times> event list" where
  "ExecUtils_exists E command tr =
     (case ExecUtils_run E ''which'' [command] None tr of (result, tr') \<Rightarrow> (True, tr'))"

section \<open>Sequencing operations\<close>

text \<open>
  An operation takes the events so far and returns a value or a thrown error, together
  with the events after it. \<open>io_bind\<close> is \<open>await\<close> followed by the rest of the function
  (a thrown error skips the rest); \<open>io_catch\<close> is \<open>try { ... } catch (error) { ... }\<close>;
  \<open>io_lift\<close> turns an operation that cannot throw into one of this type.
\<close>

type_synonym 'a io = "event list \<Rightarrow> (js_error + 'a) \<times> event list"

definition io_return :: "'a \<Rightarrow> 'a io" where
  "io_return x tr = (Inr x, tr)"

definition io_throw :: "js_error \<Rightarrow> 'a io" where
  "io_throw e tr = (Inl e, tr)"

definition io_bind :: "'a io \<Rightarrow> ('a \<Rightarrow> 'b io) \<Rightarrow> 'b io" where
  "io_bind m f tr = (case m tr of (Inl e, tr') \<Rightarrow> (Inl e, tr') | (Inr x, tr') \<Rightarrow> f x tr')"

definition io_catch :: "'a io \<Rightarrow> (js_error \<Rightarrow> 'a io) \<Rightarrow> 'a io" where
  "io_catch m h tr = (case m tr of (Inl e, tr') \<Rightarrow> h e tr' | (Inr x, tr') \<Rightarrow> (Inr x, tr'))"

definition io_lift :: "(event list \<Rightarrow> 'a \<times> event list) \<Rightarrow> 'a io" where
  "io_lift m tr = (case m tr of (x, tr') \<Rightarrow> (Inr x, tr'))"

definition io_log :: "event \<Rightarrow> unit io" where
  "io_log ev tr = (Inr (), tr @ [ev])"

text \<open>A \<open>for\<close> loop over a list whose body may throw.\<close>

fun io_foreach :: "'a list \<Rightarrow> ('a \<Rightarrow> unit io) \<Rightarrow> unit io" where
  "io_foreach [] f = io_return ()"
| "io_foreach (x # xs) f = io_bind (f x) (\<lambda>u. io_foreach xs f)"

section \<open>The configuration schema (src/types/index.ts)\<close>

text \<open>
  \<open>ConfigSchema.parse\<close>, field by field. A property that is absent reads as undefined.
  A schema with \<open>.default(d)\<close> yields \<open>d\<close> on undefined; \<open>.optional()\<close> accepts
  undefined; every other mismatch of type is a failure (\<open>None\<close> here).
\<close>

definition get_prop :: "(string \<times> js_value) list \<Rightarrow> string \<Rightarrow> js_value" where
  "get_prop kvs k = (case map_of kvs k of None \<Rightarrow> JUndefined | Some v \<Rightarrow> v)"

text \<open>\<open>z.enum(['none', 'manual', 'detect']).default('none')\<close>\<close>

definition parse_PrefixType :: "js_value \<Rightarrow> PrefixType option" where
  "parse_PrefixType v =
     (case v of
        JUndefined \<Rightarrow> Some PrefixNone
      | JStr s \<Rightarrow>
          if s = ''none'' then Some PrefixNone
          else if s = ''manual'' then Some PrefixManual
          else if s = ''detect'' then Some PrefixDetect
          else None
      | _ \<Rightarrow> None)"

text \<open>\<open>z.string().optional()\<close>\<close>

definition parse_optional_string :: "js_value \<Rightarrow> string option option" where
  "parse_optional_string v =
     (case v of JUndefined \<Rightarrow> Some None | JStr s \<Rightarrow> Some (Some s) | _ \<Rightarrow> None)"

text \<open>\<open>z.string().default(d)\<close>\<close>

definition parse_string_default :: "string \<Rightarrow> js_value \<Rightarrow> string option" where
  "parse_string_default d v =
     (case v of JUndefined \<Rightarrow> Some d | JStr s \<Rightarrow> Some s | _ \<Rightarrow> None)"

text \<open>\<open>z.string()\<close>\<close>

definition parse_string :: "js_value \<Rightarrow> string option" where
  "parse_string v = (case v of JStr s \<Rightarrow> Some s | _ \<Rightarrow> None)"

text \<open>\<open>z.array(z.string())\<close>\<close>

definition parse_string_array :: "js_value \<Rightarrow> string list option" where
  "parse_string_array v = (case v of JArr xs \<Rightarrow> those (map parse_string xs) | _ \<Rightarrow> None)"

text \<open>\<open>PostCommandSchema = z.object({ label: z.string(), commands: z.array(z.string()) })\<close>\<close>

definition parse_PostCommand :: "js_value \<Rightarrow> PostCommand option" where
  "parse_PostCommand v =
     (case v of
        JObj kvs \<Rightarrow>
          (case (parse_string (get_prop kvs ''label''),
                 parse_string_array (get_prop kvs ''commands'')) of
             (Some l, Some cs) \<Rightarrow> Some \<lparr>label = l, commands = cs\<rparr>
           | _ \<Rightarrow> None)
      | _ \<Rightarrow> None)"

text \<open>\<open>z.array(PostCommandSchema).default([])\<close>\<close>

definition parse_postCommands :: "js_value \<Rightarrow> PostCommand list option" where
  "parse_postCommands v =
     (case v of
        JUndefined \<Rightarrow> Some []
      | JArr xs \<Rightarrow> those (map parse_PostCommand xs)
      | _ \<Rightarrow> None)"

text \<open>
  How the object schema builds its output: a key of the schema is set in the output when
  its parsed value is defined, and also when the input has the key (\<open>key in data\<close>), in
  which case an undefined parsed value is kept as a property that holds \<open>undefined\<close>.
\<close>

definition has_key :: "(string \<times> js_value) list \<Rightarrow> string \<Rightarrow> bool" where
  "has_key kvs k = (map_of kvs k \<noteq> None)"

definition output_key :: "(string \<times> js_value) list \<Rightarrow> string \<Rightarrow> 'a option \<Rightarrow> 'a optional" where
  "output_key kvs k parsed =
     (case parsed of
        Some x \<Rightarrow> Present x
      | None \<Rightarrow> if has_key kvs k then Undefined else Absent)"

text \<open>
  \<open>ConfigSchema.parse\<close>: the value must be an object; each key of the schema is read
  with \<open>data[key]\<close> and parsed; unknown properties are dropped; a failure throws the
  schema library's error (its message is not modelled). The three fields with a default
  always parse to a defined value; \<open>manualPrefix\<close> is absent from the output when the
  input has no such key, and holds \<open>undefined\<close> when the input's key does.
\<close>

definition ConfigSchema_parse :: "js_value \<Rightarrow> js_error + Config" where
  "ConfigSchema_parse v =
     (case v of
        JObj kvs \<Rightarrow>
          (case (parse_PrefixType (get_prop kvs ''prefixType''),
                 parse_optional_string (get_prop kvs ''manualPrefix''),
                 parse_string_default ''../worktrees'' (get_prop kvs ''worktreeDir''),
                 parse_postCommands (get_prop kvs ''postCommands'')) of
             (Some pt, Some mp, Some wd, Some pcs) \<Rightarrow>
               Inr \<lparr>prefixType = pt,
                    manualPrefix = output_key kvs ''manualPrefix'' mp,
                    worktreeDir = wd, postCommands = pcs\<rparr>
           | _ \<Rightarrow> Inl (Error ''ZodError''))
      | _ \<Rightarrow> Inl (Error ''ZodError''))"

section \<open>The configuration manager (config/manager.ts)\<close>

record ConfigManager =
  cm_cwd :: string
  localConfig :: "Config option"
  globalConfig :: "Config option"
  mergedConfig :: "Config option"

text \<open>\<open>new ConfigManager(cwd)\<close>\<close>

definition new_ConfigManager :: "string \<Rightarrow> ConfigManager" where
  "new_ConfigManager d =
     \<lparr>cm_cwd = d, localConfig = None, globalConfig = None, mergedConfig = None\<rparr>"

definition defaultConfig :: Config where
  "defaultConfig =
     \<lparr>prefixType = PrefixNone, manualPrefix = Absent, worktreeDir = ''../worktrees'',
      postCommands = []\<rparr>"

text \<open>
  The object spread \<open>{ ...a, ...b }\<close> on two \<open>Config\<close> objects: every own property of
  \<open>b\<close> is copied over that of \<open>a\<close>, also one that holds \<open>undefined\<close>; \<open>manualPrefix\<close>
  is the one property \<open>b\<close> may lack, and then that of \<open>a\<close> stays.
\<close>

definition spread :: "Config \<Rightarrow> Config \<Rightarrow> Config" where
  "spread a b =
     \<lparr>prefixType = prefixType b,
      manualPrefix = (case manualPrefix b of Absent \<Rightarrow> manualPrefix a | p \<Rightarrow> p),
      worktreeDir = worktreeDir b,
      postCommands = postCommands b\<rparr>"

text \<open>
  \<open>mergeConfigs\<close>. The test \<open>if (local.postCommands)\<close> is on an array, which is truthy
  also when empty.
\<close>

definition mergeConfigs :: "Config option \<Rightarrow> Config option \<Rightarrow> Config" where
  "mergeConfigs glob loc =
     (let merged = defaultConfig;
          merged = (case glob of None \<Rightarrow> merged | Some g \<Rightarrow> spread merged g);
          merged = (case loc of None \<Rightarrow> merged
                    | Some l \<Rightarrow> (spread merged l)\<lparr>postCommands := postCommands l\<rparr>)
      in merged)"

definition localConfigPath :: "env \<Rightarrow> ConfigManager \<Rightarrow> string" where
  "localConfigPath E cm = path_join E (cm_cwd cm) ''.kwt''"

definition globalConfigPath :: "env \<Rightarrow> string" where
  "globalConfigPath E = path_join E (homedir E) ''.kwt''"

text \<open>
  \<open>loadLocalConfig\<close> and \<open>loadGlobalConfig\<close>: the whole body is inside \<open>try\<close>, and the
  \<open>catch\<close> branch logs at debug level and returns null.
\<close>

definition loadLocalConfig :: "env \<Rightarrow> ConfigManager \<Rightarrow> event list \<Rightarrow> Config option" where
  "loadLocalConfig E cm tr =
     (if \<not> existsSync E tr (localConfigPath E cm) then None
      else case cosmiconfig_load E tr (localConfigPath E cm) of
             Inl err \<Rightarrow> None
           | Inr None \<Rightarrow> None
           | Inr (Some config) \<Rightarrow>
               (case ConfigSchema_parse config of Inl err \<Rightarrow> None | Inr c \<Rightarrow> Some c))"

definition loadGlobalConfig :: "env \<Rightarrow> event list \<Rightarrow> Config option" where
  "loadGlobalConfig E tr =
     (if \<not> existsSync E tr (globalConfigPath E) then None
      else case cosmiconfig_load E tr (globalConfigPath E) of
             Inl err \<Rightarrow> None
           | Inr None \<Rightarrow> None
           | Inr (Some config) \<Rightarrow>
               (case ConfigSchema_parse config of Inl err \<Rightarrow> None | Inr c \<Rightarrow> Some c))"

text \<open>
  \<open>loadConfig\<close>: returns the cached merge when there is one; otherwise loads the global
  file, then the local file, merges and caches. The result type allows for a thrown
  error, which is what a caller of the \<open>async\<close> method has to expect.
\<close>

definition loadConfig ::
  "env \<Rightarrow> ConfigManager \<Rightarrow> event list \<Rightarrow> (js_error + Config) \<times> ConfigManager" where
  "loadConfig E cm tr =
     (case mergedConfig cm of
        Some m \<Rightarrow> (Inr m, cm)
      | None \<Rightarrow>
          (let g = loadGlobalConfig E tr;
               l = loadLocalConfig E cm tr;
               m = mergeConfigs g l
           in (Inr m, cm\<lparr>globalConfig := g, localConfig := l, mergedConfig := Some m\<rparr>)))"

text \<open>
  \<open>saveLocalConfig\<close>: validate, write, update the cache; any failure in between is
  rethrown as a \<open>ConfigError\<close>.
\<close>

definition saveLocalConfig ::
  "env \<Rightarrow> ConfigManager \<Rightarrow> js_value \<Rightarrow> event list \<Rightarrow>
     (js_error + unit) \<times> ConfigManager \<times> event list" where
  "saveLocalConfig E cm config tr =
     (case ConfigSchema_parse config of
        Inl err \<Rightarrow> (Inl (ConfigError (''Failed to save local config: '' @ message err)), cm, tr)
      | Inr validatedConfig \<Rightarrow>
          (case writeFileSync_error E tr (localConfigPath E cm) of
             Some err \<Rightarrow>
               (Inl (ConfigError (''Failed to save local config: '' @ message err)), cm, tr)
           | None \<Rightarrow>
               (Inr (),
                cm\<lparr>localConfig := Some validatedConfig,
                   mergedConfig := Some (mergeConfigs (globalConfig cm) (Some validatedConfig))\<rparr>,
                tr @ [WriteFile (localConfigPath E cm) validatedConfig])))"

section \<open>Strings\<close>

text \<open>
  A string is a list of characters; the model covers the code units below 256.
  \<open>trim\<close> removes white space and line terminators at both ends; \<open>split_on\<close> is
  \<open>split\<close> with a one-character separator (the result is never empty);
  \<open>startsWith\<close> and \<open>endsWith\<close> compare a prefix and a suffix; \<open>substring(n)\<close> is
  \<open>drop n\<close>.
\<close>

definition is_ws :: "char \<Rightarrow> bool" where
  "is_ws c = (c \<in> {CHR 0x09, CHR 0x0A, CHR 0x0B, CHR 0x0C, CHR 0x0D, CHR '' '', CHR 0xA0})"

definition trim :: "string \<Rightarrow> string" where
  "trim s = rev (dropWhile is_ws (rev (dropWhile is_ws s)))"

fun split_on :: "char \<Rightarrow> string \<Rightarrow> string list" where
  "split_on c [] = [[]]"
| "split_on c (x # xs) =
     (if x = c then [] # split_on c xs
      else (case split_on c xs of [] \<Rightarrow> [[x]] | w # ws \<Rightarrow> (x # w) # ws))"

definition startsWith :: "string \<Rightarrow> string \<Rightarrow> bool" where
  "startsWith s pre = (take (length pre) s = pre)"

definition endsWith :: "string \<Rightarrow> string \<Rightarrow> bool" where
  "endsWith s suf = (length suf \<le> length s \<and> drop (length s - length suf) s = suf)"

section \<open>Regular expressions\<close>

text \<open>
  The regular expressions of the source are read by a backtracking matcher, as
  JavaScript's is: alternatives are tried in order, \<open>?\<close> and \<open>+\<close> prefer the longest
  match, \<open>+?\<close> the shortest, and the first way through that reaches the end of the
  pattern wins. Repetition is needed for character classes only.
\<close>

datatype regex =
    Lit string
  | Chars "char \<Rightarrow> bool"
  | Seq regex regex
  | Alt regex regex
  | Opt regex
  | Plus "char \<Rightarrow> bool"
  | PlusLazy "char \<Rightarrow> bool"
  | Group nat regex
  | Bol
  | Eol

type_synonym captures = "nat \<Rightarrow> string option"

text \<open>
  \<open>c+\<close> and \<open>c+?\<close> at position \<open>i\<close> with \<open>s\<close> left to read; \<open>k\<close> is the rest of the
  match, which gets the new position and what is left.
\<close>

fun plus_greedy :: "(char \<Rightarrow> bool) \<Rightarrow> nat \<Rightarrow> string \<Rightarrow> (nat \<Rightarrow> string \<Rightarrow> 'a option) \<Rightarrow> 'a option" where
  "plus_greedy p i [] k = None"
| "plus_greedy p i (x # xs) k =
     (if p x then
        (case plus_greedy p (Suc i) xs k of Some r \<Rightarrow> Some r | None \<Rightarrow> k (Suc i) xs)
      else None)"

fun plus_lazy :: "(char \<Rightarrow> bool) \<Rightarrow> nat \<Rightarrow> string \<Rightarrow> (nat \<Rightarrow> string \<Rightarrow> 'a option) \<Rightarrow> 'a option" where
  "plus_lazy p i [] k = None"
| "plus_lazy p i (x # xs) k =
     (if p x then
        (case k (Suc i) xs of Some r \<Rightarrow> Some r | None \<Rightarrow> plus_lazy p (Suc i) xs k)
      else None)"

text \<open>
  \<open>rmatch r i s c k\<close>: match \<open>r\<close> at position \<open>i\<close> of the input, where \<open>s\<close> is left to
  read and \<open>c\<close> holds the groups captured so far, then continue with \<open>k\<close>.
\<close>

fun rmatch ::
  "regex \<Rightarrow> nat \<Rightarrow> string \<Rightarrow> captures \<Rightarrow> (nat \<Rightarrow> string \<Rightarrow> captures \<Rightarrow> 'a option) \<Rightarrow> 'a option" where
  "rmatch (Lit l) i s c k =
     (if startsWith s l then k (i + length l) (drop (length l) s) c else None)"
| "rmatch (Chars p) i s c k =
     (case s of [] \<Rightarrow> None | x # xs \<Rightarrow> if p x then k (Suc i) xs c else None)"
| "rmatch (Seq a b) i s c k = rmatch a i s c (\<lambda>i' s' c'. rmatch b i' s' c' k)"
| "rmatch (Alt a b) i s c k =
     (case rmatch a i s c k of Some r \<Rightarrow> Some r | None \<Rightarrow> rmatch b i s c k)"
| "rmatch (Opt a) i s c k =
     (case rmatch a i s c k of Some r \<Rightarrow> Some r | None \<Rightarrow> k i s c)"
| "rmatch (Plus p) i s c k = plus_greedy p i s (\<lambda>i' s'. k i' s' c)"
| "rmatch (PlusLazy p) i s c k = plus_lazy p i s (\<lambda>i' s'. k i' s' c)"
| "rmatch (Group n a) i s c k =
     rmatch a i s c (\<lambda>i' s' c'. k i' s' (c'(n \<mapsto> take (i' - i) s)))"
| "rmatch Bol i s c k = (if i = 0 then k i s c else None)"
| "rmatch Eol i s c k = (if s = [] then k i s c else None)"

text \<open>
  \<open>String.prototype.match\<close> with a regular expression without the \<open>g\<close> flag: the
  first position at which the pattern matches; the result is the groups.
\<close>

fun match_from :: "regex \<Rightarrow> nat \<Rightarrow> string \<Rightarrow> captures option" where
  "match_from r i [] = rmatch r i [] (\<lambda>n. None) (\<lambda>i' s' c'. Some c')"
| "match_from r i (x # xs) =
     (case rmatch r i (x # xs) (\<lambda>n. None) (\<lambda>i' s' c'. Some c') of
        Some c \<Rightarrow> Some c
      | None \<Rightarrow> match_from r (Suc i) xs)"

definition String_match :: "string \<Rightarrow> regex \<Rightarrow> captures option" where
  "String_match s r = match_from r 0 s"

text \<open>
  \<open>String.prototype.replace\<close> with a regular expression with the \<open>g\<close> flag and a
  replacement text without patterns: scanning from position \<open>i\<close>, every match is
  replaced and the scan goes on after it; a character at which nothing matches is
  copied; after an empty match the next character is copied.
\<close>

function replace_from :: "regex \<Rightarrow> string \<Rightarrow> nat \<Rightarrow> string \<Rightarrow> string" where
  "replace_from r rep i s =
     (case rmatch r i s (\<lambda>n. None) (\<lambda>i' s' c'. Some s') of
        Some s' \<Rightarrow>
          if length s' < length s then rep @ replace_from r rep (i + (length s - length s')) s'
          else (case s of [] \<Rightarrow> rep | x # xs \<Rightarrow> rep @ x # replace_from r rep (Suc i) xs)
      | None \<Rightarrow> (case s of [] \<Rightarrow> [] | x # xs \<Rightarrow> x # replace_from r rep (Suc i) xs))"
  by pat_completeness auto
termination
  by (relation "measure (\<lambda>(r, rep, i, s). length s)") auto

declare replace_from.simps [simp del]

definition String_replace_all :: "string \<Rightarrow> regex \<Rightarrow> string \<Rightarrow> string" where
  "String_replace_all s r rep = replace_from r rep 0 s"

text \<open>The character classes of the source's patterns.\<close>

definition is_lower :: "char \<Rightarrow> bool" where
  "is_lower c = (c \<in> set ''abcdefghijklmnopqrstuvwxyz'')"

definition is_upper :: "char \<Rightarrow> bool" where
  "is_upper c = (c \<in> set ''ABCDEFGHIJKLMNOPQRSTUVWXYZ'')"

definition is_digit :: "char \<Rightarrow> bool" where
  "is_digit c = (c \<in> set ''0123456789'')"

text \<open>\<open>.\<close> matches everything but a line terminator.\<close>

definition dot :: "char \<Rightarrow> bool" where
  "dot c = (c \<noteq> CHR 0x0A \<and> c \<noteq> CHR 0x0D)"

text \<open>\<open>\w\<close>\<close>

definition is_word :: "char \<Rightarrow> bool" where
  "is_word c = (is_lower c \<or> is_upper c \<or> is_digit c \<or> c = CHR ''_'')"

text \<open>A pattern written as the sequence of its parts.\<close>

fun Seqs :: "regex list \<Rightarrow> regex" where
  "Seqs [] = Lit []"
| "Seqs [r] = r"
| "Seqs (r # rs) = Seq r (Seqs rs)"

section \<open>The worktree manager (git/worktrees.ts)\<close>

text \<open>
  A worktree record while it is being parsed (\<open>Partial<GitWorktree>\<close>): every property
  may be missing. The parser casts it to \<open>GitWorktree\<close> without a check, so the result
  list has the same type.
\<close>

record GitWorktree =
  path :: "string option"
  branch :: "string option"
  commit :: "string option"
  bare :: "bool option"
  detached :: "bool option"

definition empty_worktree :: GitWorktree where
  "empty_worktree = \<lparr>path = None, branch = None, commit = None, bare = None, detached = None\<rparr>"

text \<open>\<open>if (currentWorktree.path)\<close>: a missing or empty string is falsy.\<close>

definition has_path :: "GitWorktree \<Rightarrow> bool" where
  "has_path w = (case path w of None \<Rightarrow> False | Some p \<Rightarrow> p \<noteq> [])"

text \<open>One turn of the loop over the lines; the state is \<open>(worktrees, currentWorktree)\<close>.\<close>

definition listWorktrees_step ::
  "GitWorktree list \<times> GitWorktree \<Rightarrow> string \<Rightarrow> GitWorktree list \<times> GitWorktree" where
  "listWorktrees_step st line =
     (case st of (worktrees, currentWorktree) \<Rightarrow>
        if startsWith line ''worktree '' then
          ((if has_path currentWorktree then worktrees @ [currentWorktree] else worktrees),
           empty_worktree\<lparr>path := Some (drop 9 line)\<rparr>)
        else if startsWith line ''HEAD '' then
          (worktrees, currentWorktree\<lparr>commit := Some (drop 5 line)\<rparr>)
        else if startsWith line ''branch '' then
          (worktrees, currentWorktree\<lparr>branch := Some (drop 7 line)\<rparr>)
        else if line = ''bare'' then
          (worktrees, currentWorktree\<lparr>bare := Some True\<rparr>)
        else if line = ''detached'' then
          (worktrees, currentWorktree\<lparr>detached := Some True\<rparr>)
        else (worktrees, currentWorktree))"

text \<open>The loop, and the push of the last record after it.\<close>

definition parse_lines :: "string list \<Rightarrow> GitWorktree list" where
  "parse_lines ls =
     (case foldl listWorktrees_step ([], empty_worktree) ls of
        (worktrees, currentWorktree) \<Rightarrow>
          if has_path currentWorktree then worktrees @ [currentWorktree] else worktrees)"

definition porcelain_lines :: "string \<Rightarrow> string list" where
  "porcelain_lines output = split_on newline (trim output)"

definition listWorktrees ::
  "env \<Rightarrow> string \<Rightarrow> event list \<Rightarrow> (js_error + GitWorktree list) \<times> event list" where
  "listWorktrees E cwd tr =
     (case ExecUtils_runOrThrow E ''git'' [''worktree'', ''list'', ''--porcelain''] (Some cwd) tr of
        (Inl err, tr') \<Rightarrow>
          (Inl (GitError (''Failed to list worktrees: '' @ message err) (Some err)), tr')
      | (Inr output, tr') \<Rightarrow> (Inr (parse_lines (porcelain_lines output)), tr'))"

text \<open>
  \<open>createWorktree\<close>; the options default to \<open>createBranch = true\<close>, \<open>force = false\<close>,
  \<open>checkout = true\<close> at the call.
\<close>

definition createWorktree ::
  "env \<Rightarrow> string \<Rightarrow> string \<Rightarrow> string \<Rightarrow> bool \<Rightarrow> bool \<Rightarrow> bool \<Rightarrow> event list \<Rightarrow>
     (js_error + unit) \<times> event list" where
  "createWorktree E cwd p branchName createBranch force checkout tr =
     (let args = [''worktree'', ''add''];
          args = (if force then args @ [''--force''] else args);
          args = (if createBranch then args @ [''-b'', branchName]
                  else if \<not> checkout then args @ [''--detach''] else args);
          args = args @ [p];
          args = (if \<not> createBranch \<and> checkout then args @ [branchName] else args)
      in case ExecUtils_runOrThrow E ''git'' args (Some cwd) tr of
           (Inl err, tr') \<Rightarrow>
             (Inl (GitError (''Failed to create worktree: '' @ message err) (Some err)), tr')
         | (Inr out, tr') \<Rightarrow> (Inr (), tr'))"

text \<open>
  \<open>removeWorktree\<close>. When the command fails, and \<open>force\<close> is set and the directory
  still exists, the directory is deleted and \<open>git worktree prune\<close> is run through the
  non-throwing \<open>ExecUtils.run\<close>; a thrown \<open>rmSync\<close> is logged as a warning (and the
  prune is then skipped). In every case the \<open>catch\<close> branch ends by throwing a
  \<open>GitError\<close> built from the original error.
\<close>

definition removeWorktree ::
  "env \<Rightarrow> string \<Rightarrow> string \<Rightarrow> bool \<Rightarrow> event list \<Rightarrow> (js_error + unit) \<times> event list" where
  "removeWorktree E cwd p force tr =
     (let args = [''worktree'', ''remove''];
          args = (if force then args @ [''--force''] else args);
          args = args @ [p]
      in case ExecUtils_runOrThrow E ''git'' args (Some cwd) tr of
           (Inr out, tr') \<Rightarrow> (Inr (), tr')
         | (Inl err, tr') \<Rightarrow>
             (let tr'' =
                (if force \<and> existsSync E tr' p then
                   (case rmSync_error E tr' p of
                      Some cleanupError \<Rightarrow>
                        tr' @ [RmSync p,
                               LogWarn (''Manual cleanup also failed: '' @ message cleanupError)]
                    | None \<Rightarrow>
                        snd (ExecUtils_run E ''git'' [''worktree'', ''prune''] (Some cwd)
                               (tr' @ [RmSync p])))
                 else tr')
              in (Inl (GitError (''Failed to remove worktree: '' @ message err) (Some err)), tr'')))"

text \<open>
  \<open>worktreeExists\<close>: the listing is awaited outside any \<open>try\<close>, so its error
  propagates.
\<close>

definition worktreeExists ::
  "env \<Rightarrow> string \<Rightarrow> string \<Rightarrow> event list \<Rightarrow> (js_error + bool) \<times> event list" where
  "worktreeExists E cwd p tr =
     (case listWorktrees E cwd tr of
        (Inl err, tr') \<Rightarrow> (Inl err, tr')
      | (Inr worktrees, tr') \<Rightarrow>
          (let absolutePath = (if path_isAbsolute E p then p else path_resolve E [cwd, p])
           in (Inr (list_ex (\<lambda>wt. path_resolve E [string_or_empty (path wt)] = absolutePath)
                       worktrees), tr')))"

text \<open>\<open>findWorktreeByName\<close>: the first worktree whose path ends in \<open>/name\<close> or \<open>\name\<close>.\<close>

definition findWorktreeByName ::
  "env \<Rightarrow> string \<Rightarrow> string \<Rightarrow> event list \<Rightarrow> (js_error + GitWorktree option) \<times> event list" where
  "findWorktreeByName E cwd name tr =
     (case listWorktrees E cwd tr of
        (Inl err, tr') \<Rightarrow> (Inl err, tr')
      | (Inr worktrees, tr') \<Rightarrow>
          (Inr (find (\<lambda>wt. endsWith (string_or_empty (path wt)) (''/'' @ name)
                           \<or> endsWith (string_or_empty (path wt)) (CHR 0x5C # name))
                  worktrees), tr'))"

definition resolveWorktreePath :: "env \<Rightarrow> string \<Rightarrow> string \<Rightarrow> string \<Rightarrow> string" where
  "resolveWorktreePath E cwd dir name =
     (let baseDir = (if path_isAbsolute E dir then dir else path_join E cwd dir)
      in path_join E baseDir name)"

section \<open>The remote manager (git/remotes.ts)\<close>

text \<open>\<open>/git@[^:]+:([^/]+\/)?(.+?)(?:\.git)?$/\<close>\<close>

definition ssh_url_pattern :: regex where
  "ssh_url_pattern =
     Seqs [Lit ''git@'', Plus (\<lambda>c. c \<noteq> CHR '':''), Lit '':'',
           Opt (Group 1 (Seqs [Plus (\<lambda>c. c \<noteq> CHR ''/''), Lit ''/''])),
           Group 2 (PlusLazy dot),
           Opt (Lit ''.git''), Eol]"

text \<open>\<open>/https?:\/\/[^/]+\/([^/]+\/)?(.+?)(?:\.git)?(?:\/)?$/\<close>\<close>

definition https_url_pattern :: regex where
  "https_url_pattern =
     Seqs [Lit ''http'', Opt (Lit ''s''), Lit ''://'', Plus (\<lambda>c. c \<noteq> CHR ''/''), Lit ''/'',
           Opt (Group 1 (Seqs [Plus (\<lambda>c. c \<noteq> CHR ''/''), Lit ''/''])),
           Group 2 (PlusLazy dot),
           Opt (Lit ''.git''), Opt (Lit ''/''), Eol]"

text \<open>\<open>match?.[2]\<close> is truthy: there is a match and its second group is a non-empty string.\<close>

definition group2 :: "captures option \<Rightarrow> string option" where
  "group2 m =
     (case m of None \<Rightarrow> None
      | Some c \<Rightarrow> (case c 2 of None \<Rightarrow> None | Some g \<Rightarrow> if g = [] then None else Some g))"

definition extractRepoName :: "string \<Rightarrow> js_error + string" where
  "extractRepoName url =
     (if startsWith url ''git@'' then
        (case group2 (String_match url ssh_url_pattern) of
           Some repoName \<Rightarrow> Inr repoName
         | None \<Rightarrow> Inl (GitError (''Unable to parse SSH git URL: '' @ url) None))
      else if startsWith url ''http'' then
        (case group2 (String_match url https_url_pattern) of
           Some repoName \<Rightarrow> Inr repoName
         | None \<Rightarrow> Inl (GitError (''Unable to parse HTTPS git URL: '' @ url) None))
      else Inl (GitError (''Unsupported git URL format: '' @ url) None))"

record GitRemote =
  remote_name :: string
  remote_url :: string
  remote_type :: string

text \<open>\<open>/^(\S+)\s+(\S+)\s+\((\w+)\)$/\<close>\<close>

definition remote_line_pattern :: regex where
  "remote_line_pattern =
     Seqs [Bol, Group 1 (Plus (\<lambda>c. \<not> is_ws c)), Plus is_ws,
           Group 2 (Plus (\<lambda>c. \<not> is_ws c)), Plus is_ws,
           Lit ''('', Group 3 (Plus is_word), Lit '')'', Eol]"

definition parse_remote_line :: "string \<Rightarrow> GitRemote option" where
  "parse_remote_line line =
     (case String_match line remote_line_pattern of
        None \<Rightarrow> None
      | Some m \<Rightarrow>
          (case (m 1, m 2, m 3) of
             (Some n, Some u, Some t) \<Rightarrow>
               if n \<noteq> [] \<and> u \<noteq> [] \<and> t \<noteq> []
               then Some \<lparr>remote_name = n, remote_url = u, remote_type = t\<rparr> else None
           | _ \<Rightarrow> None))"

definition getRemotes :: "env \<Rightarrow> string \<Rightarrow> GitRemote list io" where
  "getRemotes E cwd =
     io_catch
       (io_bind (ExecUtils_runOrThrow E ''git'' [''remote'', ''-v''] (Some cwd))
          (\<lambda>output.
             io_return (List.map_filter parse_remote_line
               (filter (\<lambda>line. trim line \<noteq> []) (split_on newline (trim output))))))
       (\<lambda>error. io_throw (GitError (''Failed to get git remotes: '' @ message error) (Some error)))"

definition getOriginUrl :: "env \<Rightarrow> string \<Rightarrow> string io" where
  "getOriginUrl E cwd =
     io_bind (getRemotes E cwd)
       (\<lambda>remotes.
          case find (\<lambda>r. remote_name r = ''origin'' \<and> remote_type r = ''fetch'') remotes of
            None \<Rightarrow> io_throw (GitError ''No origin remote found'' None)
          | Some origin \<Rightarrow> io_return (remote_url origin))"

text \<open>\<open>GitRemoteManager.generatePrefix\<close>\<close>

definition remote_generatePrefix :: "env \<Rightarrow> string \<Rightarrow> string io" where
  "remote_generatePrefix E cwd =
     io_bind (getOriginUrl E cwd)
       (\<lambda>originUrl.
          case extractRepoName originUrl of
            Inl err \<Rightarrow> io_throw err
          | Inr repoName \<Rightarrow> io_return (repoName @ ''-''))"

definition isGitRepo :: "env \<Rightarrow> string \<Rightarrow> event list \<Rightarrow> bool \<times> event list" where
  "isGitRepo E cwd tr =
     (case ExecUtils_runOrThrow E ''git'' [''rev-parse'', ''--git-dir''] (Some cwd) tr of
        (Inl err, tr') \<Rightarrow> (False, tr')
      | (Inr out, tr') \<Rightarrow> (True, tr'))"

definition branchExists :: "env \<Rightarrow> string \<Rightarrow> string \<Rightarrow> event list \<Rightarrow> bool \<times> event list" where
  "branchExists E cwd branchName tr =
     (case ExecUtils_runOrThrow E ''git''
             [''show-ref'', ''--verify'', ''--quiet'', ''refs/heads/'' @ branchName] (Some cwd) tr of
        (Inl err, tr') \<Rightarrow> (False, tr')
      | (Inr out, tr') \<Rightarrow> (True, tr'))"

definition remoteBranchExists ::
  "env \<Rightarrow> string \<Rightarrow> string \<Rightarrow> string \<Rightarrow> event list \<Rightarrow> bool \<times> event list" where
  "remoteBranchExists E cwd branchName remote tr =
     (case ExecUtils_runOrThrow E ''git''
             [''show-ref'', ''--verify'', ''--quiet'',
              ''refs/remotes/'' @ remote @ ''/'' @ branchName] (Some cwd) tr of
        (Inl err, tr') \<Rightarrow> (False, tr')
      | (Inr out, tr') \<Rightarrow> (True, tr'))"

section \<open>The hosting CLI managers (git/gitlab.ts, git/github.ts)\<close>

text \<open>
  A change-request number is a natural number; \<open>number.toString()\<close> and
  \<open>`${number}`\<close> render it in decimal (as JavaScript does for every integer below
  \<open>10^21\<close>).
\<close>

definition digit_char :: "nat \<Rightarrow> char" where
  "digit_char d = ''0123456789'' ! d"

fun Number_toString :: "nat \<Rightarrow> string" where
  "Number_toString n =
     (if n < 10 then [digit_char n]
      else Number_toString (n div 10) @ [digit_char (n mod 10)])"

declare Number_toString.simps [simp del]

definition isGlabAvailable :: "env \<Rightarrow> event list \<Rightarrow> bool \<times> event list" where
  "isGlabAvailable E tr = ExecUtils_exists E ''glab'' tr"

definition isGhAvailable :: "env \<Rightarrow> event list \<Rightarrow> bool \<times> event list" where
  "isGhAvailable E tr = ExecUtils_exists E ''gh'' tr"

text \<open>
  \<open>getMergeRequest\<close>: the availability check throws outside the \<open>try\<close>; a failed
  command or a failed \<open>JSON.parse\<close> is rethrown as a \<open>GitLabError\<close>. The parsed value
  is cast to \<open>GitLabMR\<close> without a check, so the result is an untyped value.
\<close>

definition getMergeRequest ::
  "env \<Rightarrow> string \<Rightarrow> nat \<Rightarrow> event list \<Rightarrow> (js_error + js_value) \<times> event list" where
  "getMergeRequest E cwd iid tr =
     (case isGlabAvailable E tr of
        (False, tr1) \<Rightarrow>
          (Inl (GitLabError ''glab CLI is not available. Please install it first.'' None), tr1)
      | (True, tr1) \<Rightarrow>
          (case ExecUtils_runOrThrow E ''glab''
                  [''mr'', ''view'', Number_toString iid, ''--output'', ''json''] (Some cwd) tr1 of
             (Inl err, tr2) \<Rightarrow>
               (Inl (GitLabError (''Failed to get merge request '' @ Number_toString iid @ '': ''
                                   @ message err) (Some err)), tr2)
           | (Inr output, tr2) \<Rightarrow>
               (case JSON_parse E output of
                  Inl err \<Rightarrow>
                    (Inl (GitLabError (''Failed to get merge request '' @ Number_toString iid
                                        @ '': '' @ message err) (Some err)), tr2)
                | Inr mrData \<Rightarrow> (Inr mrData, tr2))))"

definition mergeRequestExists :: "env \<Rightarrow> string \<Rightarrow> nat \<Rightarrow> event list \<Rightarrow> bool \<times> event list" where
  "mergeRequestExists E cwd iid tr =
     (case getMergeRequest E cwd iid tr of
        (Inl err, tr') \<Rightarrow> (False, tr')
      | (Inr mr, tr') \<Rightarrow> (True, tr'))"

definition getPullRequest ::
  "env \<Rightarrow> string \<Rightarrow> nat \<Rightarrow> event list \<Rightarrow> (js_error + js_value) \<times> event list" where
  "getPullRequest E cwd number tr =
     (case isGhAvailable E tr of
        (False, tr1) \<Rightarrow>
          (Inl (GitHubError ''gh CLI is not available. Please install it first.'' None), tr1)
      | (True, tr1) \<Rightarrow>
          (case ExecUtils_runOrThrow E ''gh''
                  [''pr'', ''view'', Number_toString number, ''--json'',
                   ''number,title,headRefName,baseRefName,state,url''] (Some cwd) tr1 of
             (Inl err, tr2) \<Rightarrow>
               (Inl (GitHubError (''Failed to get pull request '' @ Number_toString number @ '': ''
                                   @ message err) (Some err)), tr2)
           | (Inr output, tr2) \<Rightarrow>
               (case JSON_parse E output of
                  Inl err \<Rightarrow>
                    (Inl (GitHubError (''Failed to get pull request '' @ Number_toString number
                                        @ '': '' @ message err) (Some err)), tr2)
                | Inr prData \<Rightarrow> (Inr prData, tr2))))"

definition pullRequestExists :: "env \<Rightarrow> string \<Rightarrow> nat \<Rightarrow> event list \<Rightarrow> bool \<times> event list" where
  "pullRequestExists E cwd number tr =
     (case getPullRequest E cwd number tr of
        (Inl err, tr') \<Rightarrow> (False, tr')
      | (Inr pr, tr') \<Rightarrow> (True, tr'))"

text \<open>
  Reading a property of an untyped value, and using a value as a string: reading a
  property of null or undefined throws a \<open>TypeError\<close>, and so does calling \<open>replace\<close>
  on a value that is not a string.
\<close>

definition js_get :: "js_value \<Rightarrow> string \<Rightarrow> js_error + js_value" where
  "js_get v k =
     (case v of
        JObj kvs \<Rightarrow> Inr (get_prop kvs k)
      | JNull \<Rightarrow> Inl (Error ''TypeError'')
      | JUndefined \<Rightarrow> Inl (Error ''TypeError'')
      | _ \<Rightarrow> Inr JUndefined)"

definition js_string_property :: "js_value \<Rightarrow> string \<Rightarrow> js_error + string" where
  "js_string_property v k =
     (case js_get v k of
        Inl err \<Rightarrow> Inl err
      | Inr (JStr s) \<Rightarrow> Inr s
      | Inr _ \<Rightarrow> Inl (Error ''TypeError''))"

text \<open>
  A value inside a template literal or passed where a string is expected:
  \<open>String(v)\<close>.
\<close>

definition int_to_string :: "int \<Rightarrow> string" where
  "int_to_string n =
     (if n < 0 then ''-'' @ Number_toString (nat (- n)) else Number_toString (nat n))"

fun join_comma :: "string list \<Rightarrow> string" where
  "join_comma [] = []"
| "join_comma [a] = a"
| "join_comma (a # b # bs) = a @ '','' @ join_comma (b # bs)"

fun js_to_string :: "js_value \<Rightarrow> string" where
  "js_to_string JUndefined = ''undefined''"
| "js_to_string JNull = ''null''"
| "js_to_string (JBool b) = (if b then ''true'' else ''false'')"
| "js_to_string (JNum n) = int_to_string n"
| "js_to_string (JStr s) = s"
| "js_to_string (JArr xs) =
     join_comma (map (\<lambda>x. if x = JNull \<or> x = JUndefined then [] else js_to_string x) xs)"
| "js_to_string (JObj kvs) = ''[object Object]''"

text \<open>\<open>`${x}`\<close> for an optional string.\<close>

definition template_opt :: "string option \<Rightarrow> string" where
  "template_opt x = (case x of None \<Rightarrow> ''undefined'' | Some s \<Rightarrow> s)"

text \<open>\<open>getMergeRequestBranch\<close>\<close>

definition getMergeRequestBranch :: "env \<Rightarrow> string \<Rightarrow> nat \<Rightarrow> js_value io" where
  "getMergeRequestBranch E cwd iid =
     io_bind (getMergeRequest E cwd iid)
       (\<lambda>mr. case js_get mr ''source_branch'' of
                Inl err \<Rightarrow> io_throw err
              | Inr b \<Rightarrow> io_return b)"

text \<open>
  \<open>fetchMergeRequestBranch\<close> with the default remote \<open>origin\<close>: fetch into a local
  branch of the same name; if that fails, fetch without one; if that fails too, throw.
\<close>

definition fetchMergeRequestBranch :: "env \<Rightarrow> string \<Rightarrow> nat \<Rightarrow> string \<Rightarrow> unit io" where
  "fetchMergeRequestBranch E cwd iid remote =
     io_bind (getMergeRequestBranch E cwd iid)
       (\<lambda>b.
          let branchName = js_to_string b in
          io_catch
            (io_bind (ExecUtils_runOrThrow E ''git''
                        [''fetch'', remote, branchName @ '':'' @ branchName] (Some cwd))
               (\<lambda>out. io_return ()))
            (\<lambda>error.
               io_catch
                 (io_bind (ExecUtils_runOrThrow E ''git'' [''fetch'', remote, branchName] (Some cwd))
                    (\<lambda>out. io_return ()))
                 (\<lambda>fetchError.
                    io_throw (GitLabError (''Failed to fetch branch '' @ branchName @ '': ''
                                            @ message fetchError) (Some fetchError)))))"

text \<open>\<open>/[^a-zA-Z0-9\-_]/g\<close>, \<open>/-+/g\<close>, \<open>/^-+|-+$/g\<close>\<close>

definition is_name_char :: "char \<Rightarrow> bool" where
  "is_name_char c = (is_lower c \<or> is_upper c \<or> is_digit c \<or> c = CHR ''-'' \<or> c = CHR ''_'')"

definition problematic_pattern :: regex where
  "problematic_pattern = Chars (\<lambda>c. \<not> is_name_char c)"

definition dashes_pattern :: regex where
  "dashes_pattern = Plus (\<lambda>c. c = CHR ''-'')"

definition edge_dashes_pattern :: regex where
  "edge_dashes_pattern =
     Alt (Seq Bol (Plus (\<lambda>c. c = CHR ''-''))) (Seq (Plus (\<lambda>c. c = CHR ''-'')) Eol)"

text \<open>\<open>GitLabManager.generateWorktreeName\<close>\<close>

definition generateWorktreeName_gitlab ::
  "env \<Rightarrow> string \<Rightarrow> nat \<Rightarrow> event list \<Rightarrow> (js_error + string) \<times> event list" where
  "generateWorktreeName_gitlab E cwd iid tr =
     (case getMergeRequest E cwd iid tr of
        (Inl err, tr') \<Rightarrow> (Inl err, tr')
      | (Inr mr, tr') \<Rightarrow>
          (case js_string_property mr ''source_branch'' of
             Inl err \<Rightarrow> (Inl err, tr')
           | Inr name \<Rightarrow>
               (let name = String_replace_all name problematic_pattern ''-'';
                    name = String_replace_all name dashes_pattern ''-'';
                    name = String_replace_all name edge_dashes_pattern [];
                    name = (if length name < 2 then ''mr-'' @ Number_toString iid else name)
                in (Inr name, tr'))))"

text \<open>\<open>GitHubManager.generateWorktreeName\<close>\<close>

definition generateWorktreeName_github ::
  "env \<Rightarrow> string \<Rightarrow> nat \<Rightarrow> event list \<Rightarrow> (js_error + string) \<times> event list" where
  "generateWorktreeName_github E cwd number tr =
     (case getPullRequest E cwd number tr of
        (Inl err, tr') \<Rightarrow> (Inl err, tr')
      | (Inr pr, tr') \<Rightarrow>
          (case js_string_property pr ''headRefName'' of
             Inl err \<Rightarrow> (Inl err, tr')
           | Inr name \<Rightarrow>
               (let name = String_replace_all name problematic_pattern ''-'';
                    name = String_replace_all name dashes_pattern ''-'';
                    name = String_replace_all name edge_dashes_pattern [];
                    name = (if length name < 2 then ''pr-'' @ Number_toString number else name)
                in (Inr name, tr'))))"

definition isGitLabProject :: "env \<Rightarrow> string \<Rightarrow> event list \<Rightarrow> bool \<times> event list" where
  "isGitLabProject E cwd tr =
     (case isGlabAvailable E tr of
        (False, tr1) \<Rightarrow> (False, tr1)
      | (True, tr1) \<Rightarrow>
          (case ExecUtils_runOrThrow E ''glab'' [''repo'', ''view''] (Some cwd) tr1 of
             (Inl err, tr2) \<Rightarrow> (False, tr2)
           | (Inr out, tr2) \<Rightarrow> (True, tr2)))"

definition isGitHubProject :: "env \<Rightarrow> string \<Rightarrow> event list \<Rightarrow> bool \<times> event list" where
  "isGitHubProject E cwd tr =
     (case isGhAvailable E tr of
        (False, tr1) \<Rightarrow> (False, tr1)
      | (True, tr1) \<Rightarrow>
          (case ExecUtils_runOrThrow E ''gh'' [''repo'', ''view''] (Some cwd) tr1 of
             (Inl err, tr2) \<Rightarrow> (False, tr2)
           | (Inr out, tr2) \<Rightarrow> (True, tr2)))"

section \<open>The commands (commands/base.ts, new.ts, mr.ts, remove.ts)\<close>

record CLIOptions =
  opt_verbose :: bool
  opt_dryRun :: bool

record NewCommandOptions = CLIOptions +
  opt_branch :: "string option"
  opt_noPush :: bool

record MRCommandOptions = CLIOptions +
  opt_checkout :: bool

record RemoveCommandOptions = CLIOptions +
  opt_force :: bool

text \<open>
  \<open>initialize\<close>: a command object has a configuration manager of its own, so the
  configuration is loaded by a new manager; then the repository check.
\<close>

definition initialize :: "env \<Rightarrow> string \<Rightarrow> Config io" where
  "initialize E cwd =
     io_bind (\<lambda>tr. (fst (loadConfig E (new_ConfigManager cwd) tr), tr))
       (\<lambda>config.
          io_bind (io_lift (isGitRepo E cwd))
            (\<lambda>isRepo. if \<not> isRepo then io_throw (Error ''Not in a git repository'')
                       else io_return config))"

text \<open>\<open>BaseCommand.generatePrefix\<close> and \<open>BaseCommand.generateWorktreeName\<close>\<close>

definition generatePrefix :: "env \<Rightarrow> string \<Rightarrow> Config \<Rightarrow> string io" where
  "generatePrefix E cwd config =
     (case prefixType config of
        PrefixNone \<Rightarrow> io_return []
      | PrefixManual \<Rightarrow> io_return (string_or_empty (read (manualPrefix config)))
      | PrefixDetect \<Rightarrow> remote_generatePrefix E cwd)"

definition generateWorktreeName :: "env \<Rightarrow> string \<Rightarrow> Config \<Rightarrow> string \<Rightarrow> string io" where
  "generateWorktreeName E cwd config baseName =
     io_bind (generatePrefix E cwd config) (\<lambda>prefix. io_return (prefix @ baseName))"

text \<open>
  \<open>command.trim().split(/\s+/)\<close>: the pieces between runs of white space (a piece may
  be empty at either end; the empty string gives one empty piece).
\<close>

function split_ws :: "string \<Rightarrow> string \<Rightarrow> string list" where
  "split_ws cur [] = [cur]"
| "split_ws cur (x # xs) =
     (if is_ws x then cur # split_ws [] (dropWhile is_ws xs) else split_ws (cur @ [x]) xs)"
  by pat_completeness auto
termination
  by (relation "measure (\<lambda>(cur, s). length s)")
     (auto simp: length_dropWhile_le less_Suc_eq_le)

text \<open>\<open>executePostCommand\<close> and \<open>executePostCommands\<close>\<close>

definition executePostCommand :: "env \<Rightarrow> PostCommand \<Rightarrow> string \<Rightarrow> unit io" where
  "executePostCommand E postCommand worktreePath =
     io_bind (io_log (LogInfo (''Running: '' @ label postCommand)))
       (\<lambda>u. io_bind
          (io_foreach (commands postCommand)
             (\<lambda>command.
                io_catch
                  (case split_ws [] (trim command) of
                     [] \<Rightarrow> io_return ()
                   | program # args \<Rightarrow>
                       if program = [] then
                         io_log (LogWarn (''Empty command in '' @ label postCommand @ '', skipping''))
                       else io_bind (ExecUtils_runOrThrow E program args (Some worktreePath))
                              (\<lambda>out. io_return ()))
                  (\<lambda>error.
                     io_bind (io_log (LogError (''Command failed: '' @ command)))
                       (\<lambda>u. io_bind (io_log (LogError (''Error: '' @ message error)))
                          (\<lambda>u. io_throw error)))))
          (\<lambda>u. io_log (LogSuccess (''Completed: '' @ label postCommand))))"

definition executePostCommands :: "env \<Rightarrow> Config \<Rightarrow> string \<Rightarrow> unit io" where
  "executePostCommands E config worktreePath =
     (if length (postCommands config) = 0 then io_return ()
      else io_bind (io_log (LogInfo ''Executing post-creation commands...''))
             (\<lambda>u. io_foreach (postCommands config)
                (\<lambda>postCommand. executePostCommand E postCommand worktreePath)))"

text \<open>The lines both creating commands print about the post-creation commands in a dry run.\<close>

definition post_command_plan :: "Config \<Rightarrow> string list" where
  "post_command_plan config =
     (if length (postCommands config) > 0
      then ''  Post-creation commands:'' # map (\<lambda>cmd. ''    - '' @ label cmd) (postCommands config)
      else [])"

definition log_infos :: "string list \<Rightarrow> unit io" where
  "log_infos ls = io_foreach ls (\<lambda>l. io_log (LogInfo l))"

subsection \<open>\<open>new\<close>\<close>

record NewContext =
  new_config :: Config
  new_worktreeName :: string
  new_worktreePath :: string
  new_branchName :: string

text \<open>\<open>NewCommand.execute\<close> up to the dry-run check.\<close>

definition NewCommand_prepare :: "env \<Rightarrow> string \<Rightarrow> string \<Rightarrow> NewCommandOptions \<Rightarrow> NewContext io" where
  "NewCommand_prepare E cwd name options =
     io_bind (initialize E cwd)
       (\<lambda>config.
     io_bind (generateWorktreeName E cwd config name)
       (\<lambda>worktreeName.
     let worktreePath = resolveWorktreePath E cwd (worktreeDir config) worktreeName in
     io_bind (worktreeExists E cwd worktreePath)
       (\<lambda>ex.
     if ex then io_throw (Error (''Worktree already exists at: '' @ worktreePath))
     else
     let branchName = (case opt_branch options of
                         None \<Rightarrow> worktreeName
                       | Some b \<Rightarrow> if b = [] then worktreeName else b) in
     io_bind (io_lift (branchExists E cwd branchName))
       (\<lambda>bex.
     if bex then io_throw (Error (''Branch '' @ [CHR 0x27] @ branchName @ [CHR 0x27] @ '' already exists''))
     else io_return \<lparr>new_config = config, new_worktreeName = worktreeName,
                      new_worktreePath = worktreePath, new_branchName = branchName\<rparr>))))"

text \<open>The dry-run branch: the plan is printed and the function returns.\<close>

definition NewCommand_plan :: "NewContext \<Rightarrow> string list" where
  "NewCommand_plan ctx =
     [''Dry run mode - would create:'',
      ''  Worktree: '' @ new_worktreePath ctx,
      ''  Branch: '' @ new_branchName ctx] @ post_command_plan (new_config ctx)"

text \<open>
  The rest: create the worktree with a new branch, run the post-creation commands, push
  the branch unless disabled (a failed push is only a warning).
\<close>

definition NewCommand_create :: "env \<Rightarrow> string \<Rightarrow> NewCommandOptions \<Rightarrow> NewContext \<Rightarrow> unit io" where
  "NewCommand_create E cwd options ctx =
     io_bind (createWorktree E cwd (new_worktreePath ctx) (new_branchName ctx) True False True)
       (\<lambda>u.
     io_bind (if length (postCommands (new_config ctx)) > 0
              then executePostCommands E (new_config ctx) (new_worktreePath ctx)
              else io_return ())
       (\<lambda>u.
     io_bind (if \<not> opt_noPush options then
                io_catch
                  (io_bind (ExecUtils_runOrThrow E ''git''
                              [''push'', ''-u'', ''origin'', new_branchName ctx]
                              (Some (new_worktreePath ctx)))
                     (\<lambda>out. io_return ()))
                  (\<lambda>error. io_log (LogWarn ''You may need to push the branch manually later''))
              else io_return ())
       (\<lambda>u.
     io_log (LogSuccess (''Worktree '' @ [CHR 0x27] @ new_worktreeName ctx @ [CHR 0x27]
                         @ '' is ready at: '' @ new_worktreePath ctx)))))"

definition NewCommand_execute :: "env \<Rightarrow> string \<Rightarrow> string \<Rightarrow> NewCommandOptions \<Rightarrow> unit io" where
  "NewCommand_execute E cwd name options =
     io_bind (NewCommand_prepare E cwd name options)
       (\<lambda>ctx. if opt_dryRun options then log_infos (NewCommand_plan ctx)
               else NewCommand_create E cwd options ctx)"

subsection \<open>\<open>mr\<close>\<close>

text \<open>
  \<open>parseInt(s, 10)\<close>: leading white space, an optional sign, then decimal digits;
  \<open>NaN\<close> (here \<open>None\<close>) when there is no digit.
\<close>

definition digit_val :: "char \<Rightarrow> nat" where
  "digit_val c = length (takeWhile (\<lambda>d. d \<noteq> c) ''0123456789'')"

definition parseInt10 :: "string \<Rightarrow> int option" where
  "parseInt10 s =
     (let s1 = dropWhile is_ws s;
          neg = (take 1 s1 = ''-'');
          s2 = (if take 1 s1 = ''-'' \<or> take 1 s1 = ''+'' then drop 1 s1 else s1);
          ds = takeWhile is_digit s2
      in if ds = [] then None
         else let v = int (foldl (\<lambda>a d. 10 * a + digit_val d) 0 ds)
              in Some (if neg then - v else v))"

record MRContext =
  mr_config :: Config
  mr_iid :: nat
  mr_data :: js_value
  mr_worktreeName :: string
  mr_worktreePath :: string

text \<open>
  \<open>MRCommand.execute\<close> up to the dry-run check. The result is \<open>None\<close> when the function
  has returned already: the worktree exists and \<open>--checkout\<close> was given.
\<close>

definition MRCommand_prepare ::
  "env \<Rightarrow> string \<Rightarrow> string \<Rightarrow> MRCommandOptions \<Rightarrow> MRContext option io" where
  "MRCommand_prepare E cwd mrNumber options =
     io_bind (initialize E cwd)
       (\<lambda>config.
     case parseInt10 mrNumber of
       None \<Rightarrow> io_throw (Error (''Invalid merge request number: '' @ mrNumber))
     | Some i \<Rightarrow>
     if i \<le> 0 then io_throw (Error (''Invalid merge request number: '' @ mrNumber))
     else
     let iid = nat i in
     io_bind (io_lift (isGitLabProject E cwd))
       (\<lambda>isProject.
     if \<not> isProject then io_throw (Error ''Not in a GitLab project or glab CLI not available'')
     else
     io_bind (getMergeRequest E cwd iid)
       (\<lambda>mr.
     case js_get mr ''title'' of
       Inl err \<Rightarrow> io_throw err
     | Inr title \<Rightarrow>
     io_bind (generateWorktreeName_gitlab E cwd iid)
       (\<lambda>baseName.
     io_bind (generateWorktreeName E cwd config baseName)
       (\<lambda>worktreeName.
     let worktreePath = resolveWorktreePath E cwd (worktreeDir config) worktreeName in
     io_bind (worktreeExists E cwd worktreePath)
       (\<lambda>ex.
     if ex then
       (if opt_checkout options then
          io_bind (log_infos [''Worktree already exists at: '' @ worktreePath,
                              ''Switching to existing worktree...''])
            (\<lambda>u. io_return None)
        else io_throw (Error (''Worktree already exists at: '' @ worktreePath)))
     else io_return (Some \<lparr>mr_config = config, mr_iid = iid, mr_data = mr,
                            mr_worktreeName = worktreeName,
                            mr_worktreePath = worktreePath\<rparr>)))))))"

text \<open>A property of the change request inside a template literal.\<close>

definition mr_field :: "js_value \<Rightarrow> string \<Rightarrow> string" where
  "mr_field mr k = (case js_get mr k of Inl err \<Rightarrow> [] | Inr v \<Rightarrow> js_to_string v)"

definition MRCommand_plan :: "MRContext \<Rightarrow> string list" where
  "MRCommand_plan ctx =
     [''Dry run mode - would create:'',
      ''  Worktree: '' @ mr_worktreePath ctx,
      ''  Branch: '' @ mr_field (mr_data ctx) ''source_branch'',
      ''  MR: '' @ mr_field (mr_data ctx) ''title''] @ post_command_plan (mr_config ctx)"

text \<open>
  The rest: fetch the source branch, create the worktree on the existing branch, run the
  post-creation commands.
\<close>

definition MRCommand_create :: "env \<Rightarrow> string \<Rightarrow> MRContext \<Rightarrow> unit io" where
  "MRCommand_create E cwd ctx =
     io_bind (fetchMergeRequestBranch E cwd (mr_iid ctx) ''origin'')
       (\<lambda>u.
     io_bind (createWorktree E cwd (mr_worktreePath ctx)
                (mr_field (mr_data ctx) ''source_branch'') False False True)
       (\<lambda>u.
     io_bind (if length (postCommands (mr_config ctx)) > 0
              then executePostCommands E (mr_config ctx) (mr_worktreePath ctx)
              else io_return ())
       (\<lambda>u.
     io_bind (io_log (LogSuccess (''Worktree for MR '' @ Number_toString (mr_iid ctx)
                                  @ '' is ready at: '' @ mr_worktreePath ctx)))
       (\<lambda>u.
     log_infos [''MR: '' @ mr_field (mr_data ctx) ''title'',
                ''Branch: '' @ mr_field (mr_data ctx) ''source_branch'',
                ''URL: '' @ mr_field (mr_data ctx) ''web_url'']))))"

definition MRCommand_execute :: "env \<Rightarrow> string \<Rightarrow> string \<Rightarrow> MRCommandOptions \<Rightarrow> unit io" where
  "MRCommand_execute E cwd mrNumber options =
     io_bind (MRCommand_prepare E cwd mrNumber options)
       (\<lambda>r. case r of
               None \<Rightarrow> io_return ()
             | Some ctx \<Rightarrow>
                 if opt_dryRun options then log_infos (MRCommand_plan ctx)
                 else MRCommand_create E cwd ctx)"

subsection \<open>\<open>rm\<close>\<close>

text \<open>An \<open>inquirer\<close> confirmation: the question is an event, the answer an oracle.\<close>

definition prompt_confirm :: "env \<Rightarrow> string \<Rightarrow> bool io" where
  "prompt_confirm E question tr = (Inr (confirm E tr question), tr @ [Prompt question])"

text \<open>\<open>wt.path.split('/').pop() || wt.path\<close>\<close>

definition path_basename :: "string \<Rightarrow> string" where
  "path_basename p = (if last (split_on CHR ''/'' p) = [] then p else last (split_on CHR ''/'' p))"

text \<open>The report of \<open>RemoveCommand.execute\<close> when the worktree is not found.\<close>

definition RemoveCommand_not_found :: "env \<Rightarrow> string \<Rightarrow> string \<Rightarrow> GitWorktree io" where
  "RemoveCommand_not_found E cwd name =
     io_bind (listWorktrees E cwd)
       (\<lambda>worktrees.
     let nonMainWorktrees =
           filter (\<lambda>wt. bare wt \<noteq> Some True \<and> branch wt \<noteq> Some ''main''
                         \<and> branch wt \<noteq> Some ''master'') worktrees in
     io_bind
       (if length nonMainWorktrees > 0 then
          io_bind (io_log (LogError (''Worktree '' @ [CHR 0x27] @ name @ [CHR 0x27]
                                     @ '' not found. Available worktrees:'')))
            (\<lambda>u. log_infos (map (\<lambda>wt. ''  - '' @ path_basename (string_or_empty (path wt))
                                         @ '' ('' @ template_opt (branch wt) @ '')'')
                                nonMainWorktrees))
        else io_log (LogError (''Worktree '' @ [CHR 0x27] @ name @ [CHR 0x27]
                               @ '' not found and no other worktrees available.'')))
       (\<lambda>u. io_throw (Error (''Worktree '' @ [CHR 0x27] @ name @ [CHR 0x27] @ '' not found''))))"

text \<open>\<open>RemoveCommand.execute\<close> up to the dry-run check: the worktree found.\<close>

definition RemoveCommand_prepare :: "env \<Rightarrow> string \<Rightarrow> string \<Rightarrow> GitWorktree io" where
  "RemoveCommand_prepare E cwd name =
     io_bind (initialize E cwd)
       (\<lambda>config.
     io_bind (generateWorktreeName E cwd config name)
       (\<lambda>worktreeName.
     io_bind (findWorktreeByName E cwd worktreeName)
       (\<lambda>found.
     io_bind (case found of
                Some wt \<Rightarrow> io_return (Some wt)
              | None \<Rightarrow> findWorktreeByName E cwd name)
       (\<lambda>found.
     io_bind (case found of
                Some wt \<Rightarrow> io_return wt
              | None \<Rightarrow> RemoveCommand_not_found E cwd name)
       (\<lambda>worktree.
     io_bind (log_infos [''Found worktree: '' @ string_or_empty (path worktree),
                         ''Branch: '' @ template_opt (branch worktree)])
       (\<lambda>u. io_return worktree))))))"

definition RemoveCommand_plan :: "GitWorktree \<Rightarrow> string list" where
  "RemoveCommand_plan worktree =
     [''Dry run mode - would remove:'',
      ''  Worktree: '' @ string_or_empty (path worktree),
      ''  Branch: '' @ template_opt (branch worktree)]"

text \<open>
  Deleting the branch after the removal: the local branch, then the remote one; a failed
  remote deletion is a warning, a failed local deletion ends the attempt silently.
\<close>

definition RemoveCommand_delete_branch :: "env \<Rightarrow> string \<Rightarrow> string \<Rightarrow> unit io" where
  "RemoveCommand_delete_branch E cwd branchName =
     io_catch
       (io_bind (ExecUtils_runOrThrow E ''git'' [''branch'', ''-D'', branchName] (Some cwd))
          (\<lambda>out.
             io_catch
               (io_bind (ExecUtils_runOrThrow E ''git''
                           [''push'', ''origin'', ''--delete'', branchName] (Some cwd))
                  (\<lambda>out. io_return ()))
               (\<lambda>error. io_log (LogWarn ''You may need to delete the remote branch manually''))))
       (\<lambda>error. io_return ())"

text \<open>
  The rest: confirm unless forced, remove the worktree, and, unless forced, offer to
  delete the branch.
\<close>

definition RemoveCommand_remove ::
  "env \<Rightarrow> string \<Rightarrow> string \<Rightarrow> RemoveCommandOptions \<Rightarrow> GitWorktree \<Rightarrow> unit io" where
  "RemoveCommand_remove E cwd name options worktree =
     (let worktreePath = string_or_empty (path worktree);
          branchName = branch worktree in
      io_bind (if \<not> opt_force options then
                 prompt_confirm E
                   (''Are you sure you want to remove worktree '' @ [CHR 0x27] @ name @ [CHR 0x27]
                    @ '' and branch '' @ [CHR 0x27] @ template_opt branchName @ [CHR 0x27] @ ''?'')
               else io_return True)
        (\<lambda>confirmed.
      if \<not> confirmed then io_log (LogInfo ''Operation cancelled'')
      else
      io_bind (removeWorktree E cwd worktreePath (opt_force options))
        (\<lambda>u.
      io_bind (if \<not> opt_force options \<and> branchName \<noteq> None \<and> branchName \<noteq> Some [] then
                 io_bind (prompt_confirm E
                            (''Do you also want to delete the branch '' @ [CHR 0x27]
                             @ template_opt branchName @ [CHR 0x27] @ ''?''))
                   (\<lambda>deleteBranch.
                      if deleteBranch
                      then RemoveCommand_delete_branch E cwd (template_opt branchName)
                      else io_return ())
               else io_return ())
        (\<lambda>u. io_log (LogSuccess (''Cleanup completed for '' @ [CHR 0x27] @ name @ [CHR 0x27]))))))"

definition RemoveCommand_execute ::
  "env \<Rightarrow> string \<Rightarrow> string \<Rightarrow> RemoveCommandOptions \<Rightarrow> unit io" where
  "RemoveCommand_execute E cwd name options =
     io_bind (RemoveCommand_prepare E cwd name)
       (\<lambda>worktree. if opt_dryRun options then log_infos (RemoveCommand_plan worktree)
                    else RemoveCommand_remove E cwd name options worktree)"

section \<open>A base environment for the examples\<close>

text \<open>
  Every command succeeds with empty output, no file exists, nothing throws, paths are
  joined with a slash, and \<open>JSON.parse\<close> rejects its input. The examples below change
  the oracles they need.
\<close>

definition env_base :: env where
  "env_base =
     \<lparr>execa = (\<lambda>tr command args cwd.
         Resolves \<lparr>r_stdout = Some [], r_stderr = Some [], r_exitCode = Some 0\<rparr>),
      existsSync = (\<lambda>tr p. False),
      rmSync_error = (\<lambda>tr p. None),
      writeFileSync_error = (\<lambda>tr p. None),
      cosmiconfig_load = (\<lambda>tr p. Inr None),
      path_join = (\<lambda>a b. a @ ''/'' @ b),
      path_isAbsolute = (\<lambda>p. take 1 p = ''/''),
      path_resolve = foldl (\<lambda>a b. if take 1 b = ''/'' then b else a @ ''/'' @ b) [],
      homedir = ''/home/u'',
      confirm = (\<lambda>tr q. False),
      JSON_parse = (\<lambda>s. Inl (Error ''SyntaxError''))\<rparr>"

text \<open>
  An environment in which no program is found: every command, \<open>which\<close> included, exits
  with status 1.
\<close>

definition env_nothing_installed :: env where
  "env_nothing_installed =
     env_base\<lparr>execa := (\<lambda>tr command args cwd.
         Rejects \<lparr>r_stdout = None, r_stderr = Some ''not found'', r_exitCode = Some 1\<rparr>)\<rparr>"

section \<open>Partial configurations\<close>

text \<open>
  What a configuration file holds and what \<open>saveLocalConfig\<close> is given: a
  \<open>Partial<Config>\<close>, in which each field is an optional property.
  \<open>PartialConfig_js\<close> is the JavaScript object it denotes (a property that holds
  \<open>undefined\<close> is an own property of that object), and \<open>with_defaults\<close> completes it
  with the documented default for every field that holds no value.
\<close>

record PartialConfig =
  p_prefixType :: "PrefixType optional"
  p_manualPrefix :: "string optional"
  p_worktreeDir :: "string optional"
  p_postCommands :: "PostCommand list optional"

definition PrefixType_name :: "PrefixType \<Rightarrow> string" where
  "PrefixType_name t =
     (case t of PrefixNone \<Rightarrow> ''none'' | PrefixManual \<Rightarrow> ''manual'' | PrefixDetect \<Rightarrow> ''detect'')"

definition PostCommand_js :: "PostCommand \<Rightarrow> js_value" where
  "PostCommand_js pc =
     JObj [(''label'', JStr (label pc)), (''commands'', JArr (map JStr (commands pc)))]"

definition own_property :: "string \<Rightarrow> ('a \<Rightarrow> js_value) \<Rightarrow> 'a optional \<Rightarrow> (string \<times> js_value) list" where
  "own_property k f v =
     (case v of Absent \<Rightarrow> [] | Undefined \<Rightarrow> [(k, JUndefined)] | Present x \<Rightarrow> [(k, f x)])"

definition PartialConfig_js :: "PartialConfig \<Rightarrow> js_value" where
  "PartialConfig_js p =
     JObj (own_property ''prefixType'' (JStr \<circ> PrefixType_name) (p_prefixType p)
         @ own_property ''manualPrefix'' JStr (p_manualPrefix p)
         @ own_property ''worktreeDir'' JStr (p_worktreeDir p)
         @ own_property ''postCommands'' (JArr \<circ> map PostCommand_js) (p_postCommands p))"

definition with_defaults :: "PartialConfig \<Rightarrow> Config" where
  "with_defaults p =
     \<lparr>prefixType = (case p_prefixType p of Present t \<Rightarrow> t | _ \<Rightarrow> PrefixNone),
      manualPrefix = p_manualPrefix p,
      worktreeDir = (case p_worktreeDir p of Present d \<Rightarrow> d | _ \<Rightarrow> ''../worktrees''),
      postCommands = (case p_postCommands p of Present cs \<Rightarrow> cs | _ \<Rightarrow> [])\<rparr>"

lemma those_parse_string: "those (map (parse_string \<circ> JStr) cs) = Some cs"
  by (induction cs) (simp_all add: parse_string_def)

lemma parse_PostCommand_js: "parse_PostCommand (PostCommand_js pc) = Some pc"
  by (simp add: parse_PostCommand_def PostCommand_js_def get_prop_def parse_string_def
      parse_string_array_def those_parse_string)

lemma those_parse_PostCommand:
  "those (map (parse_PostCommand \<circ> PostCommand_js) pcs) = Some pcs"
  by (induction pcs) (simp_all add: parse_PostCommand_js)

lemma parse_PrefixType_name: "parse_PrefixType (JStr (PrefixType_name t)) = Some t"
  by (cases t) (simp_all add: parse_PrefixType_def PrefixType_name_def)

lemma map_of_own_property:
  "map_of (own_property k f v) k' =
     (if k' = k then (case v of Absent \<Rightarrow> None | Undefined \<Rightarrow> Some JUndefined
                      | Present x \<Rightarrow> Some (f x))
      else None)"
  by (cases v) (simp_all add: own_property_def)

text \<open>The schema accepts every such object, and its output is the completed value.\<close>

lemma ConfigSchema_parse_PartialConfig:
  "ConfigSchema_parse (PartialConfig_js p) = Inr (with_defaults p)"
proof -
  let ?kvs = "own_property ''prefixType'' (JStr \<circ> PrefixType_name) (p_prefixType p)
         @ own_property ''manualPrefix'' JStr (p_manualPrefix p)
         @ own_property ''worktreeDir'' JStr (p_worktreeDir p)
         @ own_property ''postCommands'' (JArr \<circ> map PostCommand_js) (p_postCommands p)"
  have 1: "parse_PrefixType (get_prop ?kvs ''prefixType'')
             = Some (case p_prefixType p of Present t \<Rightarrow> t | _ \<Rightarrow> PrefixNone)"
    by (cases "p_prefixType p")
       (simp_all add: get_prop_def map_of_own_property map_add_def parse_PrefixType_name,
        simp_all add: parse_PrefixType_def)
  have 2: "parse_optional_string (get_prop ?kvs ''manualPrefix'') = Some (read (p_manualPrefix p))"
    by (cases "p_manualPrefix p")
       (simp_all add: get_prop_def map_of_own_property map_add_def parse_optional_string_def
          read_def)
  have 3: "parse_string_default ''../worktrees'' (get_prop ?kvs ''worktreeDir'')
             = Some (case p_worktreeDir p of Present d \<Rightarrow> d | _ \<Rightarrow> ''../worktrees'')"
    by (cases "p_worktreeDir p")
       (simp_all add: get_prop_def map_of_own_property map_add_def parse_string_default_def)
  have 4: "parse_postCommands (get_prop ?kvs ''postCommands'')
             = Some (case p_postCommands p of Present cs \<Rightarrow> cs | _ \<Rightarrow> [])"
    by (cases "p_postCommands p")
       (simp_all add: get_prop_def map_of_own_property map_add_def parse_postCommands_def
          those_parse_PostCommand)
  have 5: "output_key ?kvs ''manualPrefix'' (read (p_manualPrefix p)) = p_manualPrefix p"
    by (cases "p_manualPrefix p")
       (simp_all add: output_key_def has_key_def read_def map_of_own_property map_add_def)
  show ?thesis
    unfolding ConfigSchema_parse_def PartialConfig_js_def with_defaults_def
    by (simp only: js_value.case 1 2 3 4 5 prod.case option.case)
qed

section \<open>Merging configurations\<close>










section \<open>Loading configuration files\<close>

text \<open>
  An environment whose local file \<open>/repo/.kwt\<close> exists and holds
  \<open>{"prefixType": "auto"}\<close>, which the schema rejects; there is no global file.
\<close>

definition env_invalid_local :: env where
  "env_invalid_local =
     env_base\<lparr>existsSync := (\<lambda>tr p. p = ''/repo/.kwt''),
       cosmiconfig_load := (\<lambda>tr p. Inr (Some (JObj [(''prefixType'', JStr ''auto'')])))\<rparr>"

text \<open>
  The claim C2 says that \<open>loadConfig\<close> fails with \<open>ConfigError\<close> when a present file
  does not validate. In the environment above the local file is present and invalid, and
  \<open>loadConfig\<close> returns the default configuration.
\<close>

theorem loadConfig_invalid_file_counterexample:
  "existsSync env_invalid_local [] (localConfigPath env_invalid_local (new_ConfigManager ''/repo''))
   \<and> cosmiconfig_load env_invalid_local [] (localConfigPath env_invalid_local (new_ConfigManager ''/repo''))
       = Inr (Some (JObj [(''prefixType'', JStr ''auto'')]))
   \<and> ConfigSchema_parse (JObj [(''prefixType'', JStr ''auto'')]) = Inl (Error ''ZodError'')
   \<and> fst (loadConfig env_invalid_local (new_ConfigManager ''/repo'') []) = Inr defaultConfig"
  by (simp add: env_invalid_local_def env_base_def localConfigPath_def globalConfigPath_def new_ConfigManager_def
      ConfigSchema_parse_def get_prop_def parse_PrefixType_def loadConfig_def loadLocalConfig_def
      loadGlobalConfig_def mergeConfigs_def Let_def Error_def)


text \<open>
  An environment whose global file \<open>/home/u/.kwt\<close> exists and holds an array, which the
  schema rejects; there is no local file.
\<close>

definition env_invalid_global :: env where
  "env_invalid_global =
     env_base\<lparr>existsSync := (\<lambda>tr p. p = ''/home/u/.kwt''),
       cosmiconfig_load := (\<lambda>tr p. Inr (Some (JArr [])))\<rparr>"

text \<open>
  C2, as the code has it. \<open>loadConfig\<close> never fails. On a manager with no cached merge
  it returns the merge of what the two files contribute; a present file (local or
  global) whose content does not validate against the schema contributes nothing, exactly
  like a missing file; and when neither file contributes, the result is the default
  configuration.
\<close>

theorem loadConfig_never_fails:
  "(\<exists>c. fst (loadConfig E cm tr) = Inr c)
   \<and> (mergedConfig cm = None \<longrightarrow>
        fst (loadConfig E cm tr) = Inr (mergeConfigs (loadGlobalConfig E tr) (loadLocalConfig E cm tr)))
   \<and> (existsSync E tr (localConfigPath E cm)
        \<and> cosmiconfig_load E tr (localConfigPath E cm) = Inr (Some v)
        \<and> ConfigSchema_parse v = Inl err
        \<longrightarrow> loadLocalConfig E cm tr = None)
   \<and> (existsSync E tr (globalConfigPath E)
        \<and> cosmiconfig_load E tr (globalConfigPath E) = Inr (Some w)
        \<and> ConfigSchema_parse w = Inl err'
        \<longrightarrow> loadGlobalConfig E tr = None)
   \<and> (\<not> existsSync E tr (localConfigPath E cm) \<longrightarrow> loadLocalConfig E cm tr = None)
   \<and> (\<not> existsSync E tr (globalConfigPath E) \<longrightarrow> loadGlobalConfig E tr = None)
   \<and> mergeConfigs None None = defaultConfig"
proof -
  have total: "\<exists>c. fst (loadConfig E cm tr) = Inr c"
    by (cases "mergedConfig cm") (simp_all add: loadConfig_def Let_def)
  have fresh: "mergedConfig cm = None \<longrightarrow>
      fst (loadConfig E cm tr) = Inr (mergeConfigs (loadGlobalConfig E tr) (loadLocalConfig E cm tr))"
    by (simp add: loadConfig_def Let_def)
  have loc: "existsSync E tr (localConfigPath E cm)
        \<and> cosmiconfig_load E tr (localConfigPath E cm) = Inr (Some v)
        \<and> ConfigSchema_parse v = Inl err
        \<longrightarrow> loadLocalConfig E cm tr = None"
    by (simp add: loadLocalConfig_def)
  have glob: "existsSync E tr (globalConfigPath E)
        \<and> cosmiconfig_load E tr (globalConfigPath E) = Inr (Some w)
        \<and> ConfigSchema_parse w = Inl err'
        \<longrightarrow> loadGlobalConfig E tr = None"
    by (simp add: loadGlobalConfig_def)
  have miss: "\<not> existsSync E tr (localConfigPath E cm) \<longrightarrow> loadLocalConfig E cm tr = None"
    "\<not> existsSync E tr (globalConfigPath E) \<longrightarrow> loadGlobalConfig E tr = None"
    by (simp_all add: loadLocalConfig_def loadGlobalConfig_def)
  have dflt: "mergeConfigs None None = defaultConfig"
    by (simp add: mergeConfigs_def)
  from total fresh loc glob miss dflt show ?thesis by blast
qed

text \<open>Both environments above: the invalid file is ignored, the missing one too.\<close>

theorem loadConfig_never_fails_witness:
  "fst (loadConfig env_invalid_local (new_ConfigManager ''/repo'') []) = Inr defaultConfig
   \<and> loadLocalConfig env_invalid_local (new_ConfigManager ''/repo'') [] = None
   \<and> loadGlobalConfig env_invalid_local [] = None
   \<and> fst (loadConfig env_invalid_global (new_ConfigManager ''/repo'') []) = Inr defaultConfig
   \<and> loadGlobalConfig env_invalid_global [] = None
   \<and> loadLocalConfig env_invalid_global (new_ConfigManager ''/repo'') [] = None"
proof -
  let ?cm = "new_ConfigManager ''/repo''"
  have a1: "mergedConfig ?cm = None" by (simp add: new_ConfigManager_def)
  have a2: "existsSync env_invalid_local [] (localConfigPath env_invalid_local ?cm)
      \<and> cosmiconfig_load env_invalid_local [] (localConfigPath env_invalid_local ?cm)
          = Inr (Some (JObj [(''prefixType'', JStr ''auto'')]))
      \<and> ConfigSchema_parse (JObj [(''prefixType'', JStr ''auto'')]) = Inl (Error ''ZodError'')"
    by (simp add: env_invalid_local_def env_base_def localConfigPath_def new_ConfigManager_def
        ConfigSchema_parse_def get_prop_def parse_PrefixType_def)
  have a3: "\<not> existsSync env_invalid_local [] (globalConfigPath env_invalid_local)"
    by (simp add: env_invalid_local_def env_base_def globalConfigPath_def)
  have b2: "existsSync env_invalid_global [] (globalConfigPath env_invalid_global)
      \<and> cosmiconfig_load env_invalid_global [] (globalConfigPath env_invalid_global)
          = Inr (Some (JArr []))
      \<and> ConfigSchema_parse (JArr []) = Inl (Error ''ZodError'')"
    by (simp add: env_invalid_global_def env_base_def globalConfigPath_def ConfigSchema_parse_def)
  have b3: "\<not> existsSync env_invalid_global [] (localConfigPath env_invalid_global ?cm)"
    by (simp add: env_invalid_global_def env_base_def localConfigPath_def new_ConfigManager_def)
  note A = loadConfig_never_fails [of env_invalid_local ?cm "[]"
      "JObj [(''prefixType'', JStr ''auto'')]" "Error ''ZodError''" "JArr []" "Error ''ZodError''"]
  note B = loadConfig_never_fails [of env_invalid_global ?cm "[]"
      "JObj [(''prefixType'', JStr ''auto'')]" "Error ''ZodError''" "JArr []" "Error ''ZodError''"]
  from A a1 a2 a3 have
    "fst (loadConfig env_invalid_local ?cm []) = Inr defaultConfig
     \<and> loadLocalConfig env_invalid_local ?cm [] = None
     \<and> loadGlobalConfig env_invalid_local [] = None"
    by simp
  moreover from B a1 b2 b3 have
    "fst (loadConfig env_invalid_global ?cm []) = Inr defaultConfig
     \<and> loadGlobalConfig env_invalid_global [] = None
     \<and> loadLocalConfig env_invalid_global ?cm [] = None"
    by simp
  ultimately show ?thesis by simp
qed


section \<open>Saving and reloading the local configuration\<close>

text \<open>
  C8, as the code has it. When the file write succeeds, \<open>saveLocalConfig(cfg)\<close> succeeds
  and a following \<open>loadConfig()\<close> returns the merge of the global configuration cached
  in the manager with \<open>cfg\<close> completed by the defaults: that is \<open>cfg\<close> completed by the
  defaults, except that \<open>manualPrefix\<close>, where \<open>cfg\<close> has no such property, is that of
  the cached global configuration (absent when none is cached, as on a new manager).
  Where \<open>cfg\<close> has the property, also holding \<open>undefined\<close>, the reloaded value has it as
  \<open>cfg\<close> does.
\<close>

theorem save_then_load:
  assumes "writeFileSync_error E tr (localConfigPath E cm) = None"
  shows "fst (saveLocalConfig E cm (PartialConfig_js p) tr) = Inr ()
    \<and> (let cm' = fst (snd (saveLocalConfig E cm (PartialConfig_js p) tr));
            tr' = snd (snd (saveLocalConfig E cm (PartialConfig_js p) tr));
            loaded = fst (loadConfig E cm' tr')
        in loaded = Inr (mergeConfigs (globalConfig cm) (Some (with_defaults p)))
         \<and> loaded = Inr ((with_defaults p)\<lparr>manualPrefix :=
               (case p_manualPrefix p of
                  Absent \<Rightarrow> (case globalConfig cm of None \<Rightarrow> Absent | Some g \<Rightarrow> manualPrefix g)
                | q \<Rightarrow> q)\<rparr>))"
  using assms
  by (simp add: saveLocalConfig_def ConfigSchema_parse_PartialConfig loadConfig_def Let_def
      mergeConfigs_def spread_def defaultConfig_def with_defaults_def
      split: option.splits optional.splits)

text \<open>
  An environment with a global file holding \<open>{"manualPrefix": "team-"}\<close> and no local
  file; a configuration value that sets only \<open>prefixType\<close>, and one that also has a
  \<open>manualPrefix\<close> property holding \<open>undefined\<close>; and the manager after a first
  \<open>loadConfig()\<close> in that environment.
\<close>

definition env_global_prefix :: env where
  "env_global_prefix =
     env_base\<lparr>existsSync := (\<lambda>tr p. p = ''/home/u/.kwt''),
       cosmiconfig_load := (\<lambda>tr p. Inr (Some (JObj [(''manualPrefix'', JStr ''team-'')])))\<rparr>"

definition cfg_only_prefixType :: PartialConfig where
  "cfg_only_prefixType =
     \<lparr>p_prefixType = Present PrefixManual, p_manualPrefix = Absent, p_worktreeDir = Absent,
      p_postCommands = Absent\<rparr>"

definition cfg_undefined_prefix :: PartialConfig where
  "cfg_undefined_prefix =
     \<lparr>p_prefixType = Present PrefixManual, p_manualPrefix = Undefined, p_worktreeDir = Absent,
      p_postCommands = Absent\<rparr>"

definition cm_after_load :: ConfigManager where
  "cm_after_load = snd (loadConfig env_global_prefix (new_ConfigManager ''/repo'') [])"

lemma cm_after_load_value:
  "cm_after_load
      = \<lparr>cm_cwd = ''/repo'', localConfig = None,
         globalConfig = Some \<lparr>prefixType = PrefixNone, manualPrefix = Present ''team-'',
              worktreeDir = ''../worktrees'', postCommands = []\<rparr>,
         mergedConfig = Some \<lparr>prefixType = PrefixNone, manualPrefix = Present ''team-'',
              worktreeDir = ''../worktrees'', postCommands = []\<rparr>\<rparr>"
proof -
  have g: "loadGlobalConfig env_global_prefix []
      = Some \<lparr>prefixType = PrefixNone, manualPrefix = Present ''team-'',
              worktreeDir = ''../worktrees'', postCommands = []\<rparr>"
    by (simp add: loadGlobalConfig_def env_global_prefix_def env_base_def globalConfigPath_def
        ConfigSchema_parse_def get_prop_def parse_PrefixType_def parse_optional_string_def
        parse_string_default_def parse_postCommands_def output_key_def)
  have l: "loadLocalConfig env_global_prefix
      \<lparr>cm_cwd = ''/repo'', localConfig = None, globalConfig = None, mergedConfig = None\<rparr> [] = None"
    by (simp add: loadLocalConfig_def env_global_prefix_def env_base_def localConfigPath_def)
  show ?thesis
    by (simp add: cm_after_load_def loadConfig_def g l Let_def new_ConfigManager_def
        mergeConfigs_def spread_def defaultConfig_def)
qed

text \<open>
  The claim C8 says the reloaded value is \<open>cfg\<close> completed by the defaults. On the manager
  that has already loaded the global file, the reloaded value has the global
  \<open>manualPrefix\<close>, which \<open>cfg\<close> completed by the defaults has not.
\<close>

theorem save_then_load_counterexample:
  "fst (saveLocalConfig env_global_prefix cm_after_load (PartialConfig_js cfg_only_prefixType) [])
     = Inr ()
   \<and> fst (loadConfig env_global_prefix
         (fst (snd (saveLocalConfig env_global_prefix cm_after_load
                      (PartialConfig_js cfg_only_prefixType) [])))
         (snd (snd (saveLocalConfig env_global_prefix cm_after_load
                      (PartialConfig_js cfg_only_prefixType) []))))
     = Inr \<lparr>prefixType = PrefixManual, manualPrefix = Present ''team-'',
            worktreeDir = ''../worktrees'', postCommands = []\<rparr>
   \<and> with_defaults cfg_only_prefixType
     = \<lparr>prefixType = PrefixManual, manualPrefix = Absent,
        worktreeDir = ''../worktrees'', postCommands = []\<rparr>"
proof -
  have d: "with_defaults cfg_only_prefixType
     = \<lparr>prefixType = PrefixManual, manualPrefix = Absent,
        worktreeDir = ''../worktrees'', postCommands = []\<rparr>"
    by (simp add: with_defaults_def cfg_only_prefixType_def)
  show ?thesis
    by (simp add: saveLocalConfig_def ConfigSchema_parse_PartialConfig d loadConfig_def
        mergeConfigs_def spread_def defaultConfig_def Let_def cm_after_load_value env_global_prefix_def
        env_base_def)
qed

text \<open>
  On a new manager the reloaded value is \<open>cfg\<close> completed by the defaults. On the manager
  that has loaded the global file, a \<open>cfg\<close> whose \<open>manualPrefix\<close> property holds
  \<open>undefined\<close> is reloaded with that property, and the global prefix is gone.
\<close>

theorem save_then_load_witness:
  "writeFileSync_error env_global_prefix [] (localConfigPath env_global_prefix (new_ConfigManager ''/repo''))
     = None
   \<and> fst (saveLocalConfig env_global_prefix (new_ConfigManager ''/repo'')
           (PartialConfig_js cfg_only_prefixType) []) = Inr ()
   \<and> fst (loadConfig env_global_prefix
         (fst (snd (saveLocalConfig env_global_prefix (new_ConfigManager ''/repo'')
                      (PartialConfig_js cfg_only_prefixType) [])))
         (snd (snd (saveLocalConfig env_global_prefix (new_ConfigManager ''/repo'')
                      (PartialConfig_js cfg_only_prefixType) []))))
     = Inr \<lparr>prefixType = PrefixManual, manualPrefix = Absent,
            worktreeDir = ''../worktrees'', postCommands = []\<rparr>
   \<and> writeFileSync_error env_global_prefix [] (localConfigPath env_global_prefix cm_after_load)
     = None
   \<and> fst (loadConfig env_global_prefix
         (fst (snd (saveLocalConfig env_global_prefix cm_after_load
                      (PartialConfig_js cfg_undefined_prefix) [])))
         (snd (snd (saveLocalConfig env_global_prefix cm_after_load
                      (PartialConfig_js cfg_undefined_prefix) []))))
     = Inr \<lparr>prefixType = PrefixManual, manualPrefix = Undefined,
            worktreeDir = ''../worktrees'', postCommands = []\<rparr>"
proof -
  have w: "writeFileSync_error env_global_prefix []
      (localConfigPath env_global_prefix (new_ConfigManager ''/repo'')) = None"
    "writeFileSync_error env_global_prefix []
      (localConfigPath env_global_prefix cm_after_load) = None"
    by (simp_all add: env_global_prefix_def env_base_def)
  have d: "with_defaults cfg_only_prefixType
     = \<lparr>prefixType = PrefixManual, manualPrefix = Absent,
        worktreeDir = ''../worktrees'', postCommands = []\<rparr>"
    "with_defaults cfg_undefined_prefix
     = \<lparr>prefixType = PrefixManual, manualPrefix = Undefined,
        worktreeDir = ''../worktrees'', postCommands = []\<rparr>"
    by (simp_all add: with_defaults_def cfg_only_prefixType_def cfg_undefined_prefix_def)
  have n: "globalConfig (new_ConfigManager ''/repo'') = None"
    by (simp add: new_ConfigManager_def)
  have u: "p_manualPrefix cfg_undefined_prefix = Undefined"
    "p_manualPrefix cfg_only_prefixType = Absent"
    by (simp_all add: cfg_undefined_prefix_def cfg_only_prefixType_def)
  show ?thesis
    using save_then_load [OF w(1), of cfg_only_prefixType]
      save_then_load [OF w(2), of cfg_undefined_prefix] w
    by (simp add: Let_def d n u mergeConfigs_def spread_def defaultConfig_def cm_after_load_value)
qed

section \<open>The worktree listing parser\<close>

text \<open>
  The listing as the specification describes it: a line that starts with the path marker
  \<open>worktree \<close> opens a block, which runs up to the next such line or the end of the
  input. \<open>blocks\<close> cuts a list of lines into its blocks (a marker line and the lines
  after it, up to the next marker); lines before the first marker belong to no block.
  \<open>block_record\<close> is the record read from one block alone: what the loop computes when
  it is given the lines of this block and no others.
\<close>

definition is_marker :: "string \<Rightarrow> bool" where
  "is_marker l = startsWith l ''worktree ''"

fun blocks :: "string list \<Rightarrow> (string \<times> string list) list" where
  "blocks [] = []"
| "blocks (l # ls) =
     (if is_marker l then (l, takeWhile (\<lambda>x. \<not> is_marker x) ls) # blocks ls else blocks ls)"

definition block_record :: "string \<times> string list \<Rightarrow> GitWorktree" where
  "block_record mb = snd (foldl listWorktrees_step ([], empty_worktree) (fst mb # snd mb))"

lemma step_marker:
  "is_marker l \<Longrightarrow>
   listWorktrees_step (wts, cur) l =
     ((if has_path cur then wts @ [cur] else wts), empty_worktree\<lparr>path := Some (drop 9 l)\<rparr>)"
  by (simp add: listWorktrees_step_def is_marker_def)

lemma step_other:
  "\<not> is_marker l \<Longrightarrow>
   listWorktrees_step (wts, cur) l = (wts, snd (listWorktrees_step ([], cur) l))"
  by (simp add: listWorktrees_step_def is_marker_def)

lemma step_other_path:
  "\<not> is_marker l \<Longrightarrow> path (snd (listWorktrees_step ([], cur) l)) = path cur"
  by (simp add: listWorktrees_step_def is_marker_def)

lemma fold_other:
  "\<forall>l\<in>set b. \<not> is_marker l \<Longrightarrow>
   foldl listWorktrees_step (wts, cur) b = (wts, snd (foldl listWorktrees_step ([], cur) b))"
proof (induction b arbitrary: cur)
  case Nil
  then show ?case by simp
next
  case (Cons l b)
  have nm: "\<not> is_marker l" using Cons.prems by simp
  have rest: "\<forall>x\<in>set b. \<not> is_marker x" using Cons.prems by simp
  have "foldl listWorktrees_step (wts, cur) (l # b)
        = foldl listWorktrees_step (wts, snd (listWorktrees_step ([], cur) l)) b"
    using step_other [OF nm, of wts cur] by simp
  also have "\<dots> = (wts, snd (foldl listWorktrees_step ([], snd (listWorktrees_step ([], cur) l)) b))"
    using Cons.IH [OF rest] .
  also have "foldl listWorktrees_step ([], snd (listWorktrees_step ([], cur) l)) b
        = foldl listWorktrees_step ([], cur) (l # b)"
    using step_other [OF nm, of "[]" cur] by simp
  finally show ?case .
qed

lemma fold_other_path:
  "\<forall>l\<in>set b. \<not> is_marker l \<Longrightarrow>
   path (snd (foldl listWorktrees_step ([], cur) b)) = path cur"
proof (induction b arbitrary: cur)
  case Nil
  then show ?case by simp
next
  case (Cons l b)
  have nm: "\<not> is_marker l" using Cons.prems by simp
  have rest: "\<forall>x\<in>set b. \<not> is_marker x" using Cons.prems by simp
  have "foldl listWorktrees_step ([], cur) (l # b)
        = foldl listWorktrees_step ([], snd (listWorktrees_step ([], cur) l)) b"
    using step_other [OF nm, of "[]" cur] by simp
  then show ?case
    using Cons.IH [OF rest, of "snd (listWorktrees_step ([], cur) l)"] step_other_path [OF nm, of cur]
    by simp
qed

lemma block_record_eq:
  "is_marker m \<Longrightarrow>
   block_record (m, b)
     = snd (foldl listWorktrees_step ([], empty_worktree\<lparr>path := Some (drop 9 m)\<rparr>) b)"
  by (simp add: block_record_def step_marker has_path_def empty_worktree_def)

lemma blocks_empty_iff: "blocks ls = [] \<longleftrightarrow> (\<forall>l\<in>set ls. \<not> is_marker l)"
  by (induction ls) auto

text \<open>The push after the loop, as a function of the loop's state.\<close>

definition finish :: "GitWorktree list \<times> GitWorktree \<Rightarrow> GitWorktree list" where
  "finish st = (case st of (w, c) \<Rightarrow> if has_path c then w @ [c] else w)"

text \<open>
  The state of the loop after any list of lines: the result list holds the records of
  all blocks but the last one (those that name a path), and the current record is that
  of the last block.
\<close>

lemma loop_state:
  "foldl listWorktrees_step (wts, cur) ls =
     (if blocks ls = [] then (wts, snd (foldl listWorktrees_step ([], cur) ls))
      else (finish (wts, snd (foldl listWorktrees_step ([], cur)
                                (takeWhile (\<lambda>x. \<not> is_marker x) ls)))
              @ filter has_path (map block_record (butlast (blocks ls))),
            block_record (last (blocks ls))))"
proof (induction ls arbitrary: wts cur)
  case Nil
  then show ?case by simp
next
  case (Cons l ls)
  show ?case
  proof (cases "is_marker l")
    case True
    let ?new = "empty_worktree\<lparr>path := Some (drop 9 l)\<rparr>"
    let ?tw = "takeWhile (\<lambda>x. \<not> is_marker x) ls"
    have st: "foldl listWorktrees_step (wts, cur) (l # ls)
          = foldl listWorktrees_step (finish (wts, cur), ?new) ls"
      using step_marker [OF True, of wts cur] by (simp add: finish_def)
    have br: "block_record (l, ?tw) = snd (foldl listWorktrees_step ([], ?new) ?tw)"
      using block_record_eq [OF True] .
    show ?thesis
    proof (cases "blocks ls = []")
      case e: True
      then have nom: "\<forall>x\<in>set ls. \<not> is_marker x" by (simp add: blocks_empty_iff)
      then have tw: "?tw = ls" by simp
      have br': "block_record (l, ls) = snd (foldl listWorktrees_step ([], ?new) ls)"
        using br unfolding tw .
      have "foldl listWorktrees_step (finish (wts, cur), ?new) ls
            = (finish (wts, cur), snd (foldl listWorktrees_step ([], ?new) ls))"
        using fold_other [OF nom] .
      then show ?thesis unfolding st using True e br' by (simp add: tw)
    next
      case ne: False
      have "foldl listWorktrees_step (finish (wts, cur), ?new) ls
            = (finish (finish (wts, cur), snd (foldl listWorktrees_step ([], ?new) ?tw))
                 @ filter has_path (map block_record (butlast (blocks ls))),
               block_record (last (blocks ls)))"
        using Cons.IH [of "finish (wts, cur)" ?new] ne by simp
      then show ?thesis using st True ne br by (simp add: finish_def)
    qed
  next
    case False
    let ?c1 = "snd (listWorktrees_step ([], cur) l)"
    have st: "foldl listWorktrees_step (wts, cur) (l # ls) = foldl listWorktrees_step (wts, ?c1) ls"
      using step_other [OF False, of wts cur] by simp
    have st0: "\<And>xs. foldl listWorktrees_step ([], cur) (l # xs) = foldl listWorktrees_step ([], ?c1) xs"
      using step_other [OF False, of "[]" cur] by simp
    show ?thesis
      unfolding st using Cons.IH [of wts ?c1] False st0 by simp
  qed
qed

lemma parse_lines_blocks: "parse_lines ls = filter has_path (map block_record (blocks ls))"
proof (cases "blocks ls = []")
  case True
  then have nom: "\<forall>x\<in>set ls. \<not> is_marker x" by (simp add: blocks_empty_iff)
  have "path (snd (foldl listWorktrees_step ([], empty_worktree) ls)) = None"
    using fold_other_path [OF nom, of empty_worktree] by (simp add: empty_worktree_def)
  then have nh: "\<not> has_path (snd (foldl listWorktrees_step ([], empty_worktree) ls))"
    by (simp add: has_path_def)
  obtain w c where wc: "foldl listWorktrees_step ([], empty_worktree) ls = (w, c)"
    by (cases "foldl listWorktrees_step ([], empty_worktree) ls")
  have "w = []" using True loop_state [of "[]" empty_worktree ls] wc by simp
  moreover have "\<not> has_path c" using nh wc by simp
  ultimately show ?thesis using True wc by (simp add: parse_lines_def)
next
  case False
  let ?tw = "takeWhile (\<lambda>x. \<not> is_marker x) ls"
  have "\<forall>x\<in>set ?tw. \<not> is_marker x" by (auto dest: set_takeWhileD)
  then have "path (snd (foldl listWorktrees_step ([], empty_worktree) ?tw)) = None"
    using fold_other_path [of ?tw empty_worktree] by (simp add: empty_worktree_def)
  then have nh: "\<not> has_path (snd (foldl listWorktrees_step ([], empty_worktree) ?tw))"
    by (simp add: has_path_def)
  have "filter has_path (map block_record (blocks ls))
        = filter has_path (map block_record (butlast (blocks ls) @ [last (blocks ls)]))"
    using False by simp
  then show ?thesis
    using False nh loop_state [of "[]" empty_worktree ls]
    by (simp add: parse_lines_def finish_def del: append_butlast_last_id)
qed


text \<open>
  In a listing printed by \<open>git worktree list --porcelain\<close> every marker line names a
  path: the text after \<open>worktree \<close> is not empty.
\<close>

definition markers_name_paths :: "string list \<Rightarrow> bool" where
  "markers_name_paths ls = (\<forall>l\<in>set ls. is_marker l \<longrightarrow> drop 9 l \<noteq> [])"

lemma blocks_members:
  "mb \<in> set (blocks ls) \<Longrightarrow>
   fst mb \<in> set ls \<and> is_marker (fst mb) \<and> (\<forall>x\<in>set (snd mb). \<not> is_marker x)"
proof (induction ls)
  case Nil
  then show ?case by simp
next
  case (Cons l ls)
  show ?case
  proof (cases "is_marker l \<and> mb = (l, takeWhile (\<lambda>x. \<not> is_marker x) ls)")
    case True
    then show ?thesis by (auto dest: set_takeWhileD)
  next
    case False
    then have "mb \<in> set (blocks ls)" using Cons.prems by (auto split: if_splits)
    then show ?thesis using Cons.IH by simp
  qed
qed

lemma block_record_path:
  assumes "mb \<in> set (blocks ls)"
  shows "path (block_record mb) = Some (drop 9 (fst mb))"
proof -
  have m: "is_marker (fst mb)" and b: "\<forall>x\<in>set (snd mb). \<not> is_marker x"
    using blocks_members [OF assms] by simp_all
  have "block_record (fst mb, snd mb)
        = snd (foldl listWorktrees_step ([], empty_worktree\<lparr>path := Some (drop 9 (fst mb))\<rparr>) (snd mb))"
    using block_record_eq [OF m] .
  then show ?thesis
    using fold_other_path [OF b, of "empty_worktree\<lparr>path := Some (drop 9 (fst mb))\<rparr>"] by simp
qed

lemma blocks_have_paths:
  assumes "markers_name_paths ls" and "set bs \<subseteq> set (blocks ls)"
  shows "filter has_path (map block_record bs) = map block_record bs"
proof -
  have "\<forall>mb\<in>set bs. has_path (block_record mb)"
  proof
    fix mb assume "mb \<in> set bs"
    then have in_bl: "mb \<in> set (blocks ls)" using assms(2) by auto
    have "fst mb \<in> set ls" and "is_marker (fst mb)" using blocks_members [OF in_bl] by simp_all
    then have "drop 9 (fst mb) \<noteq> []" using assms(1) by (simp add: markers_name_paths_def)
    then show "has_path (block_record mb)"
      using block_record_path [OF in_bl] by (simp add: has_path_def)
  qed
  then show ?thesis by (simp add: filter_id_conv)
qed

lemma length_blocks: "length (blocks ls) = length (filter is_marker ls)"
  by (induction ls) simp_all

lemma markers_name_paths_prefix: "markers_name_paths (pre @ suf) \<Longrightarrow> markers_name_paths pre"
  by (simp add: markers_name_paths_def)

lemma loop_prefix:
  assumes "markers_name_paths pre"
  shows "fst (foldl listWorktrees_step ([], empty_worktree) pre)
         = map block_record (butlast (blocks pre))"
proof (cases "blocks pre = []")
  case True
  obtain w c where wc: "foldl listWorktrees_step ([], empty_worktree) pre = (w, c)"
    by (cases "foldl listWorktrees_step ([], empty_worktree) pre")
  have "w = []" using True loop_state [of "[]" empty_worktree pre] wc by simp
  then show ?thesis using True wc by simp
next
  case False
  let ?tw = "takeWhile (\<lambda>x. \<not> is_marker x) pre"
  have "\<forall>x\<in>set ?tw. \<not> is_marker x" by (auto dest: set_takeWhileD)
  then have "path (snd (foldl listWorktrees_step ([], empty_worktree) ?tw)) = None"
    using fold_other_path [of ?tw empty_worktree] by (simp add: empty_worktree_def)
  then have nh: "\<not> has_path (snd (foldl listWorktrees_step ([], empty_worktree) ?tw))"
    by (simp add: has_path_def)
  have "set (butlast (blocks pre)) \<subseteq> set (blocks pre)" by (auto dest: in_set_butlastD)
  then have "filter has_path (map block_record (butlast (blocks pre)))
        = map block_record (butlast (blocks pre))"
    using blocks_have_paths [OF assms] by blast
  then show ?thesis
    using False nh loop_state [of "[]" empty_worktree pre] by (simp add: finish_def)
qed

text \<open>
  C7. For every porcelain listing (every marker line names a path) the parser returns
  exactly one record per marker line, in order; each record is the one read from its own
  block alone, so its commit, branch, bare and detached fields come only from the lines
  between its marker and the next marker or the end of the input; and after any prefix
  of the lines the result list holds the records of the closed blocks only: the record
  of the last block read so far is appended when the next marker or the end of the input
  is reached.
\<close>

theorem parse_lines_one_record_per_block:
  assumes "markers_name_paths ls"
  shows "parse_lines ls = map block_record (blocks ls)
     \<and> length (parse_lines ls) = length (filter is_marker ls)
     \<and> (\<forall>pre suf. ls = pre @ suf \<longrightarrow>
           fst (foldl listWorktrees_step ([], empty_worktree) pre)
             = map block_record (butlast (blocks pre)))"
proof -
  have 1: "parse_lines ls = map block_record (blocks ls)"
    using parse_lines_blocks [of ls] blocks_have_paths [OF assms, of "blocks ls"] by simp
  have 2: "length (parse_lines ls) = length (filter is_marker ls)"
    using 1 length_blocks by simp
  have 3: "\<forall>pre suf. ls = pre @ suf \<longrightarrow>
           fst (foldl listWorktrees_step ([], empty_worktree) pre)
             = map block_record (butlast (blocks pre))"
    using assms markers_name_paths_prefix loop_prefix by blast
  from 1 2 3 show ?thesis by simp
qed

text \<open>Two consecutive worktree blocks, as \<open>git\<close> prints them.\<close>

definition two_worktrees_output :: string where
  "two_worktrees_output =
     ''worktree /repo'' @ [newline] @ ''HEAD 1111'' @ [newline] @ ''branch refs/heads/main''
     @ [newline] @ [newline]
     @ ''worktree /worktrees/fix'' @ [newline] @ ''HEAD 2222'' @ [newline] @ ''detached''
     @ [newline]"

lemma two_worktrees_lines:
  "porcelain_lines two_worktrees_output =
     [''worktree /repo'', ''HEAD 1111'', ''branch refs/heads/main'', [],
      ''worktree /worktrees/fix'', ''HEAD 2222'', ''detached'']"
  by (simp add: porcelain_lines_def two_worktrees_output_def trim_def is_ws_def newline_def)

theorem parse_lines_one_record_per_block_witness:
  "markers_name_paths (porcelain_lines two_worktrees_output)
   \<and> parse_lines (porcelain_lines two_worktrees_output) =
       [\<lparr>path = Some ''/repo'', branch = Some ''refs/heads/main'', commit = Some ''1111'',
         bare = None, detached = None\<rparr>,
        \<lparr>path = Some ''/worktrees/fix'', branch = None, commit = Some ''2222'',
         bare = None, detached = Some True\<rparr>]
   \<and> length (parse_lines (porcelain_lines two_worktrees_output)) = 2"
proof -
  have wf: "markers_name_paths (porcelain_lines two_worktrees_output)"
    by (simp add: two_worktrees_lines markers_name_paths_def is_marker_def startsWith_def)
  have bl: "map block_record (blocks (porcelain_lines two_worktrees_output)) =
       [\<lparr>path = Some ''/repo'', branch = Some ''refs/heads/main'', commit = Some ''1111'',
         bare = None, detached = None\<rparr>,
        \<lparr>path = Some ''/worktrees/fix'', branch = None, commit = Some ''2222'',
         bare = None, detached = Some True\<rparr>]"
    by (simp add: two_worktrees_lines is_marker_def startsWith_def block_record_def
        listWorktrees_step_def empty_worktree_def has_path_def)
  have fl: "length (filter is_marker (porcelain_lines two_worktrees_output)) = 2"
    by (simp add: two_worktrees_lines is_marker_def startsWith_def)
  show ?thesis
    using parse_lines_one_record_per_block [OF wf] wf bl fl by simp
qed

section \<open>Existence checks\<close>

lemma runOrThrow_nonzero:
  "exitCode (fst (ExecUtils_run E command args cwd tr)) \<noteq> 0 \<Longrightarrow>
   \<exists>err. ExecUtils_runOrThrow E command args cwd tr
           = (Inl err, tr @ [Exec command args cwd]) \<and> err_class err = KWTErrorC"
  by (simp add: ExecUtils_runOrThrow_def ExecUtils_run_def split: prod.splits)

lemma exists_trace: "ExecUtils_exists E command tr = (True, tr @ [Exec ''which'' [command] None])"
  by (simp add: ExecUtils_exists_def ExecUtils_run_def)

text \<open>
  C5, as the code has it. When the underlying command exits with a non-zero status,
  \<open>branchExists\<close>, \<open>remoteBranchExists\<close> and the hosting checks \<open>mergeRequestExists\<close>
  and \<open>pullRequestExists\<close> return false (their result type has no error), whereas
  \<open>worktreeExists\<close> raises the \<open>GitError\<close> of the failed listing.
\<close>

theorem existence_checks_on_failure:
  "(exitCode (fst (ExecUtils_run E ''git''
        [''show-ref'', ''--verify'', ''--quiet'', ''refs/heads/'' @ b] (Some cwd) tr)) \<noteq> 0
      \<longrightarrow> fst (branchExists E cwd b tr) = False)
   \<and> (exitCode (fst (ExecUtils_run E ''git''
        [''show-ref'', ''--verify'', ''--quiet'', ''refs/remotes/'' @ remote @ ''/'' @ b]
        (Some cwd) tr)) \<noteq> 0
      \<longrightarrow> fst (remoteBranchExists E cwd b remote tr) = False)
   \<and> (exitCode (fst (ExecUtils_run E ''glab''
        [''mr'', ''view'', Number_toString n, ''--output'', ''json''] (Some cwd)
        (tr @ [Exec ''which'' [''glab''] None]))) \<noteq> 0
      \<longrightarrow> fst (mergeRequestExists E cwd n tr) = False)
   \<and> (exitCode (fst (ExecUtils_run E ''gh''
        [''pr'', ''view'', Number_toString n, ''--json'',
         ''number,title,headRefName,baseRefName,state,url''] (Some cwd)
        (tr @ [Exec ''which'' [''gh''] None]))) \<noteq> 0
      \<longrightarrow> fst (pullRequestExists E cwd n tr) = False)
   \<and> (exitCode (fst (ExecUtils_run E ''git'' [''worktree'', ''list'', ''--porcelain'']
        (Some cwd) tr)) \<noteq> 0
      \<longrightarrow> (\<exists>err. fst (ExecUtils_runOrThrow E ''git'' [''worktree'', ''list'', ''--porcelain'']
                        (Some cwd) tr) = Inl err
               \<and> fst (worktreeExists E cwd p tr)
                   = Inl (GitError (''Failed to list worktrees: '' @ message err) (Some err))))"
proof -
  have 1: "exitCode (fst (ExecUtils_run E ''git''
        [''show-ref'', ''--verify'', ''--quiet'', ''refs/heads/'' @ b] (Some cwd) tr)) \<noteq> 0
      \<longrightarrow> fst (branchExists E cwd b tr) = False"
    using runOrThrow_nonzero
      [of E "''git''" "[''show-ref'', ''--verify'', ''--quiet'', ''refs/heads/'' @ b]" "Some cwd" tr]
    by (auto simp: branchExists_def)
  have 2: "exitCode (fst (ExecUtils_run E ''git''
        [''show-ref'', ''--verify'', ''--quiet'', ''refs/remotes/'' @ remote @ ''/'' @ b]
        (Some cwd) tr)) \<noteq> 0
      \<longrightarrow> fst (remoteBranchExists E cwd b remote tr) = False"
    using runOrThrow_nonzero
      [of E "''git''" "[''show-ref'', ''--verify'', ''--quiet'',
           ''refs/remotes/'' @ remote @ ''/'' @ b]" "Some cwd" tr]
    by (auto simp: remoteBranchExists_def)
  have 3: "exitCode (fst (ExecUtils_run E ''glab''
        [''mr'', ''view'', Number_toString n, ''--output'', ''json''] (Some cwd)
        (tr @ [Exec ''which'' [''glab''] None]))) \<noteq> 0
      \<longrightarrow> fst (mergeRequestExists E cwd n tr) = False"
    using runOrThrow_nonzero
      [of E "''glab''" "[''mr'', ''view'', Number_toString n, ''--output'', ''json'']" "Some cwd"
          "tr @ [Exec ''which'' [''glab''] None]"]
    by (auto simp: mergeRequestExists_def getMergeRequest_def isGlabAvailable_def exists_trace)
  have 4: "exitCode (fst (ExecUtils_run E ''gh''
        [''pr'', ''view'', Number_toString n, ''--json'',
         ''number,title,headRefName,baseRefName,state,url''] (Some cwd)
        (tr @ [Exec ''which'' [''gh''] None]))) \<noteq> 0
      \<longrightarrow> fst (pullRequestExists E cwd n tr) = False"
    using runOrThrow_nonzero
      [of E "''gh''" "[''pr'', ''view'', Number_toString n, ''--json'',
         ''number,title,headRefName,baseRefName,state,url'']" "Some cwd"
          "tr @ [Exec ''which'' [''gh''] None]"]
    by (auto simp: pullRequestExists_def getPullRequest_def isGhAvailable_def exists_trace)
  have 5: "exitCode (fst (ExecUtils_run E ''git'' [''worktree'', ''list'', ''--porcelain'']
        (Some cwd) tr)) \<noteq> 0
      \<longrightarrow> (\<exists>err. fst (ExecUtils_runOrThrow E ''git'' [''worktree'', ''list'', ''--porcelain'']
                        (Some cwd) tr) = Inl err
               \<and> fst (worktreeExists E cwd p tr)
                   = Inl (GitError (''Failed to list worktrees: '' @ message err) (Some err)))"
    using runOrThrow_nonzero
      [of E "''git''" "[''worktree'', ''list'', ''--porcelain'']" "Some cwd" tr]
    by (auto simp: worktreeExists_def listWorktrees_def)
  from 1 2 3 4 5 show ?thesis by blast
qed

text \<open>All five checks where every command exits with status 1.\<close>

theorem existence_checks_on_failure_witness:
  "exitCode (fst (ExecUtils_run env_nothing_installed ''git''
        [''show-ref'', ''--verify'', ''--quiet'', ''refs/heads/fix''] (Some ''/repo'') [])) = 1
   \<and> fst (branchExists env_nothing_installed ''/repo'' ''fix'' []) = False
   \<and> fst (remoteBranchExists env_nothing_installed ''/repo'' ''fix'' ''origin'' []) = False
   \<and> fst (mergeRequestExists env_nothing_installed ''/repo'' 7 []) = False
   \<and> fst (pullRequestExists env_nothing_installed ''/repo'' 7 []) = False
   \<and> isl (fst (worktreeExists env_nothing_installed ''/repo'' ''/worktrees/fix'' []))"
proof -
  have ex: "\<And>command args cwd tr.
      exitCode (fst (ExecUtils_run env_nothing_installed command args cwd tr)) = 1"
    by (simp add: ExecUtils_run_def env_nothing_installed_def env_base_def)
  show ?thesis
    using existence_checks_on_failure
      [of env_nothing_installed "''fix''" "''/repo''" "[]" "''origin''" 7 "''/worktrees/fix''"]
    by (auto simp: ex)
qed

text \<open>
  The claim C5 says that \<open>worktreeExists\<close> too returns false when its command exits
  non-zero and never surfaces the error. Where \<open>git worktree list --porcelain\<close> exits
  with status 1, \<open>worktreeExists\<close> raises a \<open>GitError\<close>.
\<close>

theorem worktreeExists_raises_counterexample:
  "exitCode (fst (ExecUtils_run env_nothing_installed ''git''
        [''worktree'', ''list'', ''--porcelain''] (Some ''/repo'') [])) = 1
   \<and> fst (worktreeExists env_nothing_installed ''/repo'' ''/worktrees/fix'' [])
     = Inl (GitError
         (''Failed to list worktrees: Command failed: git worktree list --porcelain''
            @ [newline] @ ''not found'')
         (Some (JsError KWTErrorC
            (''Command failed: git worktree list --porcelain'' @ [newline] @ ''not found'') None)))"
  by (simp add: worktreeExists_def listWorktrees_def ExecUtils_runOrThrow_def ExecUtils_run_def
      env_nothing_installed_def env_base_def string_or_empty_def)


section \<open>Removing a worktree\<close>

text \<open>The arguments of the removal command.\<close>

definition remove_args :: "string \<Rightarrow> bool \<Rightarrow> string list" where
  "remove_args p force =
     (if force then [''worktree'', ''remove'', ''--force'', p] else [''worktree'', ''remove'', p])"

text \<open>
  C9, as the code has it. Whenever the removal command exits with a non-zero status,
  \<open>removeWorktree\<close> raises a \<open>GitError\<close> whose message and cause are those of the
  original failure, whether or not \<open>force\<close> was requested and whatever the fallback
  does. The fallback runs only when \<open>force\<close> is set and the path still exists: it
  deletes the directory and then calls prune. If the deletion throws, a warning is logged
  and prune is not called. The prune call goes through \<open>ExecUtils.run\<close>, which does not
  throw: whatever its exit status, nothing is logged after it. The events after the
  removal command are exactly those.
\<close>

theorem removeWorktree_raises_original:
  assumes "exitCode (fst (ExecUtils_run E ''git'' (remove_args p force) (Some cwd) tr)) \<noteq> 0"
  shows "\<exists>err. fst (ExecUtils_runOrThrow E ''git'' (remove_args p force) (Some cwd) tr) = Inl err
     \<and> fst (removeWorktree E cwd p force tr)
         = Inl (GitError (''Failed to remove worktree: '' @ message err) (Some err))
     \<and> (let tr' = tr @ [Exec ''git'' (remove_args p force) (Some cwd)]
        in snd (removeWorktree E cwd p force tr) =
             tr' @ (if force \<and> existsSync E tr' p then
                      (case rmSync_error E tr' p of
                         Some cleanupError \<Rightarrow>
                           [RmSync p,
                            LogWarn (''Manual cleanup also failed: '' @ message cleanupError)]
                       | None \<Rightarrow>
                           [RmSync p, Exec ''git'' [''worktree'', ''prune''] (Some cwd)])
                    else []))"
proof -
  obtain err where e: "ExecUtils_runOrThrow E ''git'' (remove_args p force) (Some cwd) tr
      = (Inl err, tr @ [Exec ''git'' (remove_args p force) (Some cwd)])"
    using runOrThrow_nonzero [OF assms] by blast
  have a: "(let args = [''worktree'', ''remove''];
               args = (if force then args @ [''--force''] else args)
           in args @ [p]) = remove_args p force"
    by (simp add: remove_args_def)
  have r: "fst (removeWorktree E cwd p force tr)
         = Inl (GitError (''Failed to remove worktree: '' @ message err) (Some err))"
    using e by (cases force) (simp_all add: removeWorktree_def remove_args_def Let_def)
  have t: "(let tr' = tr @ [Exec ''git'' (remove_args p force) (Some cwd)]
        in snd (removeWorktree E cwd p force tr) =
             tr' @ (if force \<and> existsSync E tr' p then
                      (case rmSync_error E tr' p of
                         Some cleanupError \<Rightarrow>
                           [RmSync p,
                            LogWarn (''Manual cleanup also failed: '' @ message cleanupError)]
                       | None \<Rightarrow>
                           [RmSync p, Exec ''git'' [''worktree'', ''prune''] (Some cwd)])
                    else []))"
    using e
    by (cases force)
       (simp_all add: removeWorktree_def remove_args_def Let_def ExecUtils_run_def
          split: option.splits)
  from e r t show ?thesis by auto
qed

text \<open>
  The removal command fails with status 128, the directory still exists and its deletion
  throws.
\<close>

definition env_remove_fails :: env where
  "env_remove_fails =
     env_base\<lparr>execa := (\<lambda>tr command args cwd.
         Rejects \<lparr>r_stdout = None, r_stderr = Some ''locked'', r_exitCode = Some 128\<rparr>),
       existsSync := (\<lambda>tr p. True),
       rmSync_error := (\<lambda>tr p. Some (Error ''EACCES''))\<rparr>"

theorem removeWorktree_raises_original_witness:
  "exitCode (fst (ExecUtils_run env_remove_fails ''git'' (remove_args ''/worktrees/fix'' True)
        (Some ''/repo'') [])) = 128
   \<and> fst (removeWorktree env_remove_fails ''/repo'' ''/worktrees/fix'' True [])
       = Inl (GitError
           (''Failed to remove worktree: Command failed: git worktree remove --force /worktrees/fix''
              @ [newline] @ ''locked'')
           (Some (JsError KWTErrorC
              (''Command failed: git worktree remove --force /worktrees/fix'' @ [newline]
                 @ ''locked'') None)))
   \<and> snd (removeWorktree env_remove_fails ''/repo'' ''/worktrees/fix'' True [])
       = [Exec ''git'' [''worktree'', ''remove'', ''--force'', ''/worktrees/fix''] (Some ''/repo''),
          RmSync ''/worktrees/fix'',
          LogWarn ''Manual cleanup also failed: EACCES'']"
proof -
  have x: "exitCode (fst (ExecUtils_run env_remove_fails ''git''
        (remove_args ''/worktrees/fix'' True) (Some ''/repo'') [])) = 128"
    by (simp add: ExecUtils_run_def env_remove_fails_def env_base_def)
  then have nz: "exitCode (fst (ExecUtils_run env_remove_fails ''git''
        (remove_args ''/worktrees/fix'' True) (Some ''/repo'') [])) \<noteq> 0"
    by simp
  have ro: "fst (ExecUtils_runOrThrow env_remove_fails ''git''
        (remove_args ''/worktrees/fix'' True) (Some ''/repo'') [])
      = Inl (JsError KWTErrorC
              (''Command failed: git worktree remove --force /worktrees/fix'' @ [newline]
                 @ ''locked'') None)"
    by (simp add: ExecUtils_runOrThrow_def ExecUtils_run_def env_remove_fails_def env_base_def
        remove_args_def string_or_empty_def)
  have ev: "existsSync env_remove_fails
        [Exec ''git'' (remove_args ''/worktrees/fix'' True) (Some ''/repo'')] ''/worktrees/fix''"
    "rmSync_error env_remove_fails
        [Exec ''git'' (remove_args ''/worktrees/fix'' True) (Some ''/repo'')] ''/worktrees/fix''
      = Some (Error ''EACCES'')"
    by (simp_all add: env_remove_fails_def env_base_def)
  show ?thesis
    using removeWorktree_raises_original [OF nz] x ro ev
    by (auto simp: Let_def remove_args_def Error_def)
qed

text \<open>
  The removal command fails with status 128, the directory still exists, its deletion
  succeeds, and \<open>git worktree prune\<close> fails with status 1.
\<close>

definition env_prune_fails :: env where
  "env_prune_fails =
     env_base\<lparr>execa := (\<lambda>tr command args cwd.
         if args = [''worktree'', ''prune'']
         then Rejects \<lparr>r_stdout = None, r_stderr = Some ''not a repository'', r_exitCode = Some 1\<rparr>
         else Rejects \<lparr>r_stdout = None, r_stderr = Some ''locked'', r_exitCode = Some 128\<rparr>),
       existsSync := (\<lambda>tr p. True)\<rparr>"

definition is_warning :: "event \<Rightarrow> bool" where
  "is_warning e = (case e of LogWarn m \<Rightarrow> True | _ \<Rightarrow> False)"

text \<open>
  The claim C9 says that a failure of the fallback records a warning. In the environment
  above the fallback fails in its prune call, and no warning is among the events.
\<close>

theorem removeWorktree_silent_prune_counterexample:
  "exitCode (fst (ExecUtils_run env_prune_fails ''git'' [''worktree'', ''prune''] (Some ''/repo'')
        [Exec ''git'' [''worktree'', ''remove'', ''--force'', ''/worktrees/fix''] (Some ''/repo''),
         RmSync ''/worktrees/fix''])) = 1
   \<and> snd (removeWorktree env_prune_fails ''/repo'' ''/worktrees/fix'' True [])
       = [Exec ''git'' [''worktree'', ''remove'', ''--force'', ''/worktrees/fix''] (Some ''/repo''),
          RmSync ''/worktrees/fix'',
          Exec ''git'' [''worktree'', ''prune''] (Some ''/repo'')]
   \<and> filter is_warning (snd (removeWorktree env_prune_fails ''/repo'' ''/worktrees/fix'' True []))
       = []"
  by (simp add: removeWorktree_def ExecUtils_runOrThrow_def ExecUtils_run_def env_prune_fails_def
      env_base_def Let_def string_or_empty_def is_warning_def)

section \<open>Worktree names from change requests\<close>

text \<open>
  The specification's description of the name, step by step: every character outside
  \<open>[A-Za-z0-9_-]\<close> becomes a dash; runs of dashes collapse to one dash; dashes at both
  ends are removed.
\<close>

definition is_dash :: "char \<Rightarrow> bool" where
  "is_dash c = (c = CHR ''-'')"

definition replace_problematic :: "string \<Rightarrow> string" where
  "replace_problematic s = map (\<lambda>c. if is_name_char c then c else CHR ''-'') s"

fun collapse_dashes :: "string \<Rightarrow> string" where
  "collapse_dashes [] = []"
| "collapse_dashes [x] = [x]"
| "collapse_dashes (x # y # ys) =
     (if is_dash x \<and> is_dash y then collapse_dashes (y # ys) else x # collapse_dashes (y # ys))"

definition strip_dashes :: "string \<Rightarrow> string" where
  "strip_dashes s = rev (dropWhile is_dash (rev (dropWhile is_dash s)))"

definition sanitized :: "string \<Rightarrow> string" where
  "sanitized b = strip_dashes (collapse_dashes (replace_problematic b))"

text \<open>Each of the three global replacements of the source computes one of the steps.\<close>

lemma replace_problematic_eq:
  "replace_from problematic_pattern ''-'' i s = replace_problematic s"
proof (induction s arbitrary: i)
  case Nil
  show ?case
    by (subst replace_from.simps) (simp add: problematic_pattern_def replace_problematic_def)
next
  case (Cons x xs)
  have tl: "replace_from problematic_pattern ''-'' (Suc i) xs = replace_problematic xs"
    using Cons.IH .
  have "replace_from problematic_pattern ''-'' i (x # xs)
        = (if is_name_char x then x else CHR ''-'') # replace_from problematic_pattern ''-'' (Suc i) xs"
    by (subst replace_from.simps) (simp add: problematic_pattern_def)
  then show ?case by (simp add: tl replace_problematic_def)
qed

lemma plus_greedy_always:
  "plus_greedy p i s (\<lambda>i' s'. Some s') =
     (case s of [] \<Rightarrow> None | x # xs \<Rightarrow> if p x then Some (dropWhile p xs) else None)"
proof (induction s arbitrary: i)
  case Nil
  show ?case by simp
next
  case (Cons x xs)
  show ?case using Cons.IH [of "Suc i"] by (cases xs) auto
qed

lemma plus_greedy_to_end:
  "plus_greedy p i s (\<lambda>i' s'. if s' = [] then Some s' else None) =
     (if s \<noteq> [] \<and> (\<forall>x\<in>set s. p x) then Some [] else None)"
proof (induction s arbitrary: i)
  case Nil
  show ?case by simp
next
  case (Cons x xs)
  have "plus_greedy p i (x # xs) (\<lambda>i' s'. if s' = [] then Some s' else None)
        = (if p x then
             (case (if xs \<noteq> [] \<and> (\<forall>y\<in>set xs. p y) then Some [] else None) of
                Some r \<Rightarrow> Some r
              | None \<Rightarrow> if xs = [] then Some xs else None)
           else None)"
    by (simp only: plus_greedy.simps Cons.IH [of "Suc i"])
  then show ?case by auto
qed

lemma collapse_dashes_run:
  "is_dash x \<Longrightarrow> collapse_dashes (x # xs) = x # collapse_dashes (dropWhile is_dash xs)"
proof (induction xs arbitrary: x)
  case Nil
  show ?case by simp
next
  case (Cons y ys)
  show ?case
  proof (cases "is_dash y")
    case True
    then show ?thesis using Cons.prems Cons.IH [of y] by (simp add: is_dash_def)
  next
    case False
    then show ?thesis using Cons.prems by simp
  qed
qed

lemma collapse_dashes_other:
  "\<not> is_dash x \<Longrightarrow> collapse_dashes (x # xs) = x # collapse_dashes xs"
  by (cases xs) simp_all

lemma collapse_dashes_eq: "replace_from dashes_pattern ''-'' i s = collapse_dashes s"
proof (induction "length s" arbitrary: s i rule: less_induct)
  case less
  show ?case
  proof (cases s)
    case Nil
    then show ?thesis
      by (subst replace_from.simps) (simp add: dashes_pattern_def)
  next
    case (Cons x xs)
    show ?thesis
    proof (cases "is_dash x")
      case True
      have len: "length (dropWhile is_dash xs) < length s"
        using Cons length_dropWhile_le [of is_dash xs] by simp
      have m: "rmatch dashes_pattern i s (\<lambda>n. None) (\<lambda>i' s' c'. Some s')
          = Some (dropWhile is_dash xs)"
        using True Cons
        by (simp add: dashes_pattern_def plus_greedy_always is_dash_def [abs_def])
      have "replace_from dashes_pattern ''-'' i s
          = ''-'' @ replace_from dashes_pattern ''-''
                     (i + (length s - length (dropWhile is_dash xs))) (dropWhile is_dash xs)"
        by (subst replace_from.simps) (simp add: m len)
      also have "\<dots> = ''-'' @ collapse_dashes (dropWhile is_dash xs)"
        using less [OF len] by simp
      also have "\<dots> = collapse_dashes s"
        using True Cons collapse_dashes_run [OF True, of xs] by (simp add: is_dash_def)
      finally show ?thesis .
    next
      case False
      have len: "length xs < length s" using Cons by simp
      have m: "rmatch dashes_pattern i s (\<lambda>n. None) (\<lambda>i' s' c'. Some s') = None"
        using False Cons
        by (simp add: dashes_pattern_def is_dash_def)
      have "replace_from dashes_pattern ''-'' i s
          = x # replace_from dashes_pattern ''-'' (Suc i) xs"
        by (subst replace_from.simps, simp only: m option.case, simp add: Cons)
      also have "\<dots> = x # collapse_dashes xs" using less [OF len] by simp
      also have "\<dots> = collapse_dashes s" using False Cons collapse_dashes_other by simp
      finally show ?thesis .
    qed
  qed
qed


definition strip_trailing :: "string \<Rightarrow> string" where
  "strip_trailing s = rev (dropWhile is_dash (rev s))"

lemma strip_trailing_Nil: "strip_trailing [] = []"
  by (simp add: strip_trailing_def)

lemma strip_trailing_all: "\<forall>x\<in>set s. is_dash x \<Longrightarrow> strip_trailing s = []"
  by (simp add: strip_trailing_def)

lemma strip_trailing_Cons:
  "\<not> (\<forall>y\<in>set (x # xs). is_dash y) \<Longrightarrow> strip_trailing (x # xs) = x # strip_trailing xs"
proof (cases "\<forall>y\<in>set xs. is_dash y")
  case True
  assume "\<not> (\<forall>y\<in>set (x # xs). is_dash y)"
  then have nx: "\<not> is_dash x" using True by simp
  have "dropWhile is_dash (rev xs @ [x]) = [x]"
    using True nx by (simp add: dropWhile_append)
  then show ?thesis using True by (simp add: strip_trailing_def)
next
  case False
  then obtain y where "y \<in> set (rev xs)" "\<not> is_dash y" by auto
  then have "dropWhile is_dash (rev xs @ [x]) = dropWhile is_dash (rev xs) @ [x]"
    by (simp add: dropWhile_append1)
  then show ?thesis by (simp add: strip_trailing_def)
qed

lemma edge_match_inside:
  "0 < i \<Longrightarrow>
   rmatch edge_dashes_pattern i s (\<lambda>n. None) (\<lambda>i' s' c'. Some s')
     = (if s \<noteq> [] \<and> (\<forall>x\<in>set s. is_dash x) then Some [] else None)"
  by (simp add: edge_dashes_pattern_def plus_greedy_to_end is_dash_def)

lemma edge_match_start:
  "rmatch edge_dashes_pattern 0 s (\<lambda>n. None) (\<lambda>i' s' c'. Some s')
     = (case s of [] \<Rightarrow> None
        | x # xs \<Rightarrow> if is_dash x then Some (dropWhile is_dash xs) else None)"
proof (cases s)
  case Nil
  then show ?thesis by (simp add: edge_dashes_pattern_def)
next
  case (Cons x xs)
  show ?thesis
  proof (cases "is_dash x")
    case True
    then show ?thesis
      using Cons
      by (simp add: edge_dashes_pattern_def plus_greedy_always is_dash_def [abs_def])
  next
    case False
    then show ?thesis
      using Cons by (simp add: edge_dashes_pattern_def is_dash_def)
  qed
qed

lemma edge_replace_inside:
  "0 < i \<Longrightarrow> replace_from edge_dashes_pattern [] i s = strip_trailing s"
proof (induction s arbitrary: i)
  case Nil
  show ?case
    by (subst replace_from.simps) (simp add: edge_match_inside [OF Nil] strip_trailing_Nil)
next
  case (Cons x xs)
  show ?case
  proof (cases "\<forall>y\<in>set (x # xs). is_dash y")
    case True
    have m: "rmatch edge_dashes_pattern i (x # xs) (\<lambda>n. None) (\<lambda>i' s' c'. Some s') = Some []"
      using True edge_match_inside [OF Cons.prems, of "x # xs"] by simp
    have e: "replace_from edge_dashes_pattern [] (i + (length (x # xs) - length ([] :: string))) []
          = []"
      by (subst replace_from.simps) (simp add: edge_match_inside)
    have "replace_from edge_dashes_pattern [] i (x # xs) = []"
      by (subst replace_from.simps, simp only: m option.case) (simp add: e [simplified])
    then show ?thesis using strip_trailing_all [OF True] by simp
  next
    case False
    have m: "rmatch edge_dashes_pattern i (x # xs) (\<lambda>n. None) (\<lambda>i' s' c'. Some s') = None"
      using False edge_match_inside [OF Cons.prems, of "x # xs"] by simp
    have "replace_from edge_dashes_pattern [] i (x # xs)
          = x # replace_from edge_dashes_pattern [] (Suc i) xs"
      by (subst replace_from.simps, simp only: m option.case) simp
    then show ?thesis
      using Cons.IH [of "Suc i"] strip_trailing_Cons [OF False] by simp
  qed
qed

lemma strip_dashes_eq: "replace_from edge_dashes_pattern [] 0 s = strip_dashes s"
proof (cases s)
  case Nil
  show ?thesis
    by (subst replace_from.simps) (simp add: Nil edge_match_start strip_dashes_def)
next
  case (Cons x xs)
  show ?thesis
  proof (cases "is_dash x")
    case True
    let ?r = "dropWhile is_dash xs"
    have m: "rmatch edge_dashes_pattern 0 s (\<lambda>n. None) (\<lambda>i' s' c'. Some s') = Some ?r"
      using True Cons edge_match_start [of s] by simp
    have len: "length ?r < length s"
      using Cons length_dropWhile_le [of is_dash xs] by simp
    then have pos: "0 < 0 + (length s - length ?r)" by simp
    have "replace_from edge_dashes_pattern [] 0 s
          = replace_from edge_dashes_pattern [] (0 + (length s - length ?r)) ?r"
      by (subst replace_from.simps, simp only: m option.case) (simp add: len)
    also have "\<dots> = strip_trailing ?r" using edge_replace_inside [OF pos] .
    also have "\<dots> = strip_dashes s"
      using True Cons by (simp add: strip_dashes_def strip_trailing_def)
    finally show ?thesis .
  next
    case False
    have m: "rmatch edge_dashes_pattern 0 s (\<lambda>n. None) (\<lambda>i' s' c'. Some s') = None"
      using False Cons edge_match_start [of s] by simp
    have nall: "\<not> (\<forall>y\<in>set (x # xs). is_dash y)" using False by simp
    have "replace_from edge_dashes_pattern [] 0 s
          = x # replace_from edge_dashes_pattern [] (Suc 0) xs"
      by (subst replace_from.simps, simp only: m option.case) (simp add: Cons)
    also have "\<dots> = x # strip_trailing xs" using edge_replace_inside [of "Suc 0" xs] by simp
    also have "\<dots> = strip_trailing (x # xs)" using strip_trailing_Cons [OF nall] by simp
    also have "\<dots> = strip_dashes s"
      using False Cons by (simp add: strip_dashes_def strip_trailing_def)
    finally show ?thesis .
  qed
qed

lemma three_replaces:
  "String_replace_all
     (String_replace_all (String_replace_all b problematic_pattern ''-'') dashes_pattern ''-'')
     edge_dashes_pattern [] = sanitized b"
  by (simp add: String_replace_all_def replace_problematic_eq collapse_dashes_eq strip_dashes_eq
      sanitized_def)

text \<open>
  C4. For every change request (the hosting CLI returned it, and its source branch is a
  string), \<open>generateWorktreeName\<close> returns the source branch name with every character
  outside \<open>[A-Za-z0-9_-]\<close> replaced by a dash, runs of dashes collapsed and dashes at
  both ends stripped; when that has fewer than two characters it returns \<open>mr-<id>\<close>
  (GitLab) or \<open>pr-<id>\<close> (GitHub) instead.
\<close>

theorem generateWorktreeName_sanitizes:
  "(getMergeRequest E cwd n tr = (Inr mr, tr') \<and> js_string_property mr ''source_branch'' = Inr b
      \<longrightarrow> fst (generateWorktreeName_gitlab E cwd n tr)
            = Inr (if length (sanitized b) < 2 then ''mr-'' @ Number_toString n else sanitized b))
   \<and> (getPullRequest E cwd n tr = (Inr pr, tr') \<and> js_string_property pr ''headRefName'' = Inr b
      \<longrightarrow> fst (generateWorktreeName_github E cwd n tr)
            = Inr (if length (sanitized b) < 2 then ''pr-'' @ Number_toString n else sanitized b))"
  by (simp add: generateWorktreeName_gitlab_def generateWorktreeName_github_def three_replaces
      Let_def)


text \<open>
  The hosting CLI answers with a change request number 7 whose source branch is \<open>b\<close>.
  The branch \<open>feature/ABC-123_fix!!\<close> gives \<open>feature-ABC-123_fix\<close>, and the branch
  \<open>!\<close> gives the fallback.
\<close>

definition env_merge_request :: "string \<Rightarrow> env" where
  "env_merge_request b =
     env_base\<lparr>JSON_parse := (\<lambda>s. Inr (JObj [(''iid'', JNum 7), (''source_branch'', JStr b),
                                            (''headRefName'', JStr b)]))\<rparr>"

lemma sanitized_example: "sanitized ''feature/ABC-123_fix!!'' = ''feature-ABC-123_fix''"
  by (simp add: sanitized_def replace_problematic_def is_name_char_def is_lower_def is_upper_def
      is_digit_def strip_dashes_def is_dash_def)

lemma sanitized_bang: "sanitized ''!'' = []"
  by (simp add: sanitized_def replace_problematic_def is_name_char_def is_lower_def is_upper_def
      is_digit_def strip_dashes_def is_dash_def)

lemma getMergeRequest_example:
  "getMergeRequest (env_merge_request b) ''/repo'' 7 []
     = (Inr (JObj [(''iid'', JNum 7), (''source_branch'', JStr b), (''headRefName'', JStr b)]),
        [Exec ''which'' [''glab''] None,
         Exec ''glab'' [''mr'', ''view'', ''7'', ''--output'', ''json''] (Some ''/repo'')])"
  by (simp add: getMergeRequest_def isGlabAvailable_def ExecUtils_exists_def ExecUtils_run_def
      ExecUtils_runOrThrow_def env_merge_request_def env_base_def Number_toString.simps
      digit_char_def string_or_empty_def)

lemma getPullRequest_example:
  "getPullRequest (env_merge_request b) ''/repo'' 7 []
     = (Inr (JObj [(''iid'', JNum 7), (''source_branch'', JStr b), (''headRefName'', JStr b)]),
        [Exec ''which'' [''gh''] None,
         Exec ''gh'' [''pr'', ''view'', ''7'', ''--json'',
                      ''number,title,headRefName,baseRefName,state,url''] (Some ''/repo'')])"
  by (simp add: getPullRequest_def isGhAvailable_def ExecUtils_exists_def ExecUtils_run_def
      ExecUtils_runOrThrow_def env_merge_request_def env_base_def Number_toString.simps
      digit_char_def string_or_empty_def)

theorem generateWorktreeName_sanitizes_witness:
  "fst (generateWorktreeName_gitlab (env_merge_request ''feature/ABC-123_fix!!'') ''/repo'' 7 [])
     = Inr ''feature-ABC-123_fix''
   \<and> fst (generateWorktreeName_github (env_merge_request ''feature/ABC-123_fix!!'') ''/repo'' 7 [])
     = Inr ''feature-ABC-123_fix''
   \<and> fst (generateWorktreeName_gitlab (env_merge_request ''!'') ''/repo'' 7 []) = Inr ''mr-7''
   \<and> fst (generateWorktreeName_github (env_merge_request ''!'') ''/repo'' 7 []) = Inr ''pr-7''"
proof -
  let ?data = "\<lambda>b. JObj [(''iid'', JNum 7), (''source_branch'', JStr b), (''headRefName'', JStr b)]"
  let ?glab = "[Exec ''which'' [''glab''] None,
         Exec ''glab'' [''mr'', ''view'', ''7'', ''--output'', ''json''] (Some ''/repo'')]"
  let ?gh = "[Exec ''which'' [''gh''] None,
         Exec ''gh'' [''pr'', ''view'', ''7'', ''--json'',
                      ''number,title,headRefName,baseRefName,state,url''] (Some ''/repo'')]"
  have p: "\<And>b. js_string_property (?data b) ''source_branch'' = Inr b"
    "\<And>b. js_string_property (?data b) ''headRefName'' = Inr b"
    by (simp_all add: js_string_property_def js_get_def get_prop_def)
  have n7: "Number_toString 7 = ''7''"
    by (simp add: Number_toString.simps digit_char_def)
  have 1: "fst (generateWorktreeName_gitlab (env_merge_request ''feature/ABC-123_fix!!'') ''/repo'' 7 [])
     = Inr ''feature-ABC-123_fix''"
    using generateWorktreeName_sanitizes
      [where E = "env_merge_request ''feature/ABC-123_fix!!''" and cwd = "''/repo''" and n = 7
         and tr = "[]" and mr = "?data ''feature/ABC-123_fix!!''" and tr' = ?glab
         and b = "''feature/ABC-123_fix!!''", THEN conjunct1]
      getMergeRequest_example [of "''feature/ABC-123_fix!!''"] p
    by (simp add: sanitized_example)
  have 2: "fst (generateWorktreeName_github (env_merge_request ''feature/ABC-123_fix!!'') ''/repo'' 7 [])
     = Inr ''feature-ABC-123_fix''"
    using generateWorktreeName_sanitizes
      [where E = "env_merge_request ''feature/ABC-123_fix!!''" and cwd = "''/repo''" and n = 7
         and tr = "[]" and pr = "?data ''feature/ABC-123_fix!!''" and tr' = ?gh
         and b = "''feature/ABC-123_fix!!''", THEN conjunct2]
      getPullRequest_example [of "''feature/ABC-123_fix!!''"] p
    by (simp add: sanitized_example)
  have 3: "fst (generateWorktreeName_gitlab (env_merge_request ''!'') ''/repo'' 7 []) = Inr ''mr-7''"
    using generateWorktreeName_sanitizes
      [where E = "env_merge_request ''!''" and cwd = "''/repo''" and n = 7
         and tr = "[]" and mr = "?data ''!''" and tr' = ?glab and b = "''!''", THEN conjunct1]
      getMergeRequest_example [of "''!''"] p
    by (simp add: sanitized_bang n7)
  have 4: "fst (generateWorktreeName_github (env_merge_request ''!'') ''/repo'' 7 []) = Inr ''pr-7''"
    using generateWorktreeName_sanitizes
      [where E = "env_merge_request ''!''" and cwd = "''/repo''" and n = 7
         and tr = "[]" and pr = "?data ''!''" and tr' = ?gh and b = "''!''", THEN conjunct2]
      getPullRequest_example [of "''!''"] p
    by (simp add: sanitized_bang n7)
  from 1 2 3 4 show ?thesis by simp
qed

section \<open>Repository names from remote URLs\<close>

text \<open>
  The specification's result: the final path segment with a trailing \<open>.git\<close> stripped
  (when something is left in front of it).
\<close>

definition strip_git :: "string \<Rightarrow> string" where
  "strip_git f = (if 4 < length f \<and> endsWith f ''.git'' then take (length f - 4) f else f)"

text \<open>
  How the matcher reads the parts of the two URL patterns: a literal, a greedy run up to
  a separator, the optional group, and the lazy name followed by the optional suffixes.
\<close>

lemma rmatch_Lit_append: "rmatch (Lit l) i (l @ s) c k = k (i + length l) s c"
  by (simp add: startsWith_def)

lemma rmatch_Lit_other:
  "x \<noteq> sep \<Longrightarrow> rmatch (Lit [sep]) i (x # xs) c k = None"
  by (simp add: startsWith_def)

lemma rmatch_Lit_Nil: "rmatch (Lit [sep]) i [] c k = None"
  by (simp add: startsWith_def)

lemma plus_greedy_sep:
  "h \<noteq> [] \<Longrightarrow> sep \<notin> set h \<Longrightarrow>
   plus_greedy (\<lambda>c. c \<noteq> sep) i (h @ sep # t) (\<lambda>i' s'. rmatch (Lit [sep]) i' s' c k)
     = k (i + length h + 1) t c"
proof (induction h arbitrary: i)
  case Nil
  then show ?case by simp
next
  case (Cons x h)
  have x: "x \<noteq> sep" using Cons.prems by auto
  show ?case
  proof (cases h)
    case Nil
    have "rmatch (Lit [sep]) (Suc i) (sep # t) c k = k (Suc (Suc i)) t c"
      using rmatch_Lit_append [of "[sep]" "Suc i" t c k] by simp
    then show ?thesis using Nil x by simp
  next
    case (Cons y ys)
    have y: "y \<noteq> sep" and ne: "h \<noteq> []" and ns: "sep \<notin> set h"
      using Cons Cons.prems by auto
    have ih: "plus_greedy (\<lambda>c. c \<noteq> sep) (Suc i) (h @ sep # t)
                (\<lambda>i' s'. rmatch (Lit [sep]) i' s' c k) = k (Suc i + length h + 1) t c"
      using Cons.IH [OF ne ns] .
    have fail: "rmatch (Lit [sep]) (Suc i) (h @ sep # t) c k = None"
      using Cons y rmatch_Lit_other [of y sep "Suc i" "ys @ sep # t" c k] by simp
    show ?thesis
      using x ih fail by (cases "k (Suc i + length h + 1) t c") simp_all
  qed
qed

lemma plus_greedy_nosep:
  "sep \<notin> set s \<Longrightarrow>
   plus_greedy (\<lambda>c. c \<noteq> sep) i s (\<lambda>i' s'. rmatch (Lit [sep]) i' s' c k) = None"
proof (induction s arbitrary: i)
  case Nil
  show ?case by simp
next
  case (Cons x xs)
  have ih: "plus_greedy (\<lambda>c. c \<noteq> sep) (Suc i) xs (\<lambda>i' s'. rmatch (Lit [sep]) i' s' c k) = None"
    using Cons by simp
  have "rmatch (Lit [sep]) (Suc i) xs c k = None"
    using Cons.prems by (cases xs) (auto simp: startsWith_def)
  then show ?case using ih by simp
qed

lemma plus_lazy_first:
  "0 < n \<Longrightarrow> n \<le> length s \<Longrightarrow> \<forall>x\<in>set (take n s). p x \<Longrightarrow>
   \<forall>m. 0 < m \<and> m < n \<longrightarrow> k (i + m) (drop m s) = None \<Longrightarrow>
   k (i + n) (drop n s) = Some r \<Longrightarrow>
   plus_lazy p i s k = Some r"
proof (induction s arbitrary: i n)
  case Nil
  then show ?case by simp
next
  case (Cons x xs)
  obtain n' where n: "n = Suc n'" using Cons.prems(1) by (cases n) auto
  have px: "p x" using Cons.prems(3) n by simp
  show ?case
  proof (cases n')
    case 0
    then have "k (Suc i) xs = Some r" using Cons.prems(5) n by simp
    then show ?thesis using px by simp
  next
    case (Suc n'')
    have none: "k (Suc i) xs = None"
      using Cons.prems(4) [rule_format, of 1] n Suc by simp
    have a: "0 < n'" using Suc by simp
    have b: "n' \<le> length xs" using Cons.prems(2) n by simp
    have c: "\<forall>y\<in>set (take n' xs). p y" using Cons.prems(3) n by simp
    have d: "\<forall>m. 0 < m \<and> m < n' \<longrightarrow> k (Suc i + m) (drop m xs) = None"
    proof (intro allI impI)
      fix m assume "0 < m \<and> m < n'"
      then have "0 < Suc m \<and> Suc m < n" using n by simp
      then have "k (i + Suc m) (drop (Suc m) (x # xs)) = None"
        using Cons.prems(4) by blast
      then show "k (Suc i + m) (drop m xs) = None" by simp
    qed
    have e: "k (Suc i + n') (drop n' xs) = Some r" using Cons.prems(5) n by simp
    have "plus_lazy p (Suc i) xs k = Some r" using Cons.IH [OF a b c d e] .
    then show ?thesis using px none by simp
  qed
qed


lemma startsWith_iff: "startsWith s l \<longleftrightarrow> (\<exists>t. s = l @ t)"
proof
  assume "startsWith s l"
  then have "s = l @ drop (length l) s"
    by (metis append_take_drop_id startsWith_def)
  then show "\<exists>t. s = l @ t" ..
next
  assume "\<exists>t. s = l @ t"
  then show "startsWith s l" by (auto simp: startsWith_def)
qed

lemma tail_ssh:
  "rmatch (Seq (Opt (Lit ''.git'')) Eol) i s c (\<lambda>i' s' c'. Some c')
     = (if s = ''.git'' \<or> s = [] then Some c else None)"
proof (cases "startsWith s ''.git''")
  case True
  then obtain t where t: "s = ''.git'' @ t" using startsWith_iff by blast
  show ?thesis unfolding t by (simp add: startsWith_def)
next
  case False
  then have "s \<noteq> ''.git''" by (auto simp: startsWith_def)
  then show ?thesis using False by simp
qed

lemma tail_http:
  "rmatch (Seq (Opt (Lit ''.git'')) (Seq (Opt (Lit ''/'')) Eol)) i s c (\<lambda>i' s' c'. Some c')
     = (if s = ''.git/'' \<or> s = ''.git'' \<or> s = ''/'' \<or> s = [] then Some c else None)"
proof (cases "startsWith s ''.git''")
  case True
  then obtain t where t: "s = ''.git'' @ t" using startsWith_iff by blast
  show ?thesis
  proof (cases "startsWith t ''/''")
    case True
    then obtain u where u: "t = ''/'' @ u" using startsWith_iff by blast
    show ?thesis unfolding t u by (simp add: startsWith_def)
  next
    case False
    then have "t \<noteq> ''/''" by (auto simp: startsWith_def)
    then show ?thesis using False unfolding t by (simp add: startsWith_def)
  qed
next
  case False
  then have n: "s \<noteq> ''.git/''" "s \<noteq> ''.git''" by (auto simp: startsWith_def)
  show ?thesis
  proof (cases "startsWith s ''/''")
    case True
    then obtain u where u: "s = ''/'' @ u" using startsWith_iff by blast
    show ?thesis unfolding u by (simp add: startsWith_def)
  next
    case f: False
    then have "s \<noteq> ''/''" by (auto simp: startsWith_def)
    then show ?thesis using False f n by simp
  qed
qed


lemma group2_lazy:
  assumes T: "\<And>i s c. rmatch T i s c (\<lambda>i' s' c'. Some c') = (if s \<in> A then Some c else None)"
    and n: "0 < n" "n \<le> length s" "\<forall>x\<in>set (take n s). dot x"
    and first: "\<forall>m. 0 < m \<and> m < n \<longrightarrow> drop m s \<notin> A"
    and last: "drop n s \<in> A"
  shows "rmatch (Seq (Group 2 (PlusLazy dot)) T) i s c (\<lambda>i' s' c'. Some c')
           = Some (c(2 \<mapsto> take n s))"
proof -
  let ?k = "\<lambda>i' s'. if s' \<in> A then Some (c(2 \<mapsto> take (i' - i) s)) else None"
  have "rmatch (Seq (Group 2 (PlusLazy dot)) T) i s c (\<lambda>i' s' c'. Some c') = plus_lazy dot i s ?k"
    by (simp add: T)
  also have "\<dots> = Some (c(2 \<mapsto> take n s))"
  proof (rule plus_lazy_first [OF n])
    show "\<forall>m. 0 < m \<and> m < n \<longrightarrow> ?k (i + m) (drop m s) = None" using first by simp
    show "?k (i + n) (drop n s) = Some (c(2 \<mapsto> take n s))" using last by simp
  qed
  finally show ?thesis .
qed

lemma group2_empty:
  "rmatch (Seq (Group 2 (PlusLazy dot)) T) i [] c k = None"
  by simp

lemma strip_git_length: "f \<noteq> [] \<Longrightarrow> 0 < length (strip_git f) \<and> length (strip_git f) \<le> length f"
  by (auto simp: strip_git_def)

lemma strip_git_take: "take (length (strip_git f)) (f @ t) = strip_git f"
  by (simp add: strip_git_def)

lemma strip_git_drop:
  "drop (length (strip_git f)) f = (if 4 < length f \<and> endsWith f ''.git'' then ''.git'' else [])"
  by (simp add: strip_git_def endsWith_def eval_nat_numeral)

lemma drop_is_git:
  assumes "0 < m" "m < length (strip_git f)" "drop m f = ''.git''"
  shows False
proof -
  have "length (drop m f) = length ''.git''" using assms(3) by simp
  then have len: "length f - m = 4" by simp
  have ml: "m < length f" using assms(2) by (auto simp: strip_git_def split: if_splits)
  then have m: "m = length f - 4" using len by simp
  have "4 < length f" using assms(1) len by simp
  moreover have "endsWith f ''.git''"
    using assms(3) m len by (simp add: endsWith_def eval_nat_numeral)
  ultimately have "length (strip_git f) = length f - 4" by (simp add: strip_git_def)
  then show False using assms(2) m by simp
qed

lemma ssh_segment:
  assumes "f \<noteq> []" "\<forall>x\<in>set f. dot x"
  shows "rmatch (Seq (Group 2 (PlusLazy dot)) (Seq (Opt (Lit ''.git'')) Eol)) i f c
           (\<lambda>i' s' c'. Some c') = Some (c(2 \<mapsto> strip_git f))"
proof -
  let ?n = "length (strip_git f)"
  have T: "\<And>i s c. rmatch (Seq (Opt (Lit ''.git'')) Eol) i s c (\<lambda>i' s' c'. Some c')
      = (if s \<in> {''.git'', []} then Some c else None)"
    using tail_ssh by simp
  have n1: "0 < ?n" and n2: "?n \<le> length f" using strip_git_length [OF assms(1)] by simp_all
  have n3: "\<forall>x\<in>set (take ?n f). dot x" using assms(2) by (auto dest: in_set_takeD)
  have first: "\<forall>m. 0 < m \<and> m < ?n \<longrightarrow> drop m f \<notin> {''.git'', []}"
  proof (intro allI impI)
    fix m assume m: "0 < m \<and> m < ?n"
    then have "drop m f \<noteq> []" using n2 by simp
    moreover have "drop m f \<noteq> ''.git''" using drop_is_git [of m f] m by blast
    ultimately show "drop m f \<notin> {''.git'', []}" by simp
  qed
  have last: "drop ?n f \<in> {''.git'', []}" by (simp add: strip_git_drop)
  have "rmatch (Seq (Group 2 (PlusLazy dot)) (Seq (Opt (Lit ''.git'')) Eol)) i f c
           (\<lambda>i' s' c'. Some c') = Some (c(2 \<mapsto> take ?n f))"
    using group2_lazy [OF T n1 n2 n3 first last] .
  then show ?thesis using strip_git_take [of f "[]"] by simp
qed

lemma http_segment:
  assumes "f \<noteq> []" "\<forall>x\<in>set f. dot x" "CHR ''/'' \<notin> set f" "t = [] \<or> t = ''/''"
  shows "rmatch (Seq (Group 2 (PlusLazy dot)) (Seq (Opt (Lit ''.git'')) (Seq (Opt (Lit ''/'')) Eol)))
           i (f @ t) c (\<lambda>i' s' c'. Some c') = Some (c(2 \<mapsto> strip_git f))"
proof -
  let ?n = "length (strip_git f)"
  let ?A = "{''.git/'', ''.git'', ''/'', []}"
  have T: "\<And>i s c. rmatch (Seq (Opt (Lit ''.git'')) (Seq (Opt (Lit ''/'')) Eol)) i s c
      (\<lambda>i' s' c'. Some c') = (if s \<in> ?A then Some c else None)"
    using tail_http by simp
  have n1: "0 < ?n" and n2: "?n \<le> length f" using strip_git_length [OF assms(1)] by simp_all
  have n2': "?n \<le> length (f @ t)" using n2 by simp
  have n3: "\<forall>x\<in>set (take ?n (f @ t)). dot x"
    using assms(2) n2 by (auto dest: in_set_takeD)
  have first: "\<forall>m. 0 < m \<and> m < ?n \<longrightarrow> drop m (f @ t) \<notin> ?A"
  proof (intro allI impI)
    fix m assume m: "0 < m \<and> m < ?n"
    then have ml: "m < length f" using n2 by simp
    then have d: "drop m (f @ t) = drop m f @ t" by simp
    have ne: "drop m f \<noteq> []" using ml by simp
    have ng: "drop m f \<noteq> ''.git''" using drop_is_git [of m f] m by blast
    have sl: "CHR ''/'' \<notin> set (drop m f)" using assms(3) by (auto dest: in_set_dropD)
    have "drop m f @ t \<notin> ?A"
    proof (cases "t = []")
      case True
      have "drop m f \<noteq> ''.git/''" using sl by auto
      moreover have "drop m f \<noteq> ''/''" using sl by auto
      ultimately show ?thesis using True ne ng by simp
    next
      case False
      then have t: "t = ''/''" using assms(4) by simp
      have "drop m f @ ''/'' \<noteq> ''.git''"
      proof
        assume "drop m f @ ''/'' = ''.git''"
        then have "last (drop m f @ ''/'') = last ''.git''" by simp
        then show False by simp
      qed
      moreover have "drop m f @ ''/'' \<noteq> ''/''" using ne by simp
      moreover have "drop m f @ ''/'' \<noteq> ''.git/''"
      proof
        assume "drop m f @ ''/'' = ''.git/''"
        then have "drop m f @ ''/'' = ''.git'' @ ''/''" by simp
        then have "drop m f = ''.git''" by (simp only: append_same_eq)
        then show False using ng by simp
      qed
      ultimately show ?thesis using t by simp
    qed
    then show "drop m (f @ t) \<notin> ?A" using d by simp
  qed
  have last: "drop ?n (f @ t) \<in> ?A"
    using assms(4) n2 by (auto simp: strip_git_drop)
  have "rmatch (Seq (Group 2 (PlusLazy dot)) (Seq (Opt (Lit ''.git'')) (Seq (Opt (Lit ''/'')) Eol)))
           i (f @ t) c (\<lambda>i' s' c'. Some c') = Some (c(2 \<mapsto> take ?n (f @ t)))"
    using group2_lazy [OF T n1 n2' n3 first last] .
  then show ?thesis using strip_git_take [of f t] by simp
qed


lemma seq_plus_sep:
  assumes "h \<noteq> []" "sep \<notin> set h"
  shows "rmatch (Seq (Plus (\<lambda>c. c \<noteq> sep)) (Seq (Lit [sep]) R)) i (h @ sep # t) c k
           = rmatch R (i + length h + 1) t c k"
proof -
  have "rmatch (Seq (Plus (\<lambda>c. c \<noteq> sep)) (Seq (Lit [sep]) R)) i (h @ sep # t) c k
        = plus_greedy (\<lambda>c. c \<noteq> sep) i (h @ sep # t)
            (\<lambda>i' s'. rmatch (Lit [sep]) i' s' c (\<lambda>i'' s'' c''. rmatch R i'' s'' c'' k))"
    by (simp only: rmatch.simps(3) rmatch.simps(6))
  also have "\<dots> = rmatch R (i + length h + 1) t c k"
    using plus_greedy_sep [OF assms, of i t c "\<lambda>i'' s'' c''. rmatch R i'' s'' c'' k"] .
  finally show ?thesis .
qed

text \<open>The optional group \<open>([^/]+\/)?\<close> of both patterns.\<close>

definition group1 :: regex where
  "group1 = Group 1 (Seq (Plus (\<lambda>c. c \<noteq> CHR ''/'')) (Lit ''/''))"

lemma group1_match:
  "rmatch group1 i s c k
     = plus_greedy (\<lambda>c. c \<noteq> CHR ''/'') i s
         (\<lambda>i' s'. rmatch (Lit ''/'') i' s' c (\<lambda>i'' s'' c''. k i'' s'' (c''(1 \<mapsto> take (i'' - i) s))))"
  by (simp only: group1_def rmatch.simps(3) rmatch.simps(6) rmatch.simps(8))

lemma opt_group1_present:
  assumes "g \<noteq> []" "CHR ''/'' \<notin> set g"
    and "rmatch R (i + length g + 1) t (c(1 \<mapsto> g @ ''/'')) k = Some r"
  shows "rmatch (Seq (Opt group1) R) i (g @ CHR ''/'' # t) c k = Some r"
proof -
  let ?k = "\<lambda>i' s' c'. rmatch R i' s' c' k"
  have "rmatch group1 i (g @ CHR ''/'' # t) c ?k
        = rmatch R (i + length g + 1) t (c(1 \<mapsto> take (i + length g + 1 - i) (g @ CHR ''/'' # t))) k"
    unfolding group1_match
    using plus_greedy_sep [OF assms(1,2), of i t c
        "\<lambda>i'' s'' c''. rmatch R i'' s'' (c''(1 \<mapsto> take (i'' - i) (g @ CHR ''/'' # t))) k"] .
  then have "rmatch group1 i (g @ CHR ''/'' # t) c ?k = Some r"
    using assms(3) by simp
  then show ?thesis by (simp only: rmatch.simps(3) rmatch.simps(5) option.case)
qed

lemma opt_group1_absent:
  assumes "CHR ''/'' \<notin> set f" and "t = [] \<or> (t = ''/'' \<and> f \<noteq> [])"
    and "\<And>i c. rmatch R i [] c k = None"
  shows "rmatch (Seq (Opt group1) R) i (f @ t) c k = rmatch R i (f @ t) c k"
proof -
  let ?k = "\<lambda>i' s' c'. rmatch R i' s' c' k"
  have "rmatch group1 i (f @ t) c ?k = None"
  proof (cases "t = []")
    case True
    then show ?thesis
      unfolding group1_match using plus_greedy_nosep [OF assms(1)] by simp
  next
    case False
    then have t: "t = ''/''" and ne: "f \<noteq> []" using assms(2) by simp_all
    have "rmatch group1 i (f @ CHR ''/'' # []) c ?k
          = rmatch R (i + length f + 1) [] (c(1 \<mapsto> take (i + length f + 1 - i) (f @ CHR ''/'' # []))) k"
      unfolding group1_match
      using plus_greedy_sep [OF ne assms(1), of i "[]" c
          "\<lambda>i'' s'' c''. rmatch R i'' s'' (c''(1 \<mapsto> take (i'' - i) (f @ CHR ''/'' # []))) k"] .
    then show ?thesis using assms(3) t by simp
  qed
  then show ?thesis by (simp only: rmatch.simps(3) rmatch.simps(5) option.case)
qed

lemma match_from_first:
  "rmatch r i s (\<lambda>n. None) (\<lambda>i' s' c'. Some c') = Some c \<Longrightarrow> match_from r i s = Some c"
  by (cases s) simp_all


lemma ssh_url_pattern_eq:
  "ssh_url_pattern =
     Seq (Lit ''git@'') (Seq (Plus (\<lambda>c. c \<noteq> CHR '':'')) (Seq (Lit '':'')
       (Seq (Opt group1) (Seq (Group 2 (PlusLazy dot)) (Seq (Opt (Lit ''.git'')) Eol)))))"
  by (simp add: ssh_url_pattern_def group1_def)

lemma https_url_pattern_eq:
  "https_url_pattern =
     Seq (Lit ''http'') (Seq (Opt (Lit ''s'')) (Seq (Lit ''://'')
       (Seq (Plus (\<lambda>c. c \<noteq> CHR ''/'')) (Seq (Lit ''/'')
         (Seq (Opt group1) (Seq (Group 2 (PlusLazy dot))
            (Seq (Opt (Lit ''.git'')) (Seq (Opt (Lit ''/'')) Eol))))))))"
  by (simp add: https_url_pattern_def group1_def)

lemma seq_Lit_append:
  "rmatch (Seq (Lit l) R) i (l @ s) c k = rmatch R (i + length l) s c k"
  by (simp add: startsWith_def)

lemma opt_s_present:
  "rmatch X (i + 1) w c k = Some r \<Longrightarrow> rmatch (Seq (Opt (Lit ''s'')) X) i (CHR ''s'' # w) c k = Some r"
  by (simp add: startsWith_def)

lemma opt_s_absent:
  "rmatch (Seq (Opt (Lit ''s'')) X) i (CHR '':'' # w) c k = rmatch X i (CHR '':'' # w) c k"
  by (simp add: startsWith_def)

lemma ssh_match:
  assumes "host \<noteq> []" "CHR '':'' \<notin> set host"
    and "f \<noteq> []" "CHR ''/'' \<notin> set f" "\<forall>x\<in>set f. dot x"
    and "grp = [] \<or> (\<exists>g. g \<noteq> [] \<and> CHR ''/'' \<notin> set g \<and> grp = g @ ''/'')"
  shows "\<exists>c. rmatch ssh_url_pattern 0 (''git@'' @ host @ '':'' @ grp @ f) (\<lambda>n. None)
               (\<lambda>i' s' c'. Some c') = Some c \<and> c 2 = Some (strip_git f)"
proof -
  let ?K = "\<lambda>(i'::nat) (s'::string) (c'::captures). Some c'"
  let ?R2 = "Seq (Group 2 (PlusLazy dot)) (Seq (Opt (Lit ''.git'')) Eol)"
  let ?R1 = "Seq (Opt group1) ?R2"
  let ?c0 = "(\<lambda>n. None) :: captures"
  let ?i = "0 + length ''git@'' + length host + 1"
  have url: "''git@'' @ host @ '':'' @ grp @ f = ''git@'' @ (host @ CHR '':'' # (grp @ f))"
    by simp
  have "rmatch ssh_url_pattern 0 (''git@'' @ (host @ CHR '':'' # (grp @ f))) ?c0 ?K
        = rmatch (Seq (Plus (\<lambda>c. c \<noteq> CHR '':'')) (Seq (Lit '':'') ?R1)) (0 + length ''git@'')
            (host @ CHR '':'' # (grp @ f)) ?c0 ?K"
    unfolding ssh_url_pattern_eq by (rule seq_Lit_append)
  also have "\<dots> = rmatch ?R1 ?i (grp @ f) ?c0 ?K"
    by (rule seq_plus_sep [OF assms(1,2)])
  finally have ab: "rmatch ssh_url_pattern 0 (''git@'' @ (host @ CHR '':'' # (grp @ f))) ?c0 ?K
        = rmatch ?R1 ?i (grp @ f) ?c0 ?K" .
  have "\<exists>c. rmatch ?R1 ?i (grp @ f) ?c0 ?K = Some c \<and> c 2 = Some (strip_git f)"
  proof (cases "grp = []")
    case True
    have "rmatch ?R1 ?i (f @ []) ?c0 ?K = rmatch ?R2 ?i (f @ []) ?c0 ?K"
      by (rule opt_group1_absent [OF assms(4)]) (simp_all only: group2_empty simp_thms)
    also have "\<dots> = Some (?c0(2 \<mapsto> strip_git f))"
      unfolding append_Nil2 by (rule ssh_segment [OF assms(3,5)])
    finally show ?thesis using True by (simp del: rmatch.simps)
  next
    case False
    then obtain g where g: "g \<noteq> []" "CHR ''/'' \<notin> set g" "grp = g @ ''/''"
      using assms(6) by blast
    have "rmatch ?R2 (?i + length g + 1) f (?c0(1 \<mapsto> g @ ''/'')) ?K
          = Some ((?c0(1 \<mapsto> g @ ''/''))(2 \<mapsto> strip_git f))"
      by (rule ssh_segment [OF assms(3,5)])
    then have "rmatch ?R1 ?i (g @ CHR ''/'' # f) ?c0 ?K
          = Some ((?c0(1 \<mapsto> g @ ''/''))(2 \<mapsto> strip_git f))"
      by (rule opt_group1_present [OF g(1,2)])
    then show ?thesis using g(3) by (simp del: rmatch.simps)
  qed
  then show ?thesis unfolding url ab .
qed

lemma http_match:
  assumes "host \<noteq> []" "CHR ''/'' \<notin> set host"
    and "f \<noteq> []" "CHR ''/'' \<notin> set f" "\<forall>x\<in>set f. dot x"
    and "grp = [] \<or> (\<exists>g. g \<noteq> [] \<and> CHR ''/'' \<notin> set g \<and> grp = g @ ''/'')"
    and "scheme = ''http'' \<or> scheme = ''https''" and "t = [] \<or> t = ''/''"
  shows "\<exists>c. rmatch https_url_pattern 0 (scheme @ ''://'' @ host @ ''/'' @ grp @ f @ t) (\<lambda>n. None)
               (\<lambda>i' s' c'. Some c') = Some c \<and> c 2 = Some (strip_git f)"
proof -
  let ?K = "\<lambda>(i'::nat) (s'::string) (c'::captures). Some c'"
  let ?R2 = "Seq (Group 2 (PlusLazy dot)) (Seq (Opt (Lit ''.git'')) (Seq (Opt (Lit ''/'')) Eol))"
  let ?R1 = "Seq (Opt group1) ?R2"
  let ?P = "Seq (Plus (\<lambda>c. c \<noteq> CHR ''/'')) (Seq (Lit ''/'') ?R1)"
  let ?X = "Seq (Lit ''://'') ?P"
  let ?c0 = "(\<lambda>n. None) :: captures"
  let ?rest = "host @ CHR ''/'' # (grp @ f @ t)"
  have seg: "\<And>i c. rmatch ?R2 i (f @ t) c ?K = Some (c(2 \<mapsto> strip_git f))"
    by (rule http_segment [OF assms(3,5,4,8)])
  have r1: "\<exists>c. rmatch ?R1 i (grp @ f @ t) ?c0 ?K = Some c \<and> c 2 = Some (strip_git f)" for i
  proof (cases "grp = []")
    case True
    have tt: "t = [] \<or> (t = ''/'' \<and> f \<noteq> [])" using assms(3,8) by simp
    have "rmatch ?R1 i (f @ t) ?c0 ?K = rmatch ?R2 i (f @ t) ?c0 ?K"
      by (rule opt_group1_absent [OF assms(4) tt]) (simp only: group2_empty)
    also have "\<dots> = Some (?c0(2 \<mapsto> strip_git f))" by (rule seg)
    finally show ?thesis using True by (simp del: rmatch.simps)
  next
    case False
    obtain g where g: "g \<noteq> []" "CHR ''/'' \<notin> set g" "grp = g @ ''/''"
      using False assms(6) by blast
    have "rmatch ?R2 (i + length g + 1) (f @ t) (?c0(1 \<mapsto> g @ ''/'')) ?K
          = Some ((?c0(1 \<mapsto> g @ ''/''))(2 \<mapsto> strip_git f))"
      by (rule seg)
    then have "rmatch ?R1 i (g @ CHR ''/'' # (f @ t)) ?c0 ?K
          = Some ((?c0(1 \<mapsto> g @ ''/''))(2 \<mapsto> strip_git f))"
      by (rule opt_group1_present [OF g(1,2)])
    then show ?thesis using g(3) by (simp del: rmatch.simps)
  qed
  have x: "\<exists>c. rmatch ?X i (''://'' @ ?rest) ?c0 ?K = Some c \<and> c 2 = Some (strip_git f)" for i
  proof -
    have "rmatch ?X i (''://'' @ ?rest) ?c0 ?K = rmatch ?P (i + length ''://'') ?rest ?c0 ?K"
      by (rule seq_Lit_append)
    also have "\<dots> = rmatch ?R1 (i + length ''://'' + length host + 1) (grp @ f @ t) ?c0 ?K"
      by (rule seq_plus_sep [OF assms(1,2)])
    finally show ?thesis using r1 [of "i + length ''://'' + length host + 1"]
      by (simp only:)
  qed
  show ?thesis
  proof (cases "scheme = ''http''")
    case True
    have url: "scheme @ ''://'' @ host @ ''/'' @ grp @ f @ t = ''http'' @ (''://'' @ ?rest)"
      using True by simp
    have "rmatch https_url_pattern 0 (''http'' @ (''://'' @ ?rest)) ?c0 ?K
          = rmatch (Seq (Opt (Lit ''s'')) ?X) (0 + length ''http'') (''://'' @ ?rest) ?c0 ?K"
      unfolding https_url_pattern_eq by (rule seq_Lit_append)
    also have "\<dots> = rmatch (Seq (Opt (Lit ''s'')) ?X) (0 + length ''http'')
                         (CHR '':'' # (''//'' @ ?rest)) ?c0 ?K"
      by (simp del: rmatch.simps)
    also have "\<dots> = rmatch ?X (0 + length ''http'') (CHR '':'' # (''//'' @ ?rest)) ?c0 ?K"
      by (rule opt_s_absent)
    also have "\<dots> = rmatch ?X (0 + length ''http'') (''://'' @ ?rest) ?c0 ?K"
      by (simp del: rmatch.simps)
    finally show ?thesis unfolding url using x [of "0 + length ''http''"] by (simp only:)
  next
    case False
    then have s: "scheme = ''https''" using assms(7) by simp
    have url: "scheme @ ''://'' @ host @ ''/'' @ grp @ f @ t
        = ''http'' @ (CHR ''s'' # (''://'' @ ?rest))"
      using s by simp
    obtain c where c: "rmatch ?X (0 + length ''http'' + 1) (''://'' @ ?rest) ?c0 ?K = Some c"
      "c 2 = Some (strip_git f)"
      using x [of "0 + length ''http'' + 1"] by blast
    have "rmatch https_url_pattern 0 (''http'' @ (CHR ''s'' # (''://'' @ ?rest))) ?c0 ?K
          = rmatch (Seq (Opt (Lit ''s'')) ?X) (0 + length ''http'') (CHR ''s'' # (''://'' @ ?rest)) ?c0 ?K"
      unfolding https_url_pattern_eq by (rule seq_Lit_append)
    also have "\<dots> = Some c"
      by (rule opt_s_present [OF c(1)])
    finally show ?thesis unfolding url using c(2) by (simp only:) blast
  qed
qed


lemma extractRepoName_error_class:
  "(\<exists>n. extractRepoName url = Inr n) \<or> (\<exists>m. extractRepoName url = Inl (GitError m None))"
  by (auto simp: extractRepoName_def split: option.splits)

text \<open>
  C3, as the code has it. Let \<open>f\<close> be a final path segment (not empty, no slash, no line
  terminator), \<open>grp\<close> an optional group (empty, or a non-empty text without slash
  followed by a slash) and \<open>host\<close> a non-empty host. For the SSH shape with the user
  \<open>git\<close>, \<open>git@host:[group/]name[.git]\<close> (no colon in the host), and for the HTTP(S)
  shape \<open>scheme://host/[group/]name[.git][/]\<close> (no slash in the host), \<open>extractRepoName\<close>
  returns the final path segment with a trailing \<open>.git\<close> stripped. A URL that starts
  with neither \<open>git@\<close> nor \<open>http\<close> fails with \<open>GitError\<close>, and every failure of
  \<open>extractRepoName\<close> is a \<open>GitError\<close>.
\<close>

theorem extractRepoName_shapes:
  assumes "f \<noteq> []" "CHR ''/'' \<notin> set f" "\<forall>x\<in>set f. dot x"
    and "grp = [] \<or> (\<exists>g. g \<noteq> [] \<and> CHR ''/'' \<notin> set g \<and> grp = g @ ''/'')"
    and "host \<noteq> []"
  shows "(CHR '':'' \<notin> set host
            \<longrightarrow> extractRepoName (''git@'' @ host @ '':'' @ grp @ f) = Inr (strip_git f))
     \<and> (CHR ''/'' \<notin> set host \<and> (scheme = ''http'' \<or> scheme = ''https'') \<and> (t = [] \<or> t = ''/'')
            \<longrightarrow> extractRepoName (scheme @ ''://'' @ host @ ''/'' @ grp @ f @ t) = Inr (strip_git f))
     \<and> (\<not> startsWith url ''git@'' \<and> \<not> startsWith url ''http''
            \<longrightarrow> extractRepoName url = Inl (GitError (''Unsupported git URL format: '' @ url) None))
     \<and> ((\<exists>n. extractRepoName url = Inr n) \<or> (\<exists>m. extractRepoName url = Inl (GitError m None)))"
proof -
  have ne: "strip_git f \<noteq> []" using strip_git_length [OF assms(1)] by auto
  have ssh: "extractRepoName (''git@'' @ host @ '':'' @ grp @ f) = Inr (strip_git f)"
    if h: "CHR '':'' \<notin> set host"
  proof -
    obtain c where c: "rmatch ssh_url_pattern 0 (''git@'' @ host @ '':'' @ grp @ f) (\<lambda>n. None)
               (\<lambda>i' s' c'. Some c') = Some c" "c 2 = Some (strip_git f)"
      using ssh_match [OF assms(5) h assms(1,2,3,4)] by blast
    have m: "String_match (''git@'' @ host @ '':'' @ grp @ f) ssh_url_pattern = Some c"
      unfolding String_match_def by (rule match_from_first [OF c(1)])
    have sw: "startsWith (''git@'' @ host @ '':'' @ grp @ f) ''git@''"
      by (simp add: startsWith_def)
    show ?thesis
      unfolding extractRepoName_def using sw m c(2) ne by (simp add: group2_def)
  qed
  have http: "extractRepoName (scheme @ ''://'' @ host @ ''/'' @ grp @ f @ t) = Inr (strip_git f)"
    if h: "CHR ''/'' \<notin> set host" and sc: "scheme = ''http'' \<or> scheme = ''https''"
      and t: "t = [] \<or> t = ''/''"
  proof -
    let ?url = "scheme @ ''://'' @ host @ ''/'' @ grp @ f @ t"
    obtain c where c: "rmatch https_url_pattern 0 ?url (\<lambda>n. None) (\<lambda>i' s' c'. Some c') = Some c"
      "c 2 = Some (strip_git f)"
      using http_match [OF assms(5) h assms(1,2,3,4) sc t] by blast
    have m: "String_match ?url https_url_pattern = Some c"
      unfolding String_match_def by (rule match_from_first [OF c(1)])
    have sw: "\<not> startsWith ?url ''git@''" "startsWith ?url ''http''"
      using sc by (auto simp: startsWith_def)
    show ?thesis
      unfolding extractRepoName_def using sw m c(2) ne by (simp add: group2_def)
  qed
  have other: "\<not> startsWith url ''git@'' \<and> \<not> startsWith url ''http''
            \<longrightarrow> extractRepoName url = Inl (GitError (''Unsupported git URL format: '' @ url) None)"
    by (simp add: extractRepoName_def)
  from ssh http other extractRepoName_error_class [of url] show ?thesis by blast
qed

text \<open>The four examples of the specification.\<close>

theorem extractRepoName_shapes_witness:
  "extractRepoName ''git@github.com:user/repo.git'' = Inr ''repo''
   \<and> extractRepoName ''https://gitlab.com/user/awesome-project.git'' = Inr ''awesome-project''
   \<and> extractRepoName ''https://github.com/org/awesome-tool'' = Inr ''awesome-tool''
   \<and> extractRepoName ''ftp://example.com/repo''
       = Inl (GitError ''Unsupported git URL format: ftp://example.com/repo'' None)"
proof -
  have d: "dot x" if "x \<in> set ''repo.git'' \<union> set ''awesome-project.git'' \<union> set ''awesome-tool''" for x
    using that by (auto simp: dot_def)
  have g: "\<And>u. u \<noteq> [] \<Longrightarrow> CHR ''/'' \<notin> set u \<Longrightarrow>
      u @ ''/'' = [] \<or> (\<exists>g. g \<noteq> [] \<and> CHR ''/'' \<notin> set g \<and> u @ ''/'' = g @ ''/'')"
    by blast
  have s1: "strip_git ''repo.git'' = ''repo''"
    and s2: "strip_git ''awesome-project.git'' = ''awesome-project''"
    and s3: "strip_git ''awesome-tool'' = ''awesome-tool''"
    by (simp_all add: strip_git_def endsWith_def)
  have 1: "extractRepoName ''git@github.com:user/repo.git'' = Inr ''repo''"
    using extractRepoName_shapes [where f = "''repo.git''" and grp = "''user/''"
        and host = "''github.com''" and scheme = "''https''" and t = "[]"
        and url = "''ftp://example.com/repo''"]
      d g [of "''user''"]
    by (simp add: s1)
  have 2: "extractRepoName ''https://gitlab.com/user/awesome-project.git'' = Inr ''awesome-project''"
    using extractRepoName_shapes [where f = "''awesome-project.git''" and grp = "''user/''"
        and host = "''gitlab.com''" and scheme = "''https''" and t = "[]"
        and url = "''ftp://example.com/repo''"]
      d g [of "''user''"]
    by (simp add: s2)
  have 3: "extractRepoName ''https://github.com/org/awesome-tool'' = Inr ''awesome-tool''
     \<and> extractRepoName ''ftp://example.com/repo''
       = Inl (GitError ''Unsupported git URL format: ftp://example.com/repo'' None)"
    using extractRepoName_shapes [where f = "''awesome-tool''" and grp = "''org/''"
        and host = "''github.com''" and scheme = "''https''" and t = "[]"
        and url = "''ftp://example.com/repo''"]
      d g [of "''org''"]
    by (simp add: s3 startsWith_def)
  from 1 2 3 show ?thesis by simp
qed

text \<open>
  The claim C3 covers every SSH-shape URL \<open>user@host:[group/]name[.git]\<close>. The code
  accepts the SSH shape only for the user \<open>git\<close>: with another user the URL is rejected
  as an unsupported format.
\<close>

theorem extractRepoName_user_counterexample:
  "extractRepoName ''deploy@example.com:team/repo.git''
     = Inl (GitError ''Unsupported git URL format: deploy@example.com:team/repo.git'' None)"
  by (simp add: extractRepoName_def startsWith_def)

section \<open>Dry runs\<close>

text \<open>
  The commands that only ask: \<open>which\<close>, the \<open>git\<close> queries \<open>rev-parse --git-dir\<close>,
  \<open>remote -v\<close>, \<open>worktree list --porcelain\<close> and \<open>show-ref --verify --quiet <ref>\<close>,
  and the hosting queries \<open>glab repo view\<close> and \<open>glab mr view <id> --output json\<close>.
  An event is harmless when it is such a command or a printed line; every other command
  (\<open>worktree add\<close>, \<open>worktree remove\<close>, \<open>fetch\<close>, \<open>push\<close>, \<open>branch -D\<close>, a
  post-creation command), a directory deletion, a file write and a prompt are not.
\<close>

definition read_only_exec :: "string \<Rightarrow> string list \<Rightarrow> bool" where
  "read_only_exec command args =
     (command = ''which''
      \<or> (command = ''git''
          \<and> (args = [''rev-parse'', ''--git-dir'']
              \<or> args = [''remote'', ''-v'']
              \<or> args = [''worktree'', ''list'', ''--porcelain'']
              \<or> (length args = 4 \<and> take 3 args = [''show-ref'', ''--verify'', ''--quiet''])))
      \<or> (command = ''glab''
          \<and> (args = [''repo'', ''view'']
              \<or> (length args = 5 \<and> take 2 args = [''mr'', ''view'']
                  \<and> drop 3 args = [''--output'', ''json'']))))"

fun is_query :: "event \<Rightarrow> bool" where
  "is_query (Exec command args cwd) = read_only_exec command args"
| "is_query (RmSync p) = False"
| "is_query (WriteFile p c) = False"
| "is_query (Prompt q) = False"
| "is_query (LogInfo l) = True"
| "is_query (LogWarn l) = True"
| "is_query (LogError l) = True"
| "is_query (LogSuccess l) = True"

text \<open>An operation is quiet when every event it adds is harmless.\<close>

definition quiet :: "(event list \<Rightarrow> 'a \<times> event list) \<Rightarrow> bool" where
  "quiet m = (\<forall>tr. \<exists>evs. snd (m tr) = tr @ evs \<and> list_all is_query evs)"

lemma quietI: "(\<And>tr. \<exists>evs. snd (m tr) = tr @ evs \<and> list_all is_query evs) \<Longrightarrow> quiet m"
  by (simp add: quiet_def)

lemma quietD: "quiet m \<Longrightarrow> \<exists>evs. snd (m tr) = tr @ evs \<and> list_all is_query evs"
  by (simp add: quiet_def)

lemma quiet_return: "quiet (io_return x)"
  by (simp add: quiet_def io_return_def)

lemma quiet_throw: "quiet (io_throw e)"
  by (simp add: quiet_def io_throw_def)

lemma quiet_log: "is_query ev \<Longrightarrow> quiet (io_log ev)"
  by (simp add: quiet_def io_log_def)

lemma quiet_bind:
  assumes "quiet m" and "\<And>x. quiet (f x)"
  shows "quiet (io_bind m f)"
proof (rule quietI)
  fix tr
  obtain evs where m: "snd (m tr) = tr @ evs" "list_all is_query evs"
    using quietD [OF assms(1)] by blast
  show "\<exists>evs. snd (io_bind m f tr) = tr @ evs \<and> list_all is_query evs"
  proof (cases "m tr")
    case (Pair r tr')
    then have tr': "tr' = tr @ evs" using m(1) by simp
    show ?thesis
    proof (cases r)
      case (Inl e)
      then show ?thesis using Pair tr' m(2) by (auto simp: io_bind_def)
    next
      case (Inr x)
      obtain evs' where f: "snd (f x tr') = tr' @ evs'" "list_all is_query evs'"
        using quietD [OF assms(2)] by blast
      have "snd (io_bind m f tr) = tr @ (evs @ evs')"
        using Pair Inr f(1) tr' by (simp add: io_bind_def)
      then show ?thesis using m(2) f(2) by (metis list_all_append)
    qed
  qed
qed

lemma quiet_catch:
  assumes "quiet m" and "\<And>e. quiet (h e)"
  shows "quiet (io_catch m h)"
proof (rule quietI)
  fix tr
  obtain evs where m: "snd (m tr) = tr @ evs" "list_all is_query evs"
    using quietD [OF assms(1)] by blast
  show "\<exists>evs. snd (io_catch m h tr) = tr @ evs \<and> list_all is_query evs"
  proof (cases "m tr")
    case (Pair r tr')
    then have tr': "tr' = tr @ evs" using m(1) by simp
    show ?thesis
    proof (cases r)
      case (Inr x)
      then show ?thesis using Pair tr' m(2) by (auto simp: io_catch_def)
    next
      case (Inl e)
      obtain evs' where f: "snd (h e tr') = tr' @ evs'" "list_all is_query evs'"
        using quietD [OF assms(2)] by blast
      have "snd (io_catch m h tr) = tr @ (evs @ evs')"
        using Pair Inl f(1) tr' by (simp add: io_catch_def)
      then show ?thesis using m(2) f(2) by (metis list_all_append)
    qed
  qed
qed

lemma quiet_lift: "quiet m \<Longrightarrow> quiet (io_lift m)"
  by (simp add: quiet_def io_lift_def split: prod.splits)
     (metis snd_conv)

lemma quiet_foreach: "(\<And>x. quiet (f x)) \<Longrightarrow> quiet (io_foreach xs f)"
  by (induction xs) (simp_all add: quiet_return quiet_bind)

lemma quiet_run: "read_only_exec command args \<Longrightarrow> quiet (ExecUtils_run E command args cwd)"
  by (simp add: quiet_def ExecUtils_run_def)

lemma quiet_runOrThrow:
  "read_only_exec command args \<Longrightarrow> quiet (ExecUtils_runOrThrow E command args cwd)"
  by (simp add: quiet_def ExecUtils_runOrThrow_def ExecUtils_run_def)


lemma quiet_same_events: "(\<And>tr. snd (f tr) = snd (m tr)) \<Longrightarrow> quiet m \<Longrightarrow> quiet f"
  by (simp add: quiet_def)

lemma quiet_silent: "(\<And>tr. snd (f tr) = tr) \<Longrightarrow> quiet f"
  by (simp add: quiet_def)

lemma quiet_log_infos: "quiet (log_infos ls)"
  unfolding log_infos_def by (rule quiet_foreach) (simp add: quiet_log)

lemma quiet_isGitRepo: "quiet (isGitRepo E cwd)"
proof (rule quiet_same_events)
  show "quiet (ExecUtils_runOrThrow E ''git'' [''rev-parse'', ''--git-dir''] (Some cwd))"
    by (rule quiet_runOrThrow) (simp add: read_only_exec_def)
  show "\<And>tr. snd (isGitRepo E cwd tr)
      = snd (ExecUtils_runOrThrow E ''git'' [''rev-parse'', ''--git-dir''] (Some cwd) tr)"
    by (simp add: isGitRepo_def split: prod.splits sum.splits)
qed

lemma quiet_branchExists: "quiet (branchExists E cwd b)"
proof (rule quiet_same_events)
  show "quiet (ExecUtils_runOrThrow E ''git''
          [''show-ref'', ''--verify'', ''--quiet'', ''refs/heads/'' @ b] (Some cwd))"
    by (rule quiet_runOrThrow) (simp add: read_only_exec_def)
  show "\<And>tr. snd (branchExists E cwd b tr)
      = snd (ExecUtils_runOrThrow E ''git''
          [''show-ref'', ''--verify'', ''--quiet'', ''refs/heads/'' @ b] (Some cwd) tr)"
    by (simp add: branchExists_def split: prod.splits sum.splits)
qed

lemma quiet_listWorktrees: "quiet (listWorktrees E cwd)"
proof (rule quiet_same_events)
  show "quiet (ExecUtils_runOrThrow E ''git'' [''worktree'', ''list'', ''--porcelain''] (Some cwd))"
    by (rule quiet_runOrThrow) (simp add: read_only_exec_def)
  show "\<And>tr. snd (listWorktrees E cwd tr)
      = snd (ExecUtils_runOrThrow E ''git'' [''worktree'', ''list'', ''--porcelain''] (Some cwd) tr)"
    by (simp add: listWorktrees_def split: prod.splits sum.splits)
qed

lemma quiet_worktreeExists: "quiet (worktreeExists E cwd p)"
proof (rule quiet_same_events [OF _ quiet_listWorktrees])
  show "\<And>tr. snd (worktreeExists E cwd p tr) = snd (listWorktrees E cwd tr)"
    by (simp add: worktreeExists_def Let_def split: prod.splits sum.splits)
qed

lemma quiet_findWorktreeByName: "quiet (findWorktreeByName E cwd n)"
proof (rule quiet_same_events [OF _ quiet_listWorktrees])
  show "\<And>tr. snd (findWorktreeByName E cwd n tr) = snd (listWorktrees E cwd tr)"
    by (simp add: findWorktreeByName_def split: prod.splits sum.splits)
qed

lemma quiet_getRemotes: "quiet (getRemotes E cwd)"
  unfolding getRemotes_def
  by (intro quiet_catch quiet_bind quiet_return quiet_throw quiet_runOrThrow)
     (simp add: read_only_exec_def)

lemma quiet_generatePrefix: "quiet (generatePrefix E cwd config)"
proof (cases "prefixType config")
  case PrefixDetect
  have "quiet (remote_generatePrefix E cwd)"
    unfolding remote_generatePrefix_def getOriginUrl_def
    by (intro quiet_bind quiet_getRemotes)
       (auto intro: quiet_return quiet_throw split: option.splits sum.splits)
  then show ?thesis using PrefixDetect by (simp add: generatePrefix_def)
qed (simp_all add: generatePrefix_def quiet_return)

lemma quiet_generateWorktreeName: "quiet (generateWorktreeName E cwd config b)"
  unfolding generateWorktreeName_def
  by (intro quiet_bind quiet_generatePrefix quiet_return)

lemma quiet_initialize: "quiet (initialize E cwd)"
  unfolding initialize_def
  by (intro quiet_bind quiet_lift quiet_isGitRepo)
     (auto intro: quiet_return quiet_throw quiet_silent)

lemma quiet_exists: "quiet (ExecUtils_exists E c)"
proof (rule quiet_same_events)
  show "quiet (ExecUtils_run E ''which'' [c] None)"
    by (rule quiet_run) (simp add: read_only_exec_def)
  show "\<And>tr. snd (ExecUtils_exists E c tr) = snd (ExecUtils_run E ''which'' [c] None tr)"
    by (simp add: ExecUtils_exists_def split: prod.splits)
qed

text \<open>\<open>getMergeRequest\<close> written with the sequencing operations.\<close>

lemma getMergeRequest_as_io:
  "getMergeRequest E cwd iid =
     io_bind (io_lift (isGlabAvailable E))
       (\<lambda>avail.
          if \<not> avail
          then io_throw (GitLabError ''glab CLI is not available. Please install it first.'' None)
          else io_catch
                 (io_bind (ExecUtils_runOrThrow E ''glab''
                             [''mr'', ''view'', Number_toString iid, ''--output'', ''json'']
                             (Some cwd))
                    (\<lambda>output. case JSON_parse E output of
                                 Inl err \<Rightarrow> io_throw err
                               | Inr mrData \<Rightarrow> io_return mrData))
                 (\<lambda>err. io_throw (GitLabError (''Failed to get merge request ''
                            @ Number_toString iid @ '': '' @ message err) (Some err))))"
  by (rule ext)
     (simp add: getMergeRequest_def io_bind_def io_lift_def io_catch_def io_throw_def
        io_return_def split: prod.splits sum.splits bool.splits)

lemma quiet_getMergeRequest: "quiet (getMergeRequest E cwd iid)"
  unfolding getMergeRequest_as_io isGlabAvailable_def
  by (intro quiet_bind quiet_lift quiet_exists)
     (auto intro!: quiet_throw quiet_catch quiet_bind quiet_runOrThrow quiet_return
        simp: read_only_exec_def split: sum.splits)

lemma quiet_generateWorktreeName_gitlab: "quiet (generateWorktreeName_gitlab E cwd iid)"
proof (rule quiet_same_events [OF _ quiet_getMergeRequest])
  show "\<And>tr. snd (generateWorktreeName_gitlab E cwd iid tr) = snd (getMergeRequest E cwd iid tr)"
    by (simp add: generateWorktreeName_gitlab_def Let_def split: prod.splits sum.splits)
qed

lemma quiet_isGitLabProject: "quiet (isGitLabProject E cwd)"
proof (rule quietI)
  fix tr
  obtain evs where a: "snd (ExecUtils_exists E ''glab'' tr) = tr @ evs" "list_all is_query evs"
    using quietD [OF quiet_exists] by blast
  have ro: "read_only_exec ''glab'' [''repo'', ''view'']" by (simp add: read_only_exec_def)
  obtain evs' where b: "snd (ExecUtils_runOrThrow E ''glab'' [''repo'', ''view''] (Some cwd) (tr @ evs))
      = (tr @ evs) @ evs'" "list_all is_query evs'"
    using quietD [OF quiet_runOrThrow [OF ro]] by blast
  have "snd (isGitLabProject E cwd tr) = tr @ evs \<or> snd (isGitLabProject E cwd tr) = tr @ (evs @ evs')"
    using a(1) b(1)
    by (auto simp: isGitLabProject_def isGlabAvailable_def split: prod.splits sum.splits bool.splits)
  then show "\<exists>evs. snd (isGitLabProject E cwd tr) = tr @ evs \<and> list_all is_query evs"
    using a(2) b(2) by (metis list_all_append)
qed


lemma log_infos_events: "log_infos ls tr = (Inr (), tr @ map LogInfo ls)"
  unfolding log_infos_def
  by (induction ls arbitrary: tr) (simp_all add: io_return_def io_bind_def io_log_def)

lemma quiet_NewCommand_prepare: "quiet (NewCommand_prepare E cwd name options)"
  unfolding NewCommand_prepare_def Let_def
  by (intro quiet_bind quiet_initialize quiet_generateWorktreeName quiet_worktreeExists)
     (auto intro!: quiet_throw quiet_bind quiet_lift quiet_branchExists quiet_return)

lemma quiet_MRCommand_prepare: "quiet (MRCommand_prepare E cwd mrNumber options)"
  unfolding MRCommand_prepare_def Let_def
  by (intro quiet_bind quiet_initialize)
     (auto intro!: quiet_throw quiet_bind quiet_lift quiet_isGitLabProject quiet_getMergeRequest
        quiet_generateWorktreeName_gitlab quiet_generateWorktreeName quiet_worktreeExists
        quiet_log_infos quiet_return
        split: option.splits sum.splits)

lemma quiet_RemoveCommand_not_found: "quiet (RemoveCommand_not_found E cwd name)"
  unfolding RemoveCommand_not_found_def Let_def
  by (intro quiet_bind quiet_listWorktrees)
     (auto intro!: quiet_throw quiet_bind quiet_log quiet_log_infos)

lemma quiet_RemoveCommand_prepare: "quiet (RemoveCommand_prepare E cwd name)"
  unfolding RemoveCommand_prepare_def
  by (intro quiet_bind quiet_initialize quiet_generateWorktreeName quiet_findWorktreeByName)
     (auto intro!: quiet_return quiet_findWorktreeByName quiet_RemoveCommand_not_found
        quiet_bind quiet_log_infos split: option.splits)

lemma dry_run_after_prepare:
  assumes "quiet prepare"
    and "\<And>x. quiet (rest x)"
  shows "\<exists>evs. snd (io_bind prepare rest tr) = tr @ evs \<and> list_all is_query evs"
  using quietD [OF quiet_bind [OF assms]] .

text \<open>
  C10. For each of \<open>new\<close>, \<open>mr\<close> and \<open>rm\<close> invoked with the dry-run flag: every event
  of the whole run is a query or a printed line, so no worktree is created or removed, no
  branch is created, fetched, pushed or deleted, no post-creation command runs, nothing
  is written or deleted and nothing is asked; and in every state in which the operation
  reaches the dry-run check (the part before the check returns its context), the
  operation returns normally, having added only the lines of its plan.
\<close>

theorem dry_run_only_prints_the_plan:
  "(opt_dryRun nopts \<longrightarrow>
      (\<exists>evs. snd (NewCommand_execute E cwd name nopts tr) = tr @ evs \<and> list_all is_query evs)
      \<and> (\<forall>ctx tr1. NewCommand_prepare E cwd name nopts tr = (Inr ctx, tr1) \<longrightarrow>
            NewCommand_execute E cwd name nopts tr
              = (Inr (), tr1 @ map LogInfo (NewCommand_plan ctx))))
   \<and> (opt_dryRun mopts \<longrightarrow>
      (\<exists>evs. snd (MRCommand_execute E cwd number mopts tr) = tr @ evs \<and> list_all is_query evs)
      \<and> (\<forall>ctx tr1. MRCommand_prepare E cwd number mopts tr = (Inr (Some ctx), tr1) \<longrightarrow>
            MRCommand_execute E cwd number mopts tr
              = (Inr (), tr1 @ map LogInfo (MRCommand_plan ctx))))
   \<and> (opt_dryRun ropts \<longrightarrow>
      (\<exists>evs. snd (RemoveCommand_execute E cwd name ropts tr) = tr @ evs \<and> list_all is_query evs)
      \<and> (\<forall>wt tr1. RemoveCommand_prepare E cwd name tr = (Inr wt, tr1) \<longrightarrow>
            RemoveCommand_execute E cwd name ropts tr
              = (Inr (), tr1 @ map LogInfo (RemoveCommand_plan wt))))"
proof (intro conjI impI allI)
  assume d: "opt_dryRun nopts"
  show "\<exists>evs. snd (NewCommand_execute E cwd name nopts tr) = tr @ evs \<and> list_all is_query evs"
    unfolding NewCommand_execute_def
    by (rule dry_run_after_prepare [OF quiet_NewCommand_prepare]) (simp add: d quiet_log_infos)
next
  fix ctx tr1
  assume "opt_dryRun nopts" "NewCommand_prepare E cwd name nopts tr = (Inr ctx, tr1)"
  then show "NewCommand_execute E cwd name nopts tr
      = (Inr (), tr1 @ map LogInfo (NewCommand_plan ctx))"
    by (simp add: NewCommand_execute_def io_bind_def log_infos_events)
next
  assume d: "opt_dryRun mopts"
  show "\<exists>evs. snd (MRCommand_execute E cwd number mopts tr) = tr @ evs \<and> list_all is_query evs"
    unfolding MRCommand_execute_def
    by (rule dry_run_after_prepare [OF quiet_MRCommand_prepare])
       (simp add: d quiet_log_infos quiet_return split: option.splits)
next
  fix ctx tr1
  assume "opt_dryRun mopts" "MRCommand_prepare E cwd number mopts tr = (Inr (Some ctx), tr1)"
  then show "MRCommand_execute E cwd number mopts tr
      = (Inr (), tr1 @ map LogInfo (MRCommand_plan ctx))"
    by (simp add: MRCommand_execute_def io_bind_def log_infos_events)
next
  assume d: "opt_dryRun ropts"
  show "\<exists>evs. snd (RemoveCommand_execute E cwd name ropts tr) = tr @ evs \<and> list_all is_query evs"
    unfolding RemoveCommand_execute_def
    by (rule dry_run_after_prepare [OF quiet_RemoveCommand_prepare]) (simp add: d quiet_log_infos)
next
  fix wt tr1
  assume "opt_dryRun ropts" "RemoveCommand_prepare E cwd name tr = (Inr wt, tr1)"
  then show "RemoveCommand_execute E cwd name ropts tr
      = (Inr (), tr1 @ map LogInfo (RemoveCommand_plan wt))"
    by (simp add: RemoveCommand_execute_def io_bind_def log_infos_events)
qed


text \<open>
  A repository with one extra worktree \<open>/worktrees/login\<close>, no configuration file, no
  existing branch of the asked name, and a merge request 7 on the branch \<open>fix/login\<close>;
  the three commands with the dry-run flag.
\<close>

definition listing_one_worktree :: string where
  "listing_one_worktree =
     ''worktree /worktrees/login'' @ [newline] @ ''HEAD 2222'' @ [newline]
     @ ''branch refs/heads/login''"

definition env_dry_run :: env where
  "env_dry_run =
     env_base\<lparr>execa := (\<lambda>tr command args cwd.
         if take 1 args = [''show-ref'']
         then Rejects \<lparr>r_stdout = None, r_stderr = None, r_exitCode = Some 1\<rparr>
         else if args = [''worktree'', ''list'', ''--porcelain'']
         then Resolves \<lparr>r_stdout = Some listing_one_worktree, r_stderr = None, r_exitCode = Some 0\<rparr>
         else Resolves \<lparr>r_stdout = Some [], r_stderr = Some [], r_exitCode = Some 0\<rparr>),
       JSON_parse := (\<lambda>s. Inr (JObj [(''iid'', JNum 7), (''title'', JStr ''Fix login''),
                                       (''source_branch'', JStr ''fix/login'')]))\<rparr>"

definition dry_new :: NewCommandOptions where
  "dry_new = \<lparr>opt_verbose = False, opt_dryRun = True, opt_branch = None, opt_noPush = False\<rparr>"

definition dry_mr :: MRCommandOptions where
  "dry_mr = \<lparr>opt_verbose = False, opt_dryRun = True, opt_checkout = False\<rparr>"

definition dry_rm :: RemoveCommandOptions where
  "dry_rm = \<lparr>opt_verbose = False, opt_dryRun = True, opt_force = True\<rparr>"

lemma dry_initialize:
  "initialize env_dry_run ''/repo'' tr
     = (Inr defaultConfig, tr @ [Exec ''git'' [''rev-parse'', ''--git-dir''] (Some ''/repo'')])"
  by (simp add: initialize_def io_bind_def io_lift_def io_return_def isGitRepo_def
      ExecUtils_runOrThrow_def ExecUtils_run_def env_dry_run_def env_base_def loadConfig_def
      new_ConfigManager_def loadGlobalConfig_def loadLocalConfig_def globalConfigPath_def
      localConfigPath_def mergeConfigs_def Let_def string_or_empty_def)

lemma dry_listWorktrees:
  "listWorktrees env_dry_run ''/repo'' tr
     = (Inr [\<lparr>path = Some ''/worktrees/login'', branch = Some ''refs/heads/login'',
              commit = Some ''2222'', bare = None, detached = None\<rparr>],
        tr @ [Exec ''git'' [''worktree'', ''list'', ''--porcelain''] (Some ''/repo'')])"
  by (simp add: listWorktrees_def ExecUtils_runOrThrow_def ExecUtils_run_def env_dry_run_def
      env_base_def string_or_empty_def listing_one_worktree_def porcelain_lines_def trim_def
      is_ws_def newline_def parse_lines_def listWorktrees_step_def startsWith_def
      empty_worktree_def has_path_def)

lemma dry_paths:
  "path_join env_dry_run a b = a @ ''/'' @ b"
  "path_isAbsolute env_dry_run p = (take 1 p = ''/'')"
  "path_resolve env_dry_run [q] = (if take 1 q = ''/'' then q else ''/'' @ q)"
  by (simp_all add: env_dry_run_def env_base_def)

lemma dry_branchExists:
  "branchExists env_dry_run ''/repo'' b tr
     = (False, tr @ [Exec ''git'' [''show-ref'', ''--verify'', ''--quiet'', ''refs/heads/'' @ b]
                       (Some ''/repo'')])"
  by (simp add: branchExists_def ExecUtils_runOrThrow_def ExecUtils_run_def env_dry_run_def
      env_base_def string_or_empty_def)

lemma dry_new_prepare:
  "opt_branch options = None \<Longrightarrow>
   NewCommand_prepare env_dry_run ''/repo'' ''feature-x'' options []
     = (Inr \<lparr>new_config = defaultConfig, new_worktreeName = ''feature-x'',
             new_worktreePath = ''/repo/../worktrees/feature-x'', new_branchName = ''feature-x''\<rparr>,
        [Exec ''git'' [''rev-parse'', ''--git-dir''] (Some ''/repo''),
         Exec ''git'' [''worktree'', ''list'', ''--porcelain''] (Some ''/repo''),
         Exec ''git'' [''show-ref'', ''--verify'', ''--quiet'', ''refs/heads/feature-x'']
           (Some ''/repo'')])"
proof -
  assume b: "opt_branch options = None"
  have p: "prefixType defaultConfig = PrefixNone" "worktreeDir defaultConfig = ''../worktrees''"
    by (simp_all add: defaultConfig_def)
  show ?thesis
    by (simp add: NewCommand_prepare_def io_bind_def dry_initialize generateWorktreeName_def
        generatePrefix_def p io_return_def io_throw_def io_lift_def
        resolveWorktreePath_def worktreeExists_def dry_listWorktrees Let_def b
        dry_branchExists dry_paths string_or_empty_def)
qed

definition dry_mr_data :: js_value where
  "dry_mr_data = JObj [(''iid'', JNum 7), (''title'', JStr ''Fix login''),
                       (''source_branch'', JStr ''fix/login'')]"

lemma dry_getMergeRequest:
  "getMergeRequest env_dry_run ''/repo'' 7 tr
     = (Inr dry_mr_data,
        tr @ [Exec ''which'' [''glab''] None,
              Exec ''glab'' [''mr'', ''view'', ''7'', ''--output'', ''json''] (Some ''/repo'')])"
  by (simp add: getMergeRequest_def isGlabAvailable_def ExecUtils_exists_def ExecUtils_run_def
      ExecUtils_runOrThrow_def env_dry_run_def env_base_def Number_toString.simps
      digit_char_def string_or_empty_def dry_mr_data_def)

lemma dry_isGitLabProject:
  "isGitLabProject env_dry_run ''/repo'' tr
     = (True, tr @ [Exec ''which'' [''glab''] None,
                    Exec ''glab'' [''repo'', ''view''] (Some ''/repo'')])"
  by (simp add: isGitLabProject_def isGlabAvailable_def ExecUtils_exists_def ExecUtils_run_def
      ExecUtils_runOrThrow_def env_dry_run_def env_base_def string_or_empty_def)

lemma dry_generateWorktreeName_gitlab:
  "generateWorktreeName_gitlab env_dry_run ''/repo'' 7 tr
     = (Inr ''fix-login'',
        tr @ [Exec ''which'' [''glab''] None,
              Exec ''glab'' [''mr'', ''view'', ''7'', ''--output'', ''json''] (Some ''/repo'')])"
proof -
  have s: "sanitized ''fix/login'' = ''fix-login''"
    by (simp add: sanitized_def replace_problematic_def is_name_char_def is_lower_def
        is_upper_def is_digit_def strip_dashes_def is_dash_def)
  have p: "js_string_property dry_mr_data ''source_branch'' = Inr ''fix/login''"
    by (simp add: js_string_property_def js_get_def get_prop_def dry_mr_data_def)
  show ?thesis
    by (simp add: generateWorktreeName_gitlab_def dry_getMergeRequest p three_replaces s Let_def)
qed

lemma dry_mr_prepare:
  "MRCommand_prepare env_dry_run ''/repo'' ''7'' dry_mr []
     = (Inr (Some \<lparr>mr_config = defaultConfig, mr_iid = 7, mr_data = dry_mr_data,
                   mr_worktreeName = ''fix-login'',
                   mr_worktreePath = ''/repo/../worktrees/fix-login''\<rparr>),
        [Exec ''git'' [''rev-parse'', ''--git-dir''] (Some ''/repo''),
         Exec ''which'' [''glab''] None,
         Exec ''glab'' [''repo'', ''view''] (Some ''/repo''),
         Exec ''which'' [''glab''] None,
         Exec ''glab'' [''mr'', ''view'', ''7'', ''--output'', ''json''] (Some ''/repo''),
         Exec ''which'' [''glab''] None,
         Exec ''glab'' [''mr'', ''view'', ''7'', ''--output'', ''json''] (Some ''/repo''),
         Exec ''git'' [''worktree'', ''list'', ''--porcelain''] (Some ''/repo'')])"
proof -
  have p: "prefixType defaultConfig = PrefixNone" "worktreeDir defaultConfig = ''../worktrees''"
    by (simp_all add: defaultConfig_def)
  have n: "parseInt10 ''7'' = Some 7"
    by (simp add: parseInt10_def is_ws_def is_digit_def digit_val_def Let_def)
  have t: "js_get dry_mr_data ''title'' = Inr (JStr ''Fix login'')"
    by (simp add: js_get_def get_prop_def dry_mr_data_def)
  show ?thesis
    by (simp add: MRCommand_prepare_def io_bind_def dry_initialize n dry_isGitLabProject
        dry_getMergeRequest t dry_generateWorktreeName_gitlab generateWorktreeName_def
        generatePrefix_def p io_return_def io_throw_def io_lift_def resolveWorktreePath_def
        worktreeExists_def dry_listWorktrees Let_def dry_mr_def dry_paths string_or_empty_def)
qed

lemma dry_rm_prepare:
  "RemoveCommand_prepare env_dry_run ''/repo'' ''login'' []
     = (Inr \<lparr>path = Some ''/worktrees/login'', branch = Some ''refs/heads/login'',
             commit = Some ''2222'', bare = None, detached = None\<rparr>,
        [Exec ''git'' [''rev-parse'', ''--git-dir''] (Some ''/repo''),
         Exec ''git'' [''worktree'', ''list'', ''--porcelain''] (Some ''/repo''),
         LogInfo ''Found worktree: /worktrees/login'',
         LogInfo ''Branch: refs/heads/login''])"
proof -
  have p: "prefixType defaultConfig = PrefixNone"
    by (simp add: defaultConfig_def)
  show ?thesis
    by (simp add: RemoveCommand_prepare_def io_bind_def dry_initialize generateWorktreeName_def
        generatePrefix_def p io_return_def findWorktreeByName_def dry_listWorktrees
        endsWith_def string_or_empty_def log_infos_events template_opt_def)
qed

theorem dry_run_only_prints_the_plan_witness:
  "opt_dryRun dry_new \<and> opt_dryRun dry_mr \<and> opt_dryRun dry_rm
   \<and> NewCommand_execute env_dry_run ''/repo'' ''feature-x'' dry_new []
       = (Inr (),
          [Exec ''git'' [''rev-parse'', ''--git-dir''] (Some ''/repo''),
           Exec ''git'' [''worktree'', ''list'', ''--porcelain''] (Some ''/repo''),
           Exec ''git'' [''show-ref'', ''--verify'', ''--quiet'', ''refs/heads/feature-x'']
             (Some ''/repo''),
           LogInfo ''Dry run mode - would create:'',
           LogInfo ''  Worktree: /repo/../worktrees/feature-x'',
           LogInfo ''  Branch: feature-x''])
   \<and> MRCommand_execute env_dry_run ''/repo'' ''7'' dry_mr []
       = (Inr (),
          [Exec ''git'' [''rev-parse'', ''--git-dir''] (Some ''/repo''),
           Exec ''which'' [''glab''] None,
           Exec ''glab'' [''repo'', ''view''] (Some ''/repo''),
           Exec ''which'' [''glab''] None,
           Exec ''glab'' [''mr'', ''view'', ''7'', ''--output'', ''json''] (Some ''/repo''),
           Exec ''which'' [''glab''] None,
           Exec ''glab'' [''mr'', ''view'', ''7'', ''--output'', ''json''] (Some ''/repo''),
           Exec ''git'' [''worktree'', ''list'', ''--porcelain''] (Some ''/repo''),
           LogInfo ''Dry run mode - would create:'',
           LogInfo ''  Worktree: /repo/../worktrees/fix-login'',
           LogInfo ''  Branch: fix/login'',
           LogInfo ''  MR: Fix login''])
   \<and> RemoveCommand_execute env_dry_run ''/repo'' ''login'' dry_rm []
       = (Inr (),
          [Exec ''git'' [''rev-parse'', ''--git-dir''] (Some ''/repo''),
           Exec ''git'' [''worktree'', ''list'', ''--porcelain''] (Some ''/repo''),
           LogInfo ''Found worktree: /worktrees/login'',
           LogInfo ''Branch: refs/heads/login'',
           LogInfo ''Dry run mode - would remove:'',
           LogInfo ''  Worktree: /worktrees/login'',
           LogInfo ''  Branch: refs/heads/login''])"
proof -
  have d: "opt_dryRun dry_new" "opt_dryRun dry_mr" "opt_dryRun dry_rm"
    by (simp_all add: dry_new_def dry_mr_def dry_rm_def)
  note T = dry_run_only_prints_the_plan
    [where nopts = dry_new and mopts = dry_mr and ropts = dry_rm and E = env_dry_run
       and cwd = "''/repo''" and tr = "[]"]
  have 1: "NewCommand_execute env_dry_run ''/repo'' ''feature-x'' dry_new []
       = (Inr (),
          [Exec ''git'' [''rev-parse'', ''--git-dir''] (Some ''/repo''),
           Exec ''git'' [''worktree'', ''list'', ''--porcelain''] (Some ''/repo''),
           Exec ''git'' [''show-ref'', ''--verify'', ''--quiet'', ''refs/heads/feature-x'']
             (Some ''/repo''),
           LogInfo ''Dry run mode - would create:'',
           LogInfo ''  Worktree: /repo/../worktrees/feature-x'',
           LogInfo ''  Branch: feature-x''])"
    using T [where name = "''feature-x''", THEN conjunct1] d(1) dry_new_prepare [of dry_new]
    by (simp add: NewCommand_plan_def post_command_plan_def defaultConfig_def dry_new_def)
  have 2: "MRCommand_execute env_dry_run ''/repo'' ''7'' dry_mr []
       = (Inr (),
          [Exec ''git'' [''rev-parse'', ''--git-dir''] (Some ''/repo''),
           Exec ''which'' [''glab''] None,
           Exec ''glab'' [''repo'', ''view''] (Some ''/repo''),
           Exec ''which'' [''glab''] None,
           Exec ''glab'' [''mr'', ''view'', ''7'', ''--output'', ''json''] (Some ''/repo''),
           Exec ''which'' [''glab''] None,
           Exec ''glab'' [''mr'', ''view'', ''7'', ''--output'', ''json''] (Some ''/repo''),
           Exec ''git'' [''worktree'', ''list'', ''--porcelain''] (Some ''/repo''),
           LogInfo ''Dry run mode - would create:'',
           LogInfo ''  Worktree: /repo/../worktrees/fix-login'',
           LogInfo ''  Branch: fix/login'',
           LogInfo ''  MR: Fix login''])"
    using T [where number = "''7''", THEN conjunct2, THEN conjunct1] d(2) dry_mr_prepare
    by (simp add: MRCommand_plan_def post_command_plan_def defaultConfig_def mr_field_def
        js_get_def get_prop_def dry_mr_data_def)
  have 3: "RemoveCommand_execute env_dry_run ''/repo'' ''login'' dry_rm []
       = (Inr (),
          [Exec ''git'' [''rev-parse'', ''--git-dir''] (Some ''/repo''),
           Exec ''git'' [''worktree'', ''list'', ''--porcelain''] (Some ''/repo''),
           LogInfo ''Found worktree: /worktrees/login'',
           LogInfo ''Branch: refs/heads/login'',
           LogInfo ''Dry run mode - would remove:'',
           LogInfo ''  Worktree: /worktrees/login'',
           LogInfo ''  Branch: refs/heads/login''])"
    using T [where name = "''login''", THEN conjunct2, THEN conjunct2] d(3) dry_rm_prepare
    by (simp add: RemoveCommand_plan_def string_or_empty_def template_opt_def)
  from d 1 2 3 show ?thesis by simp
qed


text \<open>
  For comparison, \<open>new\<close> without the dry-run flag in the same repository: the worktree
  is added and the branch is pushed.
\<close>

definition really_new :: NewCommandOptions where
  "really_new = \<lparr>opt_verbose = False, opt_dryRun = False, opt_branch = None, opt_noPush = False\<rparr>"

lemma new_without_dry_run_creates:
  "NewCommand_execute env_dry_run ''/repo'' ''feature-x'' really_new []
     = (Inr (),
        [Exec ''git'' [''rev-parse'', ''--git-dir''] (Some ''/repo''),
         Exec ''git'' [''worktree'', ''list'', ''--porcelain''] (Some ''/repo''),
         Exec ''git'' [''show-ref'', ''--verify'', ''--quiet'', ''refs/heads/feature-x'']
           (Some ''/repo''),
         Exec ''git'' [''worktree'', ''add'', ''-b'', ''feature-x'', ''/repo/../worktrees/feature-x'']
           (Some ''/repo''),
         Exec ''git'' [''push'', ''-u'', ''origin'', ''feature-x'']
           (Some ''/repo/../worktrees/feature-x''),
         LogSuccess (''Worktree '' @ [CHR 0x27] @ ''feature-x'' @ [CHR 0x27]
                     @ '' is ready at: /repo/../worktrees/feature-x'')])"
proof -
  have o: "opt_branch really_new = None" "\<not> opt_dryRun really_new" "\<not> opt_noPush really_new"
    by (simp_all add: really_new_def)
  have ex: "\<And>args cwd tr. take 1 args \<noteq> [''show-ref''] \<Longrightarrow>
      args \<noteq> [''worktree'', ''list'', ''--porcelain''] \<Longrightarrow>
      ExecUtils_runOrThrow env_dry_run ''git'' args cwd tr = (Inr [], tr @ [Exec ''git'' args cwd])"
    by (simp add: ExecUtils_runOrThrow_def ExecUtils_run_def env_dry_run_def env_base_def
        string_or_empty_def)
  show ?thesis
    by (simp add: NewCommand_execute_def dry_new_prepare [OF o(1)] io_bind_def
        NewCommand_create_def createWorktree_def Let_def ex defaultConfig_def io_return_def
        io_catch_def io_log_def o)
qed

section \<open>Availability of the hosting CLI\<close>

text \<open>
  C6. The claim: \<open>isAvailable()\<close> is true exactly when the hosting CLI binary is
  resolvable on the path, and false when the binary is absent. The code: \<open>ExecUtils.run\<close>
  never throws, so \<open>ExecUtils.exists\<close> never reaches its \<open>catch\<close> branch; in the
  environment where \<open>which glab\<close> and \<open>which gh\<close> exit with status 1, both
  \<open>isGlabAvailable\<close> and \<open>isGhAvailable\<close> still answer true.
\<close>

theorem isAvailable_true_when_binary_absent:
  "exitCode (fst (ExecUtils_run env_nothing_installed ''which'' [''glab''] None [])) = 1
   \<and> fst (isGlabAvailable env_nothing_installed []) = True
   \<and> exitCode (fst (ExecUtils_run env_nothing_installed ''which'' [''gh''] None [])) = 1
   \<and> fst (isGhAvailable env_nothing_installed []) = True"
  by (simp add: isGlabAvailable_def isGhAvailable_def ExecUtils_exists_def ExecUtils_run_def
      env_nothing_installed_def env_base_def string_or_empty_def)

end
